theory Spec2Isabelle
  imports Complex_Main
begin

section \<open>The trade calculation core of \<^verbatim>\<open>src/lib/tradeCalc.ts\<close>\<close>

text \<open>
  The file holds two models of the TypeScript type \<^verbatim>\<open>number\<close>. The first one reads a
  number as a \<^typ>\<open>real\<close>: every value is finite and arithmetic is exact. It carries the
  statements that are made of comparisons, of \<^verbatim>\<open>Math.max\<close>, of \<^verbatim>\<open>toFixed(8)\<close> and
  of the code's own expressions, which do not depend on how a result is rounded. The
  second one, in the subsections on doubles, reads a number as an IEEE 754 binary64 value
  with round-to-nearest arithmetic, \<^verbatim>\<open>NaN\<close> and the two infinities. It carries the
  statements about the exact values a call returns, about a numeric tolerance, about
  algebraic identities and about finiteness (claims C1, C5, C7 and C10). The functions of
  the second model bear the name of the source function with a final \<open>D\<close>.

  An optional field \<^verbatim>\<open>f?: T\<close> is a field of type \<open>T option\<close>, \<open>None\<close> standing for
  \<^verbatim>\<open>undefined\<close>; a \<^verbatim>\<open>throw new Error(msg)\<close> is the value \<open>Inl (Error msg)\<close>.
\<close>

subsection \<open>Data model\<close>

datatype TradeDirection = Long | Short

datatype StopType = FixedPercent | AtrMultiple | FixedPoints

datatype SetupType = Breakout | FalseBreakout

datatype RiskMode = risk_cash | risk_percent | notional

text \<open>\<^verbatim>\<open>number | RangeUnknown\<close>, the type of \<^verbatim>\<open>rangeOverStop\<close>.\<close>

datatype RangeRatio = Ratio real | RANGE_UNKNOWN

text \<open>
  The one field whose source expression names \<^verbatim>\<open>Number.POSITIVE_INFINITY\<close>
  (\<^verbatim>\<open>stopAtrPercent\<close>) carries its own constructor for it.
\<close>

datatype Percent = Finite real | POSITIVE_INFINITY

datatype error = Error string

subsection \<open>IEEE doubles\<close>

text \<open>
  The second model of this file reads \<^verbatim>\<open>number\<close> as an IEEE 754 binary64 value: a
  finite one, written as the real number it denotes, one of the two infinities, or
  \<^verbatim>\<open>NaN\<close>. Every arithmetic operation computes the exact real result and rounds it to
  the nearest double, ties to even, overflowing to an infinity. The one thing left out
  is the sign of zero: the only operation of the source that tells \<open>+0\<close> from \<open>-0\<close> is
  a division by zero, and every divisor of \<^verbatim>\<open>tradeCalc.ts\<close> is tested positive before
  it is used.
\<close>

datatype number = Fin real | PInf | NInf | NaN

text \<open>The nearest integer, the even one on a tie.\<close>

definition rne :: "real \<Rightarrow> int" where
  "rne q =
     (let f = \<lfloor>q\<rfloor>; d = q - real_of_int f
      in if d < 1 / 2 then f else if 1 / 2 < d then f + 1 else if even f then f else f + 1)"

text \<open>
  The exponent of the unit in the last place of the doubles around \<open>x\<close>: 53 significant
  bits, and the subnormal grid \<open>2^-1074\<close> at the bottom.
\<close>

definition expo :: "real \<Rightarrow> int" where
  "expo x = max (\<lfloor>log 2 \<bar>x\<bar>\<rfloor> - 52) (- 1074)"

text \<open>Rounding to the grid of doubles, with no bound on the exponent.\<close>

definition rnd :: "real \<Rightarrow> real" where
  "rnd x = (if x = 0 then 0 else real_of_int (rne (x / 2 powi expo x)) * 2 powi expo x)"

text \<open>
  Rounding to a double. The largest double is \<open>2^1024 - 2^971\<close>; from half a unit above
  it the result is an infinity.
\<close>

definition rd :: "real \<Rightarrow> number" where
  "rd x =
     (if 2 ^ 1024 - 2 ^ 970 \<le> x then PInf
      else if x \<le> - (2 ^ 1024 - 2 ^ 970) then NInf
      else Fin (rnd x))"

text \<open>A decimal literal of the source denotes the double nearest to it.\<close>

definition D :: "real \<Rightarrow> number" where
  "D x = rd x"

fun fneg :: "number \<Rightarrow> number" where
  "fneg (Fin x) = Fin (- x)"
| "fneg PInf = NInf"
| "fneg NInf = PInf"
| "fneg NaN = NaN"

fun fadd :: "number \<Rightarrow> number \<Rightarrow> number" where
  "fadd (Fin x) (Fin y) = rd (x + y)"
| "fadd NaN b = NaN"
| "fadd a NaN = NaN"
| "fadd PInf NInf = NaN"
| "fadd NInf PInf = NaN"
| "fadd PInf b = PInf"
| "fadd a PInf = PInf"
| "fadd NInf b = NInf"
| "fadd a NInf = NInf"

definition fsub :: "number \<Rightarrow> number \<Rightarrow> number" where
  "fsub a b = fadd a (fneg b)"

fun fmul :: "number \<Rightarrow> number \<Rightarrow> number" where
  "fmul (Fin x) (Fin y) = rd (x * y)"
| "fmul NaN b = NaN"
| "fmul a NaN = NaN"
| "fmul PInf (Fin y) = (if y = 0 then NaN else if 0 < y then PInf else NInf)"
| "fmul NInf (Fin y) = (if y = 0 then NaN else if 0 < y then NInf else PInf)"
| "fmul (Fin x) PInf = (if x = 0 then NaN else if 0 < x then PInf else NInf)"
| "fmul (Fin x) NInf = (if x = 0 then NaN else if 0 < x then NInf else PInf)"
| "fmul PInf PInf = PInf"
| "fmul PInf NInf = NInf"
| "fmul NInf PInf = NInf"
| "fmul NInf NInf = PInf"

fun fdiv :: "number \<Rightarrow> number \<Rightarrow> number" where
  "fdiv (Fin x) (Fin y) =
     (if y = 0 then (if x = 0 then NaN else if 0 < x then PInf else NInf) else rd (x / y))"
| "fdiv NaN b = NaN"
| "fdiv a NaN = NaN"
| "fdiv (Fin x) PInf = Fin 0"
| "fdiv (Fin x) NInf = Fin 0"
| "fdiv PInf (Fin y) = (if 0 \<le> y then PInf else NInf)"
| "fdiv NInf (Fin y) = (if 0 \<le> y then NInf else PInf)"
| "fdiv PInf b = NaN"
| "fdiv NInf b = NaN"

text \<open>\<open>a < b\<close> and \<open>a <= b\<close>: false as soon as an operand is \<^verbatim>\<open>NaN\<close>.\<close>

fun flt :: "number \<Rightarrow> number \<Rightarrow> bool" where
  "flt (Fin x) (Fin y) = (x < y)"
| "flt NaN b = False"
| "flt a NaN = False"
| "flt a NInf = False"
| "flt PInf b = False"
| "flt NInf b = True"
| "flt a PInf = True"

fun fle :: "number \<Rightarrow> number \<Rightarrow> bool" where
  "fle (Fin x) (Fin y) = (x \<le> y)"
| "fle NaN b = False"
| "fle a NaN = False"
| "fle NInf b = True"
| "fle a PInf = True"
| "fle a NInf = False"
| "fle PInf b = False"

text \<open>\<^verbatim>\<open>Math.max\<close> of two arguments, \<^verbatim>\<open>Math.floor\<close> and \<^verbatim>\<open>Math.ceil\<close>.\<close>

fun fmax :: "number \<Rightarrow> number \<Rightarrow> number" where
  "fmax NaN b = NaN"
| "fmax a NaN = NaN"
| "fmax a b = (if fle a b then b else a)"

fun ffloor :: "number \<Rightarrow> number" where
  "ffloor (Fin x) = Fin (real_of_int \<lfloor>x\<rfloor>)"
| "ffloor a = a"

fun fceil :: "number \<Rightarrow> number" where
  "fceil (Fin x) = Fin (real_of_int \<lceil>x\<rceil>)"
| "fceil a = a"

fun isFiniteD :: "number \<Rightarrow> bool" where
  "isFiniteD (Fin x) = True"
| "isFiniteD a = False"

text \<open>
  \<^verbatim>\<open>Number(x.toFixed(8))\<close> on a double: \<^verbatim>\<open>toFixed\<close> prints the decimal \<open>n / 10^8\<close>
  nearest to the exact value of \<open>x\<close> (the larger \<open>n\<close> on a tie, the sign split off, a
  magnitude from \<open>10^21\<close> on printed in full), and \<^verbatim>\<open>Number\<close> reads the decimal back as
  the nearest double.
\<close>

fun toFixed8D :: "number \<Rightarrow> number" where
  "toFixed8D (Fin x) =
     (if 10 ^ 21 \<le> \<bar>x\<bar> then Fin x
      else if x < 0 then rd (- (real_of_int \<lfloor>(- x) * 10 ^ 8 + 1 / 2\<rfloor> / 10 ^ 8))
      else rd (real_of_int \<lfloor>x * 10 ^ 8 + 1 / 2\<rfloor> / 10 ^ 8))"
| "toFixed8D a = a"

text \<open>The records of the source once more, with doubles for numbers.\<close>

datatype RangeRatioD = RatioD number | RANGE_UNKNOWN_D

record InstrumentProfileD =
  symbol :: string
  contractMultiplier :: number
  lotStep :: number
  minLot :: number
  feePerUnit :: "number option"
  priceTick :: "number option"

record RiskProfileD =
  mode :: RiskMode
  accountSize :: "number option"
  riskCash :: "number option"
  riskPercent :: "number option"
  notional :: "number option"

record StopConfigD =
  type :: StopType
  percent :: "number option"
  atrMultiple :: "number option"
  points :: "number option"

record TradeInputD =
  direction :: TradeDirection
  setupType :: SetupType
  level :: number
  atr :: number
  rrMultiple :: number
  stop :: StopConfigD
  bufferRatio :: number
  rangePassed :: "number option"
  currentPrice :: "number option"
  enableAtrFilter :: "bool option"
  instrument :: InstrumentProfileD
  riskProfile :: RiskProfileD

record PositionSummaryD =
  riskCash :: number
  estFees :: number
  pnlAtTp :: number
  pnlAtSl :: number

record TradeResultD =
  direction :: TradeDirection
  setupType :: SetupType
  level :: number
  stop :: number
  buffer :: number
  tvx :: number
  slPrice :: number
  tpPrice :: number
  rrMultiple :: number
  atrOverStop :: number
  rangeOverStop :: RangeRatioD
  hasFourStops :: bool
  stopWithinAtrFilter :: bool
  warnings :: "string list"
  quantity :: number
  notional :: number
  belowMinLot :: bool
  positionSummary :: PositionSummaryD
  currentPriceToTvx :: "number option"
  stopAtrPercent :: number

record MetaD =
  usedRiskCash :: number
  usedNotional :: "number option"

record TradeCalcResponseD =
  result :: TradeResultD
  meta :: MetaD

record QuantityResultD =
  quantity :: number
  usedRiskCash :: number
  notional :: number
  estFees :: number
  belowMinLot :: bool

subsection \<open>The records of the exact model\<close>

record InstrumentProfile =
  symbol :: string
  contractMultiplier :: real
  lotStep :: real
  minLot :: real
  feePerUnit :: "real option"
  priceTick :: "real option"

record RiskProfile =
  mode :: RiskMode
  accountSize :: "real option"
  riskCash :: "real option"
  riskPercent :: "real option"
  notional :: "real option"

record StopConfig =
  type :: StopType
  percent :: "real option"
  atrMultiple :: "real option"
  points :: "real option"

record TradeInput =
  direction :: TradeDirection
  setupType :: SetupType
  level :: real
  atr :: real
  rrMultiple :: real
  stop :: StopConfig
  bufferRatio :: real
  rangePassed :: "real option"
  currentPrice :: "real option"
  enableAtrFilter :: "bool option"
  instrument :: InstrumentProfile
  riskProfile :: RiskProfile

record PositionSummary =
  riskCash :: real
  estFees :: real
  pnlAtTp :: real
  pnlAtSl :: real

record TradeResult =
  direction :: TradeDirection
  setupType :: SetupType
  level :: real
  stop :: real
  buffer :: real
  tvx :: real
  slPrice :: real
  tpPrice :: real
  rrMultiple :: real
  atrOverStop :: real
  rangeOverStop :: RangeRatio
  hasFourStops :: bool
  stopWithinAtrFilter :: bool
  warnings :: "string list"
  quantity :: real
  notional :: real
  belowMinLot :: bool
  positionSummary :: PositionSummary
  currentPriceToTvx :: "real option"
  stopAtrPercent :: Percent

record Meta =
  usedRiskCash :: real
  usedNotional :: "real option"

record TradeCalcResponse =
  result :: TradeResult
  meta :: Meta

text \<open>The object returned by \<^verbatim>\<open>calcQuantity\<close>.\<close>

record QuantityResult =
  quantity :: real
  usedRiskCash :: real
  notional :: real
  estFees :: real
  belowMinLot :: bool

text \<open>The parameter object of \<^verbatim>\<open>collectWarnings\<close>.\<close>

record WarningInput =
  atrCheckFailed :: bool
  rangeCheckFailed :: "bool option"
  stopFilterFailed :: bool
  belowMinLot :: bool

subsection \<open>Number helpers\<close>

text \<open>
  In the exact model every number is finite; the test \<^verbatim>\<open>Number.isFinite\<close> of the
  doubles is \<open>isFiniteD\<close>.
\<close>

definition isFinite :: "real \<Rightarrow> bool" where
  "isFinite x = True"

text \<open>
  \<^verbatim>\<open>Number(x.toFixed(8))\<close>: the sign is split off, a magnitude of at least \<open>10^21\<close>
  is printed in full and read back unchanged, and any other magnitude becomes \<open>n / 10^8\<close>
  for the integer \<open>n\<close> nearest to \<open>x * 10^8\<close>, the larger one on a tie.
\<close>

definition toFixed8 :: "real \<Rightarrow> real" where
  "toFixed8 x =
     (if 10 ^ 21 \<le> \<bar>x\<bar> then x
      else if x < 0 then - (real_of_int \<lfloor>(- x) * 10 ^ 8 + 1 / 2\<rfloor> / 10 ^ 8)
      else real_of_int \<lfloor>x * 10 ^ 8 + 1 / 2\<rfloor> / 10 ^ 8)"

subsection \<open>Helpers for each formula\<close>

definition roundDownToStep :: "real \<Rightarrow> real \<Rightarrow> real" where
  "roundDownToStep qty step =
     (if step \<le> 0 then max qty 0
      else
        let scaled = qty / step;
            floored = real_of_int \<lfloor>scaled + 1 / 10 ^ 9\<rfloor>;
            rounded = floored * step;
            normalized = (if isFinite rounded then toFixed8 rounded else 0)
        in if normalized < 0 then 0 else normalized)"

definition roundUpToStep :: "real \<Rightarrow> real \<Rightarrow> real" where
  "roundUpToStep qty step =
     (if step \<le> 0 then max qty 0
      else
        let scaled = qty / step;
            ceiled = real_of_int \<lceil>scaled - 1 / 10 ^ 9\<rceil>;
            rounded = ceiled * step;
            normalized = (if isFinite rounded then toFixed8 rounded else 0)
        in if normalized < 0 then 0 else normalized)"

text \<open>
  \<^verbatim>\<open>computeStop\<close>. The \<^verbatim>\<open>default\<close> branch of the source's \<^verbatim>\<open>switch\<close> throws on a
  stop type outside the enum; \<^typ>\<open>StopType\<close> has no such value.
\<close>

definition computeStop :: "TradeInput \<Rightarrow> real" where
  "computeStop input =
     (case StopConfig.type (TradeInput.stop input) of
        FixedPercent \<Rightarrow>
          ((case percent (TradeInput.stop input) of Some p \<Rightarrow> p | None \<Rightarrow> 0.3) / 100)
            * TradeInput.level input
      | AtrMultiple \<Rightarrow>
          (case atrMultiple (TradeInput.stop input) of Some m \<Rightarrow> m | None \<Rightarrow> 0.5)
            * atr input
      | FixedPoints \<Rightarrow>
          (case points (TradeInput.stop input) of Some p \<Rightarrow> p | None \<Rightarrow> 0))"

definition computeBuffer :: "real \<Rightarrow> real \<Rightarrow> real" where
  "computeBuffer stop bufferRatio = stop * bufferRatio"
  for stop bufferRatio

definition computeTvx :: "TradeInput \<Rightarrow> real \<Rightarrow> real" where
  "computeTvx input buffer =
     (if TradeInput.direction input = Long then TradeInput.level input + buffer
      else TradeInput.level input - buffer)"
  for buffer

definition computeSlPrice :: "TradeInput \<Rightarrow> real \<Rightarrow> real" where
  "computeSlPrice input stop =
     (if TradeInput.direction input = Long then TradeInput.level input - stop
      else TradeInput.level input + stop)"
  for stop

definition computeTpPrice :: "TradeInput \<Rightarrow> real \<Rightarrow> real \<Rightarrow> real" where
  "computeTpPrice input tvx stop =
     (if TradeInput.direction input = Long then tvx + TradeInput.rrMultiple input * stop
      else tvx - TradeInput.rrMultiple input * stop)"
  for tvx stop

subsection \<open>Risk sizing and warnings\<close>

definition costPerUnit :: "real \<Rightarrow> real \<Rightarrow> real" where
  "costPerUnit stopValuePerUnit feePerUnit = stopValuePerUnit + feePerUnit"
  for stopValuePerUnit feePerUnit

definition calcQuantity :: "TradeInput \<Rightarrow> real \<Rightarrow> error + QuantityResult" where
  "calcQuantity input stop =
     (let instrument = TradeInput.instrument input;
          riskProfile = TradeInput.riskProfile input;
          level = TradeInput.level input;
          feePerUnit = (case InstrumentProfile.feePerUnit instrument of Some f \<Rightarrow> f | None \<Rightarrow> 0);
          contractMultiplier = InstrumentProfile.contractMultiplier instrument;
          stopValuePerUnit = stop * contractMultiplier;
          unitCost = costPerUnit stopValuePerUnit feePerUnit
      in
        if \<not> isFinite unitCost \<or> unitCost \<le> 0
        then Inl (Error ''Calculated unit cost must be positive and finite'')
        else
          let qtyRaw =
                (case mode riskProfile of
                   risk_cash \<Rightarrow>
                     (let riskCash =
                            (case RiskProfile.riskCash riskProfile of Some c \<Rightarrow> c | None \<Rightarrow> 0)
                      in max (real_of_int \<lfloor>riskCash / unitCost\<rfloor>) 0)
                 | risk_percent \<Rightarrow>
                     (let accountSize =
                            (case RiskProfile.accountSize riskProfile of Some a \<Rightarrow> a | None \<Rightarrow> 0);
                          riskCash =
                            (accountSize
                               * (case riskPercent riskProfile of Some p \<Rightarrow> p | None \<Rightarrow> 0)) / 100
                      in max (real_of_int \<lfloor>riskCash / unitCost\<rfloor>) 0)
                 | RiskMode.notional \<Rightarrow>
                     (let notional =
                            (case RiskProfile.notional riskProfile of Some n \<Rightarrow> n | None \<Rightarrow> 0);
                          denom = level * contractMultiplier
                      in if denom > 0 then max (real_of_int \<lfloor>notional / denom\<rfloor>) 0 else 0));
              step = (if lotStep instrument > 0 then lotStep instrument else 1);
              roundedQty = roundDownToStep qtyRaw step;
              minLot = (if InstrumentProfile.minLot instrument > 0
                        then InstrumentProfile.minLot instrument else 0);
              minLotAligned =
                (if minLot > 0 then max (roundUpToStep minLot step) minLot else 0);
              quantity0 = (if minLotAligned > 0 then max roundedQty minLotAligned else roundedQty);
              quantity = (if isFinite quantity0 then toFixed8 quantity0 else 0);
              belowMinLot = (minLotAligned > 0 \<and> roundedQty < minLotAligned \<and> quantity > 0);
              estFees = quantity * feePerUnit;
              notional = quantity * level * contractMultiplier;
              usedRiskCash = quantity * unitCost
          in Inr \<lparr> QuantityResult.quantity = quantity,
                    QuantityResult.usedRiskCash = usedRiskCash,
                    QuantityResult.notional = notional,
                    QuantityResult.estFees = estFees,
                    QuantityResult.belowMinLot = belowMinLot \<rparr>)"
  for stop

definition collectWarnings :: "WarningInput \<Rightarrow> string list" where
  "collectWarnings r =
     (let warnings = [];
          warnings = (if atrCheckFailed r then warnings @ [''ATR/Stop < 4''] else warnings);
          warnings = (if rangeCheckFailed r = Some True
                      then warnings @ [''Range/Stop < 4''] else warnings);
          warnings = (if stopFilterFailed r
                      then warnings @ [''Stop exceeds 20% ATR limit''] else warnings);
          warnings = (if WarningInput.belowMinLot r
                      then warnings @ [''Qty is below minimum lot''] else warnings)
      in warnings)"

subsection \<open>Main functionality\<close>

definition calculateTrade :: "TradeInput \<Rightarrow> error + TradeCalcResponse" where
  "calculateTrade input =
     (if TradeInput.level input \<le> 0 then Inl (Error ''Level must be greater than zero'')
      else if atr input \<le> 0 then Inl (Error ''ATR must be greater than zero'')
      else if TradeInput.rrMultiple input \<le> 0
        then Inl (Error ''Risk/reward multiple must be greater than zero'')
      else if bufferRatio input < 0 then Inl (Error ''Buffer ratio must be non-negative'')
      else if InstrumentProfile.contractMultiplier (instrument input) \<le> 0
        then Inl (Error ''Contract multiplier must be greater than zero'')
      else
        let stop = computeStop input in
        if stop \<le> 0 then Inl (Error ''Computed stop must be greater than zero'')
        else
          let buffer = computeBuffer stop (bufferRatio input);
              tvx = computeTvx input buffer;
              slPrice = computeSlPrice input stop;
              tpPrice = computeTpPrice input tvx stop;
              contractMultiplier = InstrumentProfile.contractMultiplier (instrument input);
              atrOverStop = atr input / stop;
              rangeOverStop =
                (case rangePassed input of Some rp \<Rightarrow> Ratio (rp / stop) | None \<Rightarrow> RANGE_UNKNOWN);
              hasRange = (case rangeOverStop of Ratio x \<Rightarrow> True | RANGE_UNKNOWN \<Rightarrow> False);
              atrCheckFailed = (atrOverStop < 4);
              rangeCheckFailedFlag =
                (case rangeOverStop of Ratio x \<Rightarrow> x < 4 | RANGE_UNKNOWN \<Rightarrow> False);
              hasFourStops = (\<not> atrCheckFailed \<and> (\<not> hasRange \<or> \<not> rangeCheckFailedFlag));
              stopWithinFilter =
                (\<not> (case enableAtrFilter input of Some b \<Rightarrow> b | None \<Rightarrow> False)
                 \<or> stop \<le> 0.2 * atr input)
          in
            case calcQuantity input stop of
              Inl e \<Rightarrow> Inl e
            | Inr q \<Rightarrow>
                let quantity = QuantityResult.quantity q;
                    usedRiskCash = QuantityResult.usedRiskCash q;
                    notional = QuantityResult.notional q;
                    estFees = QuantityResult.estFees q;
                    belowMinLot = QuantityResult.belowMinLot q;
                    warningInput =
                      \<lparr> atrCheckFailed = atrCheckFailed,
                        rangeCheckFailed = None,
                        stopFilterFailed = \<not> stopWithinFilter,
                        belowMinLot = belowMinLot \<rparr>;
                    warningInput =
                      (if hasRange
                       then warningInput\<lparr> rangeCheckFailed := Some rangeCheckFailedFlag \<rparr>
                       else warningInput);
                    warnings = collectWarnings warningInput;
                    tpDistance =
                      (if TradeInput.direction input = Long then tpPrice - tvx else tvx - tpPrice);
                    slDistance =
                      (if TradeInput.direction input = Long then tvx - slPrice else slPrice - tvx);
                    pnlAtTp = tpDistance * quantity * contractMultiplier;
                    pnlAtSl = (- slDistance) * quantity * contractMultiplier;
                    result =
                      \<lparr> TradeResult.direction = TradeInput.direction input,
                        TradeResult.setupType = TradeInput.setupType input,
                        TradeResult.level = TradeInput.level input,
                        TradeResult.stop = stop,
                        buffer = buffer,
                        tvx = tvx,
                        slPrice = slPrice,
                        tpPrice = tpPrice,
                        TradeResult.rrMultiple = TradeInput.rrMultiple input,
                        atrOverStop = atrOverStop,
                        rangeOverStop = rangeOverStop,
                        hasFourStops = hasFourStops,
                        stopWithinAtrFilter = stopWithinFilter,
                        warnings = warnings,
                        TradeResult.quantity = quantity,
                        TradeResult.notional = notional,
                        TradeResult.belowMinLot = belowMinLot,
                        positionSummary =
                          \<lparr> PositionSummary.riskCash = usedRiskCash,
                            PositionSummary.estFees = estFees,
                            pnlAtTp = pnlAtTp,
                            pnlAtSl = pnlAtSl \<rparr>,
                        currentPriceToTvx = None,
                        stopAtrPercent =
                          (if atr input > 0 then Finite ((stop / atr input) * 100)
                           else POSITIVE_INFINITY) \<rparr>;
                    result =
                      (case currentPrice input of
                         Some cp \<Rightarrow> result\<lparr> currentPriceToTvx := Some (cp - tvx) \<rparr>
                       | None \<Rightarrow> result);
                    meta = \<lparr> Meta.usedRiskCash = usedRiskCash, usedNotional = None \<rparr>;
                    meta =
                      (if mode (riskProfile input) = RiskMode.notional
                       then meta\<lparr> usedNotional := Some notional \<rparr> else meta)
                in Inr \<lparr> result = result, meta = meta \<rparr>)"

subsection \<open>The same functions over doubles\<close>

text \<open>
  Each function below is the source function of the same name (less the final \<open>D\<close>),
  with every operator of the source replaced by its rounding counterpart.
\<close>

definition roundDownToStepD :: "number \<Rightarrow> number \<Rightarrow> number" where
  "roundDownToStepD qty step =
     (if fle step (Fin 0) then fmax qty (Fin 0)
      else
        let scaled = fdiv qty step;
            floored = ffloor (fadd scaled (D (1 / 10 ^ 9)));
            rounded = fmul floored step;
            normalized = (if isFiniteD rounded then toFixed8D rounded else Fin 0)
        in if flt normalized (Fin 0) then Fin 0 else normalized)"

definition roundUpToStepD :: "number \<Rightarrow> number \<Rightarrow> number" where
  "roundUpToStepD qty step =
     (if fle step (Fin 0) then fmax qty (Fin 0)
      else
        let scaled = fdiv qty step;
            ceiled = fceil (fsub scaled (D (1 / 10 ^ 9)));
            rounded = fmul ceiled step;
            normalized = (if isFiniteD rounded then toFixed8D rounded else Fin 0)
        in if flt normalized (Fin 0) then Fin 0 else normalized)"

definition computeStopD :: "TradeInputD \<Rightarrow> number" where
  "computeStopD input =
     (case StopConfigD.type (TradeInputD.stop input) of
        FixedPercent \<Rightarrow>
          fmul (fdiv (case StopConfigD.percent (TradeInputD.stop input) of
                        Some p \<Rightarrow> p | None \<Rightarrow> D 0.3) (Fin 100))
            (TradeInputD.level input)
      | AtrMultiple \<Rightarrow>
          fmul (case StopConfigD.atrMultiple (TradeInputD.stop input) of
                  Some m \<Rightarrow> m | None \<Rightarrow> D 0.5)
            (TradeInputD.atr input)
      | FixedPoints \<Rightarrow>
          (case StopConfigD.points (TradeInputD.stop input) of Some p \<Rightarrow> p | None \<Rightarrow> Fin 0))"

definition computeBufferD :: "number \<Rightarrow> number \<Rightarrow> number" where
  "computeBufferD stop bufferRatio = fmul stop bufferRatio"
  for stop bufferRatio

definition computeTvxD :: "TradeInputD \<Rightarrow> number \<Rightarrow> number" where
  "computeTvxD input buffer =
     (if TradeInputD.direction input = Long then fadd (TradeInputD.level input) buffer
      else fsub (TradeInputD.level input) buffer)"
  for buffer

definition computeSlPriceD :: "TradeInputD \<Rightarrow> number \<Rightarrow> number" where
  "computeSlPriceD input stop =
     (if TradeInputD.direction input = Long then fsub (TradeInputD.level input) stop
      else fadd (TradeInputD.level input) stop)"
  for stop

definition computeTpPriceD :: "TradeInputD \<Rightarrow> number \<Rightarrow> number \<Rightarrow> number" where
  "computeTpPriceD input tvx stop =
     (if TradeInputD.direction input = Long
      then fadd tvx (fmul (TradeInputD.rrMultiple input) stop)
      else fsub tvx (fmul (TradeInputD.rrMultiple input) stop))"
  for tvx stop

definition costPerUnitD :: "number \<Rightarrow> number \<Rightarrow> number" where
  "costPerUnitD stopValuePerUnit feePerUnit = fadd stopValuePerUnit feePerUnit"
  for stopValuePerUnit feePerUnit

definition calcQuantityD :: "TradeInputD \<Rightarrow> number \<Rightarrow> error + QuantityResultD" where
  "calcQuantityD input stop =
     (let instrument = TradeInputD.instrument input;
          riskProfile = TradeInputD.riskProfile input;
          level = TradeInputD.level input;
          feePerUnit =
            (case InstrumentProfileD.feePerUnit instrument of Some f \<Rightarrow> f | None \<Rightarrow> Fin 0);
          contractMultiplier = InstrumentProfileD.contractMultiplier instrument;
          stopValuePerUnit = fmul stop contractMultiplier;
          unitCost = costPerUnitD stopValuePerUnit feePerUnit
      in
        if \<not> isFiniteD unitCost \<or> fle unitCost (Fin 0)
        then Inl (Error ''Calculated unit cost must be positive and finite'')
        else
          let qtyRaw =
                (case RiskProfileD.mode riskProfile of
                   risk_cash \<Rightarrow>
                     (let riskCash =
                            (case RiskProfileD.riskCash riskProfile of
                               Some c \<Rightarrow> c | None \<Rightarrow> Fin 0)
                      in fmax (ffloor (fdiv riskCash unitCost)) (Fin 0))
                 | risk_percent \<Rightarrow>
                     (let accountSize =
                            (case RiskProfileD.accountSize riskProfile of
                               Some a \<Rightarrow> a | None \<Rightarrow> Fin 0);
                          riskCash =
                            fdiv (fmul accountSize
                                    (case RiskProfileD.riskPercent riskProfile of
                                       Some p \<Rightarrow> p | None \<Rightarrow> Fin 0))
                              (Fin 100)
                      in fmax (ffloor (fdiv riskCash unitCost)) (Fin 0))
                 | RiskMode.notional \<Rightarrow>
                     (let notional =
                            (case RiskProfileD.notional riskProfile of
                               Some n \<Rightarrow> n | None \<Rightarrow> Fin 0);
                          denom = fmul level contractMultiplier
                      in if flt (Fin 0) denom
                         then fmax (ffloor (fdiv notional denom)) (Fin 0) else Fin 0));
              step = (if flt (Fin 0) (InstrumentProfileD.lotStep instrument)
                      then InstrumentProfileD.lotStep instrument else Fin 1);
              roundedQty = roundDownToStepD qtyRaw step;
              minLot = (if flt (Fin 0) (InstrumentProfileD.minLot instrument)
                        then InstrumentProfileD.minLot instrument else Fin 0);
              minLotAligned =
                (if flt (Fin 0) minLot then fmax (roundUpToStepD minLot step) minLot else Fin 0);
              quantity0 =
                (if flt (Fin 0) minLotAligned then fmax roundedQty minLotAligned else roundedQty);
              quantity = (if isFiniteD quantity0 then toFixed8D quantity0 else Fin 0);
              belowMinLot =
                (flt (Fin 0) minLotAligned \<and> flt roundedQty minLotAligned \<and> flt (Fin 0) quantity);
              estFees = fmul quantity feePerUnit;
              notional = fmul (fmul quantity level) contractMultiplier;
              usedRiskCash = fmul quantity unitCost
          in Inr \<lparr> QuantityResultD.quantity = quantity,
                    QuantityResultD.usedRiskCash = usedRiskCash,
                    QuantityResultD.notional = notional,
                    QuantityResultD.estFees = estFees,
                    QuantityResultD.belowMinLot = belowMinLot \<rparr>)"
  for stop

definition calculateTradeD :: "TradeInputD \<Rightarrow> error + TradeCalcResponseD" where
  "calculateTradeD input =
     (if fle (TradeInputD.level input) (Fin 0)
        then Inl (Error ''Level must be greater than zero'')
      else if fle (TradeInputD.atr input) (Fin 0)
        then Inl (Error ''ATR must be greater than zero'')
      else if fle (TradeInputD.rrMultiple input) (Fin 0)
        then Inl (Error ''Risk/reward multiple must be greater than zero'')
      else if flt (TradeInputD.bufferRatio input) (Fin 0)
        then Inl (Error ''Buffer ratio must be non-negative'')
      else if fle (InstrumentProfileD.contractMultiplier (TradeInputD.instrument input)) (Fin 0)
        then Inl (Error ''Contract multiplier must be greater than zero'')
      else
        let stop = computeStopD input in
        if fle stop (Fin 0) then Inl (Error ''Computed stop must be greater than zero'')
        else
          let buffer = computeBufferD stop (TradeInputD.bufferRatio input);
              tvx = computeTvxD input buffer;
              slPrice = computeSlPriceD input stop;
              tpPrice = computeTpPriceD input tvx stop;
              contractMultiplier =
                InstrumentProfileD.contractMultiplier (TradeInputD.instrument input);
              atrOverStop = fdiv (TradeInputD.atr input) stop;
              rangeOverStop =
                (case TradeInputD.rangePassed input of
                   Some rp \<Rightarrow> RatioD (fdiv rp stop) | None \<Rightarrow> RANGE_UNKNOWN_D);
              hasRange = (case rangeOverStop of RatioD x \<Rightarrow> True | RANGE_UNKNOWN_D \<Rightarrow> False);
              atrCheckFailed = flt atrOverStop (Fin 4);
              rangeCheckFailedFlag =
                (case rangeOverStop of RatioD x \<Rightarrow> flt x (Fin 4) | RANGE_UNKNOWN_D \<Rightarrow> False);
              hasFourStops = (\<not> atrCheckFailed \<and> (\<not> hasRange \<or> \<not> rangeCheckFailedFlag));
              stopWithinFilter =
                (\<not> (case TradeInputD.enableAtrFilter input of Some b \<Rightarrow> b | None \<Rightarrow> False)
                 \<or> fle stop (fmul (D 0.2) (TradeInputD.atr input)))
          in
            case calcQuantityD input stop of
              Inl e \<Rightarrow> Inl e
            | Inr q \<Rightarrow>
                let quantity = QuantityResultD.quantity q;
                    usedRiskCash = QuantityResultD.usedRiskCash q;
                    notional = QuantityResultD.notional q;
                    estFees = QuantityResultD.estFees q;
                    belowMinLot = QuantityResultD.belowMinLot q;
                    warningInput =
                      \<lparr> atrCheckFailed = atrCheckFailed,
                        rangeCheckFailed = None,
                        stopFilterFailed = \<not> stopWithinFilter,
                        belowMinLot = belowMinLot \<rparr>;
                    warningInput =
                      (if hasRange
                       then warningInput\<lparr> rangeCheckFailed := Some rangeCheckFailedFlag \<rparr>
                       else warningInput);
                    warnings = collectWarnings warningInput;
                    tpDistance =
                      (if TradeInputD.direction input = Long then fsub tpPrice tvx
                       else fsub tvx tpPrice);
                    slDistance =
                      (if TradeInputD.direction input = Long then fsub tvx slPrice
                       else fsub slPrice tvx);
                    pnlAtTp = fmul (fmul tpDistance quantity) contractMultiplier;
                    pnlAtSl = fmul (fmul (fneg slDistance) quantity) contractMultiplier;
                    result =
                      \<lparr> TradeResultD.direction = TradeInputD.direction input,
                        TradeResultD.setupType = TradeInputD.setupType input,
                        TradeResultD.level = TradeInputD.level input,
                        TradeResultD.stop = stop,
                        TradeResultD.buffer = buffer,
                        TradeResultD.tvx = tvx,
                        TradeResultD.slPrice = slPrice,
                        TradeResultD.tpPrice = tpPrice,
                        TradeResultD.rrMultiple = TradeInputD.rrMultiple input,
                        TradeResultD.atrOverStop = atrOverStop,
                        TradeResultD.rangeOverStop = rangeOverStop,
                        TradeResultD.hasFourStops = hasFourStops,
                        TradeResultD.stopWithinAtrFilter = stopWithinFilter,
                        TradeResultD.warnings = warnings,
                        TradeResultD.quantity = quantity,
                        TradeResultD.notional = notional,
                        TradeResultD.belowMinLot = belowMinLot,
                        TradeResultD.positionSummary =
                          \<lparr> PositionSummaryD.riskCash = usedRiskCash,
                            PositionSummaryD.estFees = estFees,
                            PositionSummaryD.pnlAtTp = pnlAtTp,
                            PositionSummaryD.pnlAtSl = pnlAtSl \<rparr>,
                        TradeResultD.currentPriceToTvx = None,
                        TradeResultD.stopAtrPercent =
                          (if flt (Fin 0) (TradeInputD.atr input)
                           then fmul (fdiv stop (TradeInputD.atr input)) (Fin 100)
                           else PInf) \<rparr>;
                    result =
                      (case TradeInputD.currentPrice input of
                         Some cp \<Rightarrow> result\<lparr> TradeResultD.currentPriceToTvx := Some (fsub cp tvx) \<rparr>
                       | None \<Rightarrow> result);
                    meta = \<lparr> MetaD.usedRiskCash = usedRiskCash, MetaD.usedNotional = None \<rparr>;
                    meta =
                      (if RiskProfileD.mode (TradeInputD.riskProfile input) = RiskMode.notional
                       then meta\<lparr> MetaD.usedNotional := Some notional \<rparr> else meta)
                in Inr \<lparr> TradeCalcResponseD.result = result, TradeCalcResponseD.meta = meta \<rparr>)"

subsection \<open>Notions used in the statements\<close>

text \<open>The base validation at the head of \<^verbatim>\<open>calculateTrade\<close> lets the input through.\<close>

definition baseValid :: "TradeInput \<Rightarrow> bool" where
  "baseValid i \<longleftrightarrow>
     0 < TradeInput.level i \<and> 0 < atr i \<and> 0 < TradeInput.rrMultiple i \<and> 0 \<le> bufferRatio i
     \<and> 0 < contractMultiplier (instrument i)"

text \<open>The messages of the five base validation errors, in the order of their checks.\<close>

definition validationErrors :: "error list" where
  "validationErrors =
     [Error ''Level must be greater than zero'',
      Error ''ATR must be greater than zero'',
      Error ''Risk/reward multiple must be greater than zero'',
      Error ''Buffer ratio must be non-negative'',
      Error ''Contract multiplier must be greater than zero'']"

text \<open>The unit cost of \<^verbatim>\<open>calcQuantity\<close> for a stop distance \<open>s\<close>.\<close>

definition unitCost :: "TradeInput \<Rightarrow> real \<Rightarrow> real" where
  "unitCost i s =
     costPerUnit (s * contractMultiplier (instrument i))
       (case feePerUnit (instrument i) of Some f \<Rightarrow> f | None \<Rightarrow> 0)"

text \<open>The raw quantity by risk mode, before lot alignment.\<close>

definition rawQuantity :: "TradeInput \<Rightarrow> real \<Rightarrow> real" where
  "rawQuantity i s =
     (case mode (riskProfile i) of
        risk_cash \<Rightarrow>
          max (real_of_int
                 \<lfloor>(case RiskProfile.riskCash (riskProfile i) of Some c \<Rightarrow> c | None \<Rightarrow> 0)
                    / unitCost i s\<rfloor>) 0
      | risk_percent \<Rightarrow>
          max (real_of_int
                 \<lfloor>(((case accountSize (riskProfile i) of Some a \<Rightarrow> a | None \<Rightarrow> 0)
                      * (case riskPercent (riskProfile i) of Some p \<Rightarrow> p | None \<Rightarrow> 0)) / 100)
                    / unitCost i s\<rfloor>) 0
      | RiskMode.notional \<Rightarrow>
          (if TradeInput.level i * contractMultiplier (instrument i) > 0
           then max (real_of_int
                       \<lfloor>(case RiskProfile.notional (riskProfile i) of Some n \<Rightarrow> n | None \<Rightarrow> 0)
                          / (TradeInput.level i * contractMultiplier (instrument i))\<rfloor>) 0
           else 0))"

text \<open>\<open>step = lotStep if lotStep > 0 else 1\<close>.\<close>

definition lotStepOrOne :: "TradeInput \<Rightarrow> real" where
  "lotStepOrOne i = (if lotStep (instrument i) > 0 then lotStep (instrument i) else 1)"

text \<open>The raw quantity rounded down to a multiple of the step.\<close>

definition roundedQuantity :: "TradeInput \<Rightarrow> real \<Rightarrow> real" where
  "roundedQuantity i s = roundDownToStep (rawQuantity i s) (lotStepOrOne i)"

text \<open>\<open>max(round_up(minLot, step), minLot)\<close> when \<open>minLot > 0\<close>, else 0.\<close>

definition minLotThreshold :: "TradeInput \<Rightarrow> real" where
  "minLotThreshold i =
     (if minLot (instrument i) > 0
      then max (roundUpToStep (minLot (instrument i)) (lotStepOrOne i)) (minLot (instrument i))
      else 0)"

text \<open>
  The final quantity in the specification's words: \<open>max(roundedQty, minLotThreshold)\<close>
  when the threshold is positive, and \<open>roundedQty\<close> otherwise.
\<close>

definition specQuantity :: "TradeInput \<Rightarrow> real \<Rightarrow> real" where
  "specQuantity i s =
     (if minLotThreshold i > 0 then max (roundedQuantity i s) (minLotThreshold i)
      else roundedQuantity i s)"

text \<open>
  A quantity is a multiple of the lot step within the tolerance \<open>1e-8\<close>: some
  non-negative integer \<open>k\<close> has \<open>|quantity - k * step| \<le> 1e-8\<close>.
\<close>

definition isStepMultiple :: "real \<Rightarrow> real \<Rightarrow> bool" where
  "isStepMultiple q step \<longleftrightarrow> (\<exists>k::nat. \<bar>q - real k * step\<bar> \<le> 1 / 10 ^ 8)"

text \<open>
  The warnings in the specification's words: the fixed list of the four messages, each
  kept exactly when its condition holds of the input and the returned result.
\<close>

definition specWarnings :: "TradeInput \<Rightarrow> TradeResult \<Rightarrow> string list" where
  "specWarnings i res =
     map fst (filter snd
       [(''ATR/Stop < 4'', atrOverStop res < 4),
        (''Range/Stop < 4'',
           rangePassed i \<noteq> None
           \<and> (case rangeOverStop res of Ratio x \<Rightarrow> x < 4 | RANGE_UNKNOWN \<Rightarrow> False)),
        (''Stop exceeds 20% ATR limit'', \<not> stopWithinAtrFilter res),
        (''Qty is below minimum lot'', TradeResult.belowMinLot res)])"

subsection \<open>Notions used in the statements about doubles\<close>

text \<open>The five checks at the head of \<^verbatim>\<open>calculateTrade\<close> let the input through.\<close>

definition baseValidD :: "TradeInputD \<Rightarrow> bool" where
  "baseValidD i \<longleftrightarrow>
     \<not> fle (TradeInputD.level i) (Fin 0) \<and> \<not> fle (TradeInputD.atr i) (Fin 0)
     \<and> \<not> fle (TradeInputD.rrMultiple i) (Fin 0) \<and> \<not> flt (TradeInputD.bufferRatio i) (Fin 0)
     \<and> \<not> fle (InstrumentProfileD.contractMultiplier (TradeInputD.instrument i)) (Fin 0)"

text \<open>The unit cost \<open>stop * contractMultiplier + feePerUnit\<close> for a stop distance \<open>s\<close>.\<close>

definition unitCostD :: "TradeInputD \<Rightarrow> number \<Rightarrow> number" where
  "unitCostD i s =
     costPerUnitD (fmul s (InstrumentProfileD.contractMultiplier (TradeInputD.instrument i)))
       (case InstrumentProfileD.feePerUnit (TradeInputD.instrument i) of
          Some f \<Rightarrow> f | None \<Rightarrow> Fin 0)"

text \<open>The raw quantity by risk mode, before lot alignment.\<close>

definition rawQuantityD :: "TradeInputD \<Rightarrow> number \<Rightarrow> number" where
  "rawQuantityD i s =
     (case RiskProfileD.mode (TradeInputD.riskProfile i) of
        risk_cash \<Rightarrow>
          fmax (ffloor (fdiv (case RiskProfileD.riskCash (TradeInputD.riskProfile i) of
                                Some c \<Rightarrow> c | None \<Rightarrow> Fin 0)
                          (unitCostD i s))) (Fin 0)
      | risk_percent \<Rightarrow>
          fmax (ffloor (fdiv (fdiv (fmul (case RiskProfileD.accountSize (TradeInputD.riskProfile i) of
                                            Some a \<Rightarrow> a | None \<Rightarrow> Fin 0)
                                      (case RiskProfileD.riskPercent (TradeInputD.riskProfile i) of
                                         Some p \<Rightarrow> p | None \<Rightarrow> Fin 0))
                                (Fin 100))
                          (unitCostD i s))) (Fin 0)
      | RiskMode.notional \<Rightarrow>
          (if flt (Fin 0) (fmul (TradeInputD.level i)
                             (InstrumentProfileD.contractMultiplier (TradeInputD.instrument i)))
           then fmax (ffloor (fdiv (case RiskProfileD.notional (TradeInputD.riskProfile i) of
                                      Some n \<Rightarrow> n | None \<Rightarrow> Fin 0)
                                (fmul (TradeInputD.level i)
                                   (InstrumentProfileD.contractMultiplier (TradeInputD.instrument i)))))
                  (Fin 0)
           else Fin 0))"

definition lotStepOrOneD :: "TradeInputD \<Rightarrow> number" where
  "lotStepOrOneD i =
     (if flt (Fin 0) (InstrumentProfileD.lotStep (TradeInputD.instrument i))
      then InstrumentProfileD.lotStep (TradeInputD.instrument i) else Fin 1)"

definition roundedQuantityD :: "TradeInputD \<Rightarrow> number \<Rightarrow> number" where
  "roundedQuantityD i s = roundDownToStepD (rawQuantityD i s) (lotStepOrOneD i)"

definition minLotThresholdD :: "TradeInputD \<Rightarrow> number" where
  "minLotThresholdD i =
     (if flt (Fin 0) (InstrumentProfileD.minLot (TradeInputD.instrument i))
      then fmax (roundUpToStepD (InstrumentProfileD.minLot (TradeInputD.instrument i))
                  (lotStepOrOneD i))
             (InstrumentProfileD.minLot (TradeInputD.instrument i))
      else Fin 0)"

text \<open>The quantity of \<^verbatim>\<open>calcQuantity\<close>, before and after its last rounding.\<close>

definition unroundedQuantityD :: "TradeInputD \<Rightarrow> number \<Rightarrow> number" where
  "unroundedQuantityD i s =
     (if flt (Fin 0) (minLotThresholdD i) then fmax (roundedQuantityD i s) (minLotThresholdD i)
      else roundedQuantityD i s)"

definition finalQuantityD :: "TradeInputD \<Rightarrow> number \<Rightarrow> number" where
  "finalQuantityD i s =
     (if isFiniteD (unroundedQuantityD i s) then toFixed8D (unroundedQuantityD i s) else Fin 0)"

text \<open>
  A finite quantity is a multiple of a finite lot step within the tolerance \<open>1e-8\<close>; the
  multiple \<open>k * step\<close> and the distance are those of the real numbers the doubles denote.
\<close>

fun isStepMultipleD :: "number \<Rightarrow> number \<Rightarrow> bool" where
  "isStepMultipleD (Fin q) (Fin step) = isStepMultiple q step"
| "isStepMultipleD a b = False"

text \<open>
  A double is within \<open>1e-11\<close> of a decimal.
\<close>

fun near :: "number \<Rightarrow> real \<Rightarrow> bool" where
  "near (Fin y) x = (\<bar>y - x\<bar> \<le> 1 / 10 ^ 11)"
| "near a x = False"

subsection \<open>Auxiliary notions of the proofs about doubles\<close>

text \<open>
  A double that is not negative, or not positive: \<^verbatim>\<open>NaN\<close>, or a value of the stated
  sign, an infinity included.
\<close>

definition notNeg :: "number \<Rightarrow> bool" where
  "notNeg a \<longleftrightarrow> a = NaN \<or> fle (Fin 0) a"

definition notPos :: "number \<Rightarrow> bool" where
  "notPos a \<longleftrightarrow> a = NaN \<or> fle a (Fin 0)"

text \<open>The order of two doubles, as far as \<^verbatim>\<open>NaN\<close> allows one.\<close>

definition leq :: "number \<Rightarrow> number \<Rightarrow> bool" where
  "leq a b \<longleftrightarrow> a = NaN \<or> b = NaN \<or> fle a b"

text \<open>A finite value that is a double: the rounding leaves it as it is.\<close>

fun dbl :: "number \<Rightarrow> bool" where
  "dbl (Fin x) = (rd x = Fin x)"
| "dbl a = True"

text \<open>Half a unit in the last place above the largest double.\<close>

definition maxD :: real where
  "maxD = 2 ^ 1024 - 2 ^ 970"

text \<open>
  The last three lines that \<^verbatim>\<open>roundDownToStep\<close> and \<^verbatim>\<open>roundUpToStep\<close> share, on the
  floored or ceiled number of steps \<open>f\<close>.
\<close>

definition alignTail :: "number \<Rightarrow> number \<Rightarrow> number" where
  "alignTail f step =
     (let rounded = fmul f step;
          normalized = (if isFiniteD rounded then toFixed8D rounded else Fin 0)
      in if flt normalized (Fin 0) then Fin 0 else normalized)"

subsection \<open>Concrete inputs\<close>

text \<open>The inputs of the repository's test suite (\<^verbatim>\<open>tradeCalc.test.ts\<close>).\<close>

definition baseInstrument :: InstrumentProfile where
  "baseInstrument =
     \<lparr> symbol = ''TEST'', contractMultiplier = 1, lotStep = 1, minLot = 1,
       feePerUnit = Some 0.2, priceTick = None \<rparr>"

definition baseRisk :: RiskProfile where
  "baseRisk =
     \<lparr> mode = risk_cash, accountSize = None, RiskProfile.riskCash = Some 100,
       riskPercent = None, RiskProfile.notional = None \<rparr>"

definition scenarioA :: TradeInput where
  "scenarioA =
     \<lparr> TradeInput.direction = Long, TradeInput.setupType = Breakout,
       TradeInput.level = 100, atr = 2, TradeInput.rrMultiple = 3,
       TradeInput.stop =
         \<lparr> type = FixedPercent, percent = Some 0.3, atrMultiple = None, points = None \<rparr>,
       bufferRatio = 0.2, rangePassed = None, currentPrice = Some 99.5,
       enableAtrFilter = Some True, instrument = baseInstrument, riskProfile = baseRisk \<rparr>"

definition responseA :: TradeCalcResponse where
  "responseA =
     \<lparr> result =
         \<lparr> TradeResult.direction = Long, TradeResult.setupType = Breakout,
           TradeResult.level = 100, TradeResult.stop = 0.3, buffer = 0.06, tvx = 100.06,
           slPrice = 99.7, tpPrice = 100.96, TradeResult.rrMultiple = 3,
           atrOverStop = 20 / 3, rangeOverStop = RANGE_UNKNOWN, hasFourStops = True,
           stopWithinAtrFilter = True, warnings = [], TradeResult.quantity = 200,
           TradeResult.notional = 20000, TradeResult.belowMinLot = False,
           positionSummary =
             \<lparr> PositionSummary.riskCash = 100, PositionSummary.estFees = 40,
               pnlAtTp = 180, pnlAtSl = - 72 \<rparr>,
           currentPriceToTvx = Some (- 0.56), stopAtrPercent = Finite 15 \<rparr>,
       meta = \<lparr> Meta.usedRiskCash = 100, usedNotional = None \<rparr> \<rparr>"

definition scenarioB :: TradeInput where
  "scenarioB =
     \<lparr> TradeInput.direction = Short, TradeInput.setupType = FalseBreakout,
       TradeInput.level = 50, atr = 1, TradeInput.rrMultiple = 2,
       TradeInput.stop =
         \<lparr> type = FixedPoints, percent = None, atrMultiple = None, points = Some 0.5 \<rparr>,
       bufferRatio = 0.2, rangePassed = Some 1, currentPrice = Some 50.3,
       enableAtrFilter = Some True,
       instrument =
         \<lparr> symbol = ''FUT'', contractMultiplier = 1, lotStep = 1, minLot = 25,
           feePerUnit = Some 0, priceTick = None \<rparr>,
       riskProfile =
         \<lparr> mode = risk_cash, accountSize = None, RiskProfile.riskCash = Some 10,
           riskPercent = None, RiskProfile.notional = None \<rparr> \<rparr>"

definition responseB :: TradeCalcResponse where
  "responseB =
     \<lparr> result =
         \<lparr> TradeResult.direction = Short, TradeResult.setupType = FalseBreakout,
           TradeResult.level = 50, TradeResult.stop = 0.5, buffer = 0.1, tvx = 49.9,
           slPrice = 50.5, tpPrice = 48.9, TradeResult.rrMultiple = 2,
           atrOverStop = 2, rangeOverStop = Ratio 2, hasFourStops = False,
           stopWithinAtrFilter = False,
           warnings =
             [''ATR/Stop < 4'', ''Range/Stop < 4'', ''Stop exceeds 20% ATR limit'',
              ''Qty is below minimum lot''],
           TradeResult.quantity = 25, TradeResult.notional = 1250,
           TradeResult.belowMinLot = True,
           positionSummary =
             \<lparr> PositionSummary.riskCash = 12.5, PositionSummary.estFees = 0,
               pnlAtTp = 25, pnlAtSl = - 15 \<rparr>,
           currentPriceToTvx = Some 0.4, stopAtrPercent = Finite 50 \<rparr>,
       meta = \<lparr> Meta.usedRiskCash = 12.5, usedNotional = None \<rparr> \<rparr>"

text \<open>The fourth test's input: \<open>level = 0\<close>.\<close>

definition invalidInput :: TradeInput where
  "invalidInput =
     \<lparr> TradeInput.direction = Long, TradeInput.setupType = Breakout,
       TradeInput.level = 0, atr = 1, TradeInput.rrMultiple = 2,
       TradeInput.stop =
         \<lparr> type = FixedPoints, percent = None, atrMultiple = None, points = Some 1 \<rparr>,
       bufferRatio = 0.2, rangePassed = None, currentPrice = None,
       enableAtrFilter = None, instrument = baseInstrument, riskProfile = baseRisk \<rparr>"

text \<open>Scenario B with the optional field \<^verbatim>\<open>enableAtrFilter\<close> left out.\<close>

definition scenarioB_noFilter :: TradeInput where
  "scenarioB_noFilter = scenarioB\<lparr> enableAtrFilter := None \<rparr>"

definition responseB_noFilter :: TradeCalcResponse where
  "responseB_noFilter =
     responseB\<lparr> result :=
       (result responseB)
         \<lparr> stopWithinAtrFilter := True,
           warnings := [''ATR/Stop < 4'', ''Range/Stop < 4'', ''Qty is below minimum lot''] \<rparr> \<rparr>"

text \<open>
  A long breakout with a stop of one point, for an instrument with the given lot step
  and minimum lot and a cash risk budget; and its response when the budget buys less than
  the minimum lot and the quantity is raised to \<open>qty\<close>.
\<close>

definition lotInput :: "real \<Rightarrow> real \<Rightarrow> real \<Rightarrow> TradeInput" where
  "lotInput step minimum cash =
     \<lparr> TradeInput.direction = Long, TradeInput.setupType = Breakout,
       TradeInput.level = 100, atr = 10, TradeInput.rrMultiple = 2,
       TradeInput.stop =
         \<lparr> type = FixedPoints, percent = None, atrMultiple = None, points = Some 1 \<rparr>,
       bufferRatio = 0, rangePassed = None, currentPrice = None,
       enableAtrFilter = Some True,
       instrument =
         \<lparr> symbol = ''LOT'', contractMultiplier = 1, lotStep = step, minLot = minimum,
           feePerUnit = None, priceTick = None \<rparr>,
       riskProfile =
         \<lparr> mode = risk_cash, accountSize = None, RiskProfile.riskCash = Some cash,
           riskPercent = None, RiskProfile.notional = None \<rparr> \<rparr>"

definition lotResponse :: "real \<Rightarrow> TradeCalcResponse" where
  "lotResponse qty =
     \<lparr> result =
         \<lparr> TradeResult.direction = Long, TradeResult.setupType = Breakout,
           TradeResult.level = 100, TradeResult.stop = 1, buffer = 0, tvx = 100,
           slPrice = 99, tpPrice = 102, TradeResult.rrMultiple = 2,
           atrOverStop = 10, rangeOverStop = RANGE_UNKNOWN, hasFourStops = True,
           stopWithinAtrFilter = True, warnings = [''Qty is below minimum lot''],
           TradeResult.quantity = qty, TradeResult.notional = qty * 100,
           TradeResult.belowMinLot = True,
           positionSummary =
             \<lparr> PositionSummary.riskCash = qty, PositionSummary.estFees = 0,
               pnlAtTp = 2 * qty, pnlAtSl = - qty \<rparr>,
           currentPriceToTvx = None, stopAtrPercent = Finite 10 \<rparr>,
       meta = \<lparr> Meta.usedRiskCash = qty, usedNotional = None \<rparr> \<rparr>"

text \<open>
  Lots of 1 with a minimum lot of \<open>1.0000000004\<close>: the minimum lies within the
  round-up's tolerance above one lot.
\<close>

definition inputFineMinLot :: TradeInput where
  "inputFineMinLot = lotInput 1 1.0000000004 0"

text \<open>Scenario A with a stop of 0.5 points and a range of 2: both ratios are exactly 4.\<close>

definition inputExactlyFour :: TradeInput where
  "inputExactlyFour =
     scenarioA\<lparr> TradeInput.stop :=
         \<lparr> type = FixedPoints, percent = None, atrMultiple = None, points = Some 0.5 \<rparr>,
       rangePassed := Some 2 \<rparr>"

definition responseExactlyFour :: TradeCalcResponse where
  "responseExactlyFour =
     \<lparr> result =
         \<lparr> TradeResult.direction = Long, TradeResult.setupType = Breakout,
           TradeResult.level = 100, TradeResult.stop = 0.5, buffer = 0.1, tvx = 100.1,
           slPrice = 99.5, tpPrice = 101.6, TradeResult.rrMultiple = 3,
           atrOverStop = 4, rangeOverStop = Ratio 4, hasFourStops = True,
           stopWithinAtrFilter = False, warnings = [''Stop exceeds 20% ATR limit''],
           TradeResult.quantity = 142, TradeResult.notional = 14200,
           TradeResult.belowMinLot = False,
           positionSummary =
             \<lparr> PositionSummary.riskCash = 99.4, PositionSummary.estFees = 28.4,
               pnlAtTp = 213, pnlAtSl = - 85.2 \<rparr>,
           currentPriceToTvx = Some (- 0.6), stopAtrPercent = Finite 25 \<rparr>,
       meta = \<lparr> Meta.usedRiskCash = 99.4, usedNotional = None \<rparr> \<rparr>"

subsection \<open>Concrete inputs in doubles\<close>

text \<open>
  Scenario A of the test suite. Its decimal literals 0.3 and 0.2 are not doubles and stand
  for the nearest ones; the response lists each double of the result as the fraction it
  denotes.
\<close>

definition scenarioAD :: TradeInputD where
  "scenarioAD =
     \<lparr> TradeInputD.direction = Long, TradeInputD.setupType = Breakout,
       TradeInputD.level = Fin 100, TradeInputD.atr = Fin 2,
       TradeInputD.rrMultiple = Fin 3,
       TradeInputD.stop =
         \<lparr> StopConfigD.type = FixedPercent, StopConfigD.percent = Some (D 0.3),
           StopConfigD.atrMultiple = None,
           StopConfigD.points = None \<rparr>,
       TradeInputD.bufferRatio = D 0.2,
       TradeInputD.rangePassed = None,
       TradeInputD.currentPrice = Some (Fin (199 / 2)),
       TradeInputD.enableAtrFilter = Some True,
       TradeInputD.instrument =
         \<lparr> InstrumentProfileD.symbol = ''TEST'',
           InstrumentProfileD.contractMultiplier = Fin 1,
           InstrumentProfileD.lotStep = Fin 1,
           InstrumentProfileD.minLot = Fin 1,
           InstrumentProfileD.feePerUnit = Some (D 0.2),
           InstrumentProfileD.priceTick = None \<rparr>,
       TradeInputD.riskProfile =
         \<lparr> RiskProfileD.mode = risk_cash, RiskProfileD.accountSize = None,
           RiskProfileD.riskCash = Some (Fin 100),
           RiskProfileD.riskPercent = None,
           RiskProfileD.notional = None \<rparr> \<rparr>"

definition responseAD :: TradeCalcResponseD where
  "responseAD =
     \<lparr> TradeCalcResponseD.result =
         \<lparr> TradeResultD.direction = Long, TradeResultD.setupType = Breakout,
           TradeResultD.level = Fin 100,
           TradeResultD.stop = Fin (5404319552844595 / 18014398509481984),
           TradeResultD.buffer = Fin (1080863910568919 / 18014398509481984),
           TradeResultD.tvx = Fin (1760274135604265 / 17592186044416),
           TradeResultD.slPrice = Fin (7015763794513101 / 70368744177664),
           TradeResultD.tpPrice = Fin (3552214206088479 / 35184372088832),
           TradeResultD.rrMultiple = Fin 3,
           TradeResultD.atrOverStop = Fin (7505999378950827 / 1125899906842624),
           TradeResultD.rangeOverStop = RANGE_UNKNOWN_D,
           TradeResultD.hasFourStops = True,
           TradeResultD.stopWithinAtrFilter = True,
           TradeResultD.warnings = [],
           TradeResultD.quantity = Fin 200,
           TradeResultD.notional = Fin 20000,
           TradeResultD.belowMinLot = False,
           TradeResultD.positionSummary =
             \<lparr> PositionSummaryD.riskCash = Fin 100,
               PositionSummaryD.estFees = Fin 40,
               PositionSummaryD.pnlAtTp = Fin (791648371998725 / 4398046511104),
               PositionSummaryD.pnlAtSl = Fin (- (633318697598975 / 8796093022208)) \<rparr>,
           TradeResultD.currentPriceToTvx = Some (Fin (- (9851624184873 / 17592186044416))),
           TradeResultD.stopAtrPercent = Fin 15 \<rparr>,
       TradeCalcResponseD.meta =
         \<lparr> MetaD.usedRiskCash = Fin 100, MetaD.usedNotional = None \<rparr> \<rparr>"

text \<open>
  A stop of \<open>2^1023\<close> points on a contract multiplier of 100: the product exceeds the
  largest double.
\<close>

definition overflowInputD :: TradeInputD where
  "overflowInputD =
     \<lparr> TradeInputD.direction = Long, TradeInputD.setupType = Breakout,
       TradeInputD.level = Fin 100, TradeInputD.atr = Fin 2,
       TradeInputD.rrMultiple = Fin 3,
       TradeInputD.stop =
         \<lparr> StopConfigD.type = FixedPoints, StopConfigD.percent = None,
           StopConfigD.atrMultiple = None,
           StopConfigD.points = Some (Fin (2 ^ 1023)) \<rparr>,
       TradeInputD.bufferRatio = D 0.2,
       TradeInputD.rangePassed = None,
       TradeInputD.currentPrice = Some (Fin (199 / 2)),
       TradeInputD.enableAtrFilter = Some True,
       TradeInputD.instrument =
         \<lparr> InstrumentProfileD.symbol = ''TEST'',
           InstrumentProfileD.contractMultiplier = Fin 100,
           InstrumentProfileD.lotStep = Fin 1,
           InstrumentProfileD.minLot = Fin 1,
           InstrumentProfileD.feePerUnit = Some (D 0.2),
           InstrumentProfileD.priceTick = None \<rparr>,
       TradeInputD.riskProfile =
         \<lparr> RiskProfileD.mode = risk_cash, RiskProfileD.accountSize = None,
           RiskProfileD.riskCash = Some (Fin 100),
           RiskProfileD.riskPercent = None,
           RiskProfileD.notional = None \<rparr> \<rparr>"

text \<open>
  Lots of 100 with a minimum lot of \<open>100.00000005\<close> and a budget below one lot; and lots
  of 0.3 with no minimum lot and a budget of \<open>10^9\<close>.
\<close>

definition unalignedMinLotD :: TradeInputD where
  "unalignedMinLotD =
     \<lparr> TradeInputD.direction = Long, TradeInputD.setupType = Breakout,
       TradeInputD.level = Fin 100, TradeInputD.atr = Fin 10,
       TradeInputD.rrMultiple = Fin 2,
       TradeInputD.stop =
         \<lparr> StopConfigD.type = FixedPoints, StopConfigD.percent = None,
           StopConfigD.atrMultiple = None,
           StopConfigD.points = Some (Fin 1) \<rparr>,
       TradeInputD.bufferRatio = Fin 0,
       TradeInputD.rangePassed = None,
       TradeInputD.currentPrice = None,
       TradeInputD.enableAtrFilter = Some True,
       TradeInputD.instrument =
         \<lparr> InstrumentProfileD.symbol = ''LOT'',
           InstrumentProfileD.contractMultiplier = Fin 1,
           InstrumentProfileD.lotStep = Fin 100,
           InstrumentProfileD.minLot = D 100.00000005,
           InstrumentProfileD.feePerUnit = None,
           InstrumentProfileD.priceTick = None \<rparr>,
       TradeInputD.riskProfile =
         \<lparr> RiskProfileD.mode = risk_cash, RiskProfileD.accountSize = None,
           RiskProfileD.riskCash = Some (Fin 10),
           RiskProfileD.riskPercent = None,
           RiskProfileD.notional = None \<rparr> \<rparr>"

definition unalignedMinLotResponseD :: TradeCalcResponseD where
  "unalignedMinLotResponseD =
     \<lparr> TradeCalcResponseD.result =
         \<lparr> TradeResultD.direction = Long, TradeResultD.setupType = Breakout,
           TradeResultD.level = Fin 100,
           TradeResultD.stop = Fin 1,
           TradeResultD.buffer = Fin 0,
           TradeResultD.tvx = Fin 100,
           TradeResultD.slPrice = Fin 99,
           TradeResultD.tpPrice = Fin 102,
           TradeResultD.rrMultiple = Fin 2,
           TradeResultD.atrOverStop = Fin 10,
           TradeResultD.rangeOverStop = RANGE_UNKNOWN_D,
           TradeResultD.hasFourStops = True,
           TradeResultD.stopWithinAtrFilter = True,
           TradeResultD.warnings = [''Qty is below minimum lot''],
           TradeResultD.quantity = Fin (7036874421284837 / 70368744177664),
           TradeResultD.notional = Fin (5497558141628779 / 549755813888),
           TradeResultD.belowMinLot = True,
           TradeResultD.positionSummary =
             \<lparr> PositionSummaryD.riskCash = Fin (7036874421284837 / 70368744177664),
               PositionSummaryD.estFees = Fin 0,
               PositionSummaryD.pnlAtTp = Fin (7036874421284837 / 35184372088832),
               PositionSummaryD.pnlAtSl = Fin (- (7036874421284837 / 70368744177664)) \<rparr>,
           TradeResultD.currentPriceToTvx = None,
           TradeResultD.stopAtrPercent = Fin 10 \<rparr>,
       TradeCalcResponseD.meta =
         \<lparr> MetaD.usedRiskCash = Fin (7036874421284837 / 70368744177664), MetaD.usedNotional = None \<rparr> \<rparr>"

definition largeQuantityD :: TradeInputD where
  "largeQuantityD =
     \<lparr> TradeInputD.direction = Long, TradeInputD.setupType = Breakout,
       TradeInputD.level = Fin 100, TradeInputD.atr = Fin 10,
       TradeInputD.rrMultiple = Fin 2,
       TradeInputD.stop =
         \<lparr> StopConfigD.type = FixedPoints, StopConfigD.percent = None,
           StopConfigD.atrMultiple = None,
           StopConfigD.points = Some (Fin 1) \<rparr>,
       TradeInputD.bufferRatio = Fin 0,
       TradeInputD.rangePassed = None,
       TradeInputD.currentPrice = None,
       TradeInputD.enableAtrFilter = Some True,
       TradeInputD.instrument =
         \<lparr> InstrumentProfileD.symbol = ''LOT'',
           InstrumentProfileD.contractMultiplier = Fin 1,
           InstrumentProfileD.lotStep = D 0.3,
           InstrumentProfileD.minLot = Fin 0,
           InstrumentProfileD.feePerUnit = None,
           InstrumentProfileD.priceTick = None \<rparr>,
       TradeInputD.riskProfile =
         \<lparr> RiskProfileD.mode = risk_cash, RiskProfileD.accountSize = None,
           RiskProfileD.riskCash = Some (Fin 1000000000),
           RiskProfileD.riskPercent = None,
           RiskProfileD.notional = None \<rparr> \<rparr>"

definition largeQuantityResponseD :: TradeCalcResponseD where
  "largeQuantityResponseD =
     \<lparr> TradeCalcResponseD.result =
         \<lparr> TradeResultD.direction = Long, TradeResultD.setupType = Breakout,
           TradeResultD.level = Fin 100,
           TradeResultD.stop = Fin 1,
           TradeResultD.buffer = Fin 0,
           TradeResultD.tvx = Fin 100,
           TradeResultD.slPrice = Fin 99,
           TradeResultD.tpPrice = Fin 102,
           TradeResultD.rrMultiple = Fin 2,
           TradeResultD.atrOverStop = Fin 10,
           TradeResultD.rangeOverStop = RANGE_UNKNOWN_D,
           TradeResultD.hasFourStops = True,
           TradeResultD.stopWithinAtrFilter = True,
           TradeResultD.warnings = [],
           TradeResultD.quantity = Fin (8388607999161139 / 8388608),
           TradeResultD.notional = Fin 99999999990,
           TradeResultD.belowMinLot = False,
           TradeResultD.positionSummary =
             \<lparr> PositionSummaryD.riskCash = Fin (8388607999161139 / 8388608),
               PositionSummaryD.estFees = Fin 0,
               PositionSummaryD.pnlAtTp = Fin (8388607999161139 / 4194304),
               PositionSummaryD.pnlAtSl = Fin (- (8388607999161139 / 8388608)) \<rparr>,
           TradeResultD.currentPriceToTvx = None,
           TradeResultD.stopAtrPercent = Fin 10 \<rparr>,
       TradeCalcResponseD.meta =
         \<lparr> MetaD.usedRiskCash = Fin (8388607999161139 / 8388608), MetaD.usedNotional = None \<rparr> \<rparr>"

text \<open>Scenario A with a stop in points and no points given: the computed stop is 0.\<close>

definition noStopInputD :: TradeInputD where
  "noStopInputD =
     scenarioAD\<lparr> TradeInputD.stop :=
       \<lparr> StopConfigD.type = FixedPoints, StopConfigD.percent = None,
         StopConfigD.atrMultiple = None, StopConfigD.points = None \<rparr> \<rparr>"

section \<open>Properties\<close>

subsection \<open>Rounding to eight decimals\<close>

lemma toFixed8_nonneg: "0 \<le> x \<Longrightarrow> 0 \<le> toFixed8 x"
  by (simp add: toFixed8_def)

lemma floor_add_half: "\<lfloor>real_of_int m + 1 / 2\<rfloor> = m"
  by linarith

lemma toFixed8_of_int: "toFixed8 (real_of_int n / 10 ^ 8) = real_of_int n / 10 ^ 8"
proof (cases "10 ^ 21 \<le> \<bar>real_of_int n / 10 ^ 8\<bar>")
  case True
  then show ?thesis by (simp only: toFixed8_def if_True)
next
  case big: False
  have m: "- (real_of_int n / 10 ^ 8) * 10 ^ 8 = real_of_int (- n)"
     "real_of_int n / 10 ^ 8 * 10 ^ 8 = real_of_int n"
    by simp_all
  show ?thesis
  proof (cases "real_of_int n / 10 ^ 8 < 0")
    case True
    then show ?thesis
      using big by (simp only: toFixed8_def if_True if_False m floor_add_half)
  next
    case False
    then show ?thesis
      using big by (simp only: toFixed8_def if_True if_False m floor_add_half)
  qed
qed

lemma toFixed8_idem: "toFixed8 (toFixed8 x) = toFixed8 x"
proof (cases "10 ^ 21 \<le> \<bar>x\<bar>")
  case True
  then show ?thesis by (simp add: toFixed8_def)
next
  case False
  then have "toFixed8 x = real_of_int (if x < 0 then - \<lfloor>- x * 10 ^ 8 + 1 / 2\<rfloor> else \<lfloor>x * 10 ^ 8 + 1 / 2\<rfloor>) / 10 ^ 8"
    by (simp add: toFixed8_def)
  then obtain n where n: "toFixed8 x = real_of_int n / 10 ^ 8" ..
  show ?thesis unfolding n by (rule toFixed8_of_int)
qed

subsection \<open>The shape of a call\<close>

lemma calcQuantity_eq:
  "calcQuantity i s =
     (if unitCost i s \<le> 0 then Inl (Error ''Calculated unit cost must be positive and finite'')
      else Inr \<lparr> QuantityResult.quantity = toFixed8 (specQuantity i s),
                 QuantityResult.usedRiskCash = toFixed8 (specQuantity i s) * unitCost i s,
                 QuantityResult.notional =
                   toFixed8 (specQuantity i s) * TradeInput.level i
                     * contractMultiplier (instrument i),
                 QuantityResult.estFees =
                   toFixed8 (specQuantity i s)
                     * (case feePerUnit (instrument i) of Some f \<Rightarrow> f | None \<Rightarrow> 0),
                 QuantityResult.belowMinLot =
                   (minLotThreshold i > 0 \<and> roundedQuantity i s < minLotThreshold i
                    \<and> toFixed8 (specQuantity i s) > 0) \<rparr>)"
  by (cases "mode (riskProfile i)")
     (auto simp add: calcQuantity_def unitCost_def rawQuantity_def lotStepOrOne_def
        roundedQuantity_def minLotThreshold_def specQuantity_def isFinite_def Let_def)

lemma calculateTrade_Inr_pre:
  assumes "calculateTrade i = Inr r"
  shows "baseValid i \<and> 0 < computeStop i \<and> (\<exists>q. calcQuantity i (computeStop i) = Inr q)"
  using assms
  by (simp add: baseValid_def calculateTrade_def Let_def split: if_splits sum.splits)

lemma calculateTrade_Inl_base:
  assumes "\<not> baseValid i"
  shows "calculateTrade i \<in> Inl ` set validationErrors"
    and "TradeInput.level i \<le> 0 \<Longrightarrow> calculateTrade i = Inl (Error ''Level must be greater than zero'')"
  using assms
  by (auto simp add: baseValid_def calculateTrade_def validationErrors_def not_less not_le)

text \<open>The fields of a returned result, in terms of the input.\<close>

lemma calculateTrade_Inr_fields:
  assumes "calculateTrade i = Inr r"
  shows "TradeResult.stop (result r) = computeStop i"
    and "buffer (result r) = computeStop i * bufferRatio i"
    and "atrOverStop (result r) = atr i / computeStop i"
    and "rangeOverStop (result r) =
           (case rangePassed i of Some rp \<Rightarrow> Ratio (rp / computeStop i) | None \<Rightarrow> RANGE_UNKNOWN)"
    and "hasFourStops (result r) =
           (\<not> atr i / computeStop i < 4
            \<and> (case rangePassed i of Some rp \<Rightarrow> \<not> rp / computeStop i < 4 | None \<Rightarrow> True))"
    and "stopWithinAtrFilter (result r) =
           (\<not> (case enableAtrFilter i of Some b \<Rightarrow> b | None \<Rightarrow> False)
            \<or> computeStop i \<le> 0.2 * atr i)"
    and "warnings (result r) =
           collectWarnings
             \<lparr> atrCheckFailed = atr i / computeStop i < 4,
               rangeCheckFailed = map_option (\<lambda>rp. rp / computeStop i < 4) (rangePassed i),
               stopFilterFailed =
                 \<not> (\<not> (case enableAtrFilter i of Some b \<Rightarrow> b | None \<Rightarrow> False)
                    \<or> computeStop i \<le> 0.2 * atr i),
               belowMinLot =
                 (minLotThreshold i > 0
                  \<and> roundedQuantity i (computeStop i) < minLotThreshold i
                  \<and> toFixed8 (specQuantity i (computeStop i)) > 0) \<rparr>"
    and "TradeResult.quantity (result r) = toFixed8 (specQuantity i (computeStop i))"
    and "TradeResult.belowMinLot (result r) =
           (minLotThreshold i > 0
            \<and> roundedQuantity i (computeStop i) < minLotThreshold i
            \<and> toFixed8 (specQuantity i (computeStop i)) > 0)"
    and "pnlAtTp (positionSummary (result r)) =
           (if TradeInput.direction i = Long
            then computeTpPrice i (computeTvx i (computeStop i * bufferRatio i)) (computeStop i)
                   - computeTvx i (computeStop i * bufferRatio i)
            else computeTvx i (computeStop i * bufferRatio i)
                   - computeTpPrice i (computeTvx i (computeStop i * bufferRatio i)) (computeStop i))
           * toFixed8 (specQuantity i (computeStop i)) * contractMultiplier (instrument i)"
    and "pnlAtSl (positionSummary (result r)) =
           (- (if TradeInput.direction i = Long
               then computeTvx i (computeStop i * bufferRatio i) - computeSlPrice i (computeStop i)
               else computeSlPrice i (computeStop i) - computeTvx i (computeStop i * bufferRatio i)))
           * toFixed8 (specQuantity i (computeStop i)) * contractMultiplier (instrument i)"
    and "0 < unitCost i (computeStop i)"
proof -
  from calculateTrade_Inr_pre[OF assms] obtain q where
    v: "baseValid i" and s: "0 < computeStop i" and q: "calcQuantity i (computeStop i) = Inr q"
    by blast
  from q show u: "0 < unitCost i (computeStop i)"
    by (simp add: calcQuantity_eq split: if_splits)
  have q': "calcQuantity i (computeStop i) =
    Inr \<lparr> QuantityResult.quantity = toFixed8 (specQuantity i (computeStop i)),
          QuantityResult.usedRiskCash =
            toFixed8 (specQuantity i (computeStop i)) * unitCost i (computeStop i),
          QuantityResult.notional =
            toFixed8 (specQuantity i (computeStop i)) * TradeInput.level i
              * contractMultiplier (instrument i),
          QuantityResult.estFees =
            toFixed8 (specQuantity i (computeStop i))
              * (case feePerUnit (instrument i) of Some f \<Rightarrow> f | None \<Rightarrow> 0),
          QuantityResult.belowMinLot =
            (minLotThreshold i > 0 \<and> roundedQuantity i (computeStop i) < minLotThreshold i
             \<and> toFixed8 (specQuantity i (computeStop i)) > 0) \<rparr>"
    using u by (simp add: calcQuantity_eq)
  have v': "\<not> TradeInput.level i \<le> 0" "\<not> atr i \<le> 0" "\<not> TradeInput.rrMultiple i \<le> 0"
    "\<not> bufferRatio i < 0" "\<not> contractMultiplier (instrument i) \<le> 0" "\<not> computeStop i \<le> 0"
    using v s by (simp_all add: baseValid_def not_le not_less)
  have r0: "Inr r = calculateTrade i" using assms by simp
  note r = r0[unfolded calculateTrade_def Let_def, simplified v' q' if_False sum.case sum.inject]
  show "TradeResult.stop (result r) = computeStop i"
    by (simp only: r) (simp split: option.split)
  show "buffer (result r) = computeStop i * bufferRatio i"
    by (simp only: r) (simp split: option.split add: computeBuffer_def)
  show "atrOverStop (result r) = atr i / computeStop i"
    by (simp only: r) (simp split: option.split)
  show "rangeOverStop (result r) =
           (case rangePassed i of Some rp \<Rightarrow> Ratio (rp / computeStop i) | None \<Rightarrow> RANGE_UNKNOWN)"
    by (simp only: r) (simp split: option.split)
  show "hasFourStops (result r) =
           (\<not> atr i / computeStop i < 4
            \<and> (case rangePassed i of Some rp \<Rightarrow> \<not> rp / computeStop i < 4 | None \<Rightarrow> True))"
    by (simp only: r) (simp split: option.split)
  show "stopWithinAtrFilter (result r) =
           (\<not> (case enableAtrFilter i of Some b \<Rightarrow> b | None \<Rightarrow> False)
            \<or> computeStop i \<le> 0.2 * atr i)"
    by (simp only: r) (simp split: option.split)
  show "warnings (result r) =
           collectWarnings
             \<lparr> atrCheckFailed = atr i / computeStop i < 4,
               rangeCheckFailed = map_option (\<lambda>rp. rp / computeStop i < 4) (rangePassed i),
               stopFilterFailed =
                 \<not> (\<not> (case enableAtrFilter i of Some b \<Rightarrow> b | None \<Rightarrow> False)
                    \<or> computeStop i \<le> 0.2 * atr i),
               belowMinLot =
                 (minLotThreshold i > 0
                  \<and> roundedQuantity i (computeStop i) < minLotThreshold i
                  \<and> toFixed8 (specQuantity i (computeStop i)) > 0) \<rparr>"
    by (simp only: r) (simp split: option.split)
  show "TradeResult.quantity (result r) = toFixed8 (specQuantity i (computeStop i))"
    by (simp only: r) (simp split: option.split)
  show "TradeResult.belowMinLot (result r) =
           (minLotThreshold i > 0
            \<and> roundedQuantity i (computeStop i) < minLotThreshold i
            \<and> toFixed8 (specQuantity i (computeStop i)) > 0)"
    by (simp only: r) (simp split: option.split)
  show "pnlAtTp (positionSummary (result r)) =
           (if TradeInput.direction i = Long
            then computeTpPrice i (computeTvx i (computeStop i * bufferRatio i)) (computeStop i)
                   - computeTvx i (computeStop i * bufferRatio i)
            else computeTvx i (computeStop i * bufferRatio i)
                   - computeTpPrice i (computeTvx i (computeStop i * bufferRatio i)) (computeStop i))
           * toFixed8 (specQuantity i (computeStop i)) * contractMultiplier (instrument i)"
    by (simp only: r) (simp split: option.split add: computeBuffer_def)
  show "pnlAtSl (positionSummary (result r)) =
           (- (if TradeInput.direction i = Long
               then computeTvx i (computeStop i * bufferRatio i) - computeSlPrice i (computeStop i)
               else computeSlPrice i (computeStop i) - computeTvx i (computeStop i * bufferRatio i)))
           * toFixed8 (specQuantity i (computeStop i)) * contractMultiplier (instrument i)"
    by (simp only: r) (simp split: option.split add: computeBuffer_def algebra_simps)
qed

lemma toFixed8_values:
  "toFixed8 0 = 0" "toFixed8 1 = 1" "toFixed8 20 = 20" "toFixed8 25 = 25" "toFixed8 200 = 200"
  "toFixed8 100 = 100" "toFixed8 100.00000005 = 100.00000005" "toFixed8 1.0000000004 = 1"
  by (simp_all add: toFixed8_def)

lemma calcQuantity_scenarioA:
  "calcQuantity scenarioA 0.3 =
     Inr \<lparr> QuantityResult.quantity = 200, QuantityResult.usedRiskCash = 100,
           QuantityResult.notional = 20000, QuantityResult.estFees = 40,
           QuantityResult.belowMinLot = False \<rparr>"
  by (simp add: calcQuantity_def scenarioA_def baseInstrument_def baseRisk_def costPerUnit_def
      isFinite_def roundDownToStep_def roundUpToStep_def toFixed8_values Let_def)

lemma calculateTrade_scenarioA: "calculateTrade scenarioA = Inr responseA"
proof -
  have st: "computeStop scenarioA = 0.3"
    by (simp add: computeStop_def scenarioA_def)
  show ?thesis
    unfolding calculateTrade_def st
    by (simp add: calcQuantity_scenarioA)
       (simp add: scenarioA_def responseA_def computeBuffer_def computeTvx_def computeSlPrice_def
          computeTpPrice_def collectWarnings_def Let_def baseInstrument_def baseRisk_def)
qed

lemma calcQuantity_scenarioB:
  "calcQuantity (scenarioB\<lparr> enableAtrFilter := e \<rparr>) (1 / 2) =
     Inr \<lparr> QuantityResult.quantity = 25, QuantityResult.usedRiskCash = 12.5,
           QuantityResult.notional = 1250, QuantityResult.estFees = 0,
           QuantityResult.belowMinLot = True \<rparr>"
  by (simp add: calcQuantity_def scenarioB_def costPerUnit_def
      isFinite_def roundDownToStep_def roundUpToStep_def toFixed8_values Let_def)

lemma calculateTrade_scenarioB: "calculateTrade scenarioB = Inr responseB"
proof -
  have st: "computeStop scenarioB = 1 / 2"
    by (simp add: computeStop_def scenarioB_def)
  have cq: "calcQuantity scenarioB (1 / 2) =
     Inr \<lparr> QuantityResult.quantity = 25, QuantityResult.usedRiskCash = 12.5,
           QuantityResult.notional = 1250, QuantityResult.estFees = 0,
           QuantityResult.belowMinLot = True \<rparr>"
    using calcQuantity_scenarioB[of "Some True"] by (simp add: scenarioB_def)
  show ?thesis
    unfolding calculateTrade_def st
    by (simp add: cq)
       (simp add: scenarioB_def responseB_def computeBuffer_def computeTvx_def computeSlPrice_def
          computeTpPrice_def collectWarnings_def Let_def)
qed

lemma calculateTrade_scenarioB_noFilter:
  "calculateTrade scenarioB_noFilter = Inr responseB_noFilter"
proof -
  have st: "computeStop scenarioB_noFilter = 1 / 2"
    by (simp add: computeStop_def scenarioB_def scenarioB_noFilter_def)
  have cq: "calcQuantity scenarioB_noFilter (1 / 2) =
     Inr \<lparr> QuantityResult.quantity = 25, QuantityResult.usedRiskCash = 12.5,
           QuantityResult.notional = 1250, QuantityResult.estFees = 0,
           QuantityResult.belowMinLot = True \<rparr>"
    using calcQuantity_scenarioB[of None] by (simp add: scenarioB_noFilter_def)
  show ?thesis
    unfolding calculateTrade_def st
    by (simp add: cq)
       (simp add: scenarioB_def scenarioB_noFilter_def responseB_def responseB_noFilter_def
          computeBuffer_def computeTvx_def computeSlPrice_def
          computeTpPrice_def collectWarnings_def Let_def)
qed

lemma calculateTrade_inputExactlyFour: "calculateTrade inputExactlyFour = Inr responseExactlyFour"
proof -
  have st: "computeStop inputExactlyFour = 1 / 2"
    by (simp add: computeStop_def scenarioA_def inputExactlyFour_def)
  have tf: "toFixed8 142 = 142" by (simp add: toFixed8_def)
  have cq: "calcQuantity inputExactlyFour (1 / 2) =
     Inr \<lparr> QuantityResult.quantity = 142, QuantityResult.usedRiskCash = 497 / 5,
           QuantityResult.notional = 14200, QuantityResult.estFees = 142 / 5,
           QuantityResult.belowMinLot = False \<rparr>"
    by (simp add: calcQuantity_def scenarioA_def inputExactlyFour_def baseInstrument_def baseRisk_def
      costPerUnit_def isFinite_def roundDownToStep_def roundUpToStep_def toFixed8_values tf Let_def)
  show ?thesis
    unfolding calculateTrade_def st
    by (simp add: cq)
       (simp add: scenarioA_def inputExactlyFour_def responseExactlyFour_def computeBuffer_def
          computeTvx_def computeSlPrice_def computeTpPrice_def collectWarnings_def Let_def
          baseInstrument_def baseRisk_def)
qed

lemma calculateTrade_invalidInput:
  "calculateTrade invalidInput = Inl (Error ''Level must be greater than zero'')"
  by (simp add: calculateTrade_def invalidInput_def)

lemma baseValid_scenarioA: "baseValid scenarioA"
  by (simp add: baseValid_def scenarioA_def baseInstrument_def)

subsection \<open>Further evaluations and lot arithmetic\<close>

lemma collectWarnings_eq:
  "collectWarnings w =
     map fst (filter snd
       [(''ATR/Stop < 4'', atrCheckFailed w),
        (''Range/Stop < 4'', rangeCheckFailed w = Some True),
        (''Stop exceeds 20% ATR limit'', stopFilterFailed w),
        (''Qty is below minimum lot'', WarningInput.belowMinLot w)])"
  by (simp add: collectWarnings_def Let_def)

lemma lotStepOrOne_pos: "0 < lotStepOrOne i"
  by (simp add: lotStepOrOne_def)

lemma rawQuantity_nonneg: "0 \<le> rawQuantity i s"
  by (simp add: rawQuantity_def split: RiskMode.split)

lemma roundDownToStep_multiple:
  assumes "0 \<le> q" and "0 < step"
  shows "\<exists>k::nat. roundDownToStep q step = toFixed8 (real k * step)"
proof -
  let ?f = "\<lfloor>q / step + 1 / 10 ^ 9\<rfloor>"
  have "0 \<le> q / step + 1 / 10 ^ 9" using assms by simp
  then have f: "0 \<le> ?f" by simp
  then have "0 \<le> real_of_int ?f * step" using assms by simp
  then have "0 \<le> toFixed8 (real_of_int ?f * step)" by (rule toFixed8_nonneg)
  then have "roundDownToStep q step = toFixed8 (real_of_int ?f * step)"
    using assms by (simp add: roundDownToStep_def isFinite_def Let_def)
  moreover have "real_of_int ?f = real (nat ?f)" using f by simp
  ultimately show ?thesis by metis
qed

lemma roundedQuantity_fixed: "toFixed8 (roundedQuantity i s) = roundedQuantity i s"
proof -
  from roundDownToStep_multiple[OF rawQuantity_nonneg lotStepOrOne_pos]
  obtain k :: nat where "roundedQuantity i s = toFixed8 (real k * lotStepOrOne i)"
    unfolding roundedQuantity_def by blast
  then show ?thesis by (simp add: toFixed8_idem)
qed

lemma calculateTrade_lotInput:
  assumes "toFixed8 (specQuantity (lotInput step minimum cash) 1) = qty"
    and "0 < minLotThreshold (lotInput step minimum cash)"
    and "roundedQuantity (lotInput step minimum cash) 1 < minLotThreshold (lotInput step minimum cash)"
    and "0 < qty"
  shows "calculateTrade (lotInput step minimum cash) = Inr (lotResponse qty)"
proof -
  have st: "computeStop (lotInput step minimum cash) = 1"
    by (simp add: computeStop_def lotInput_def)
  have u: "unitCost (lotInput step minimum cash) 1 = 1"
    by (simp add: unitCost_def costPerUnit_def lotInput_def)
  have cq: "calcQuantity (lotInput step minimum cash) 1 =
     Inr \<lparr> QuantityResult.quantity = qty, QuantityResult.usedRiskCash = qty,
           QuantityResult.notional = qty * 100, QuantityResult.estFees = 0,
           QuantityResult.belowMinLot = True \<rparr>"
    using assms by (simp add: calcQuantity_eq u) (simp add: lotInput_def)
  show ?thesis
    unfolding calculateTrade_def st
    by (simp add: cq)
       (simp add: lotInput_def lotResponse_def computeBuffer_def computeTvx_def computeSlPrice_def
          computeTpPrice_def collectWarnings_def Let_def)
qed

lemma fine_values:
  "lotStepOrOne inputFineMinLot = 1"
  "roundUpToStep 1.0000000004 1 = 1"
  "minLotThreshold inputFineMinLot = 1.0000000004"
  "roundedQuantity inputFineMinLot 1 = 0"
  "specQuantity inputFineMinLot 1 = 1.0000000004"
proof -
  show s: "lotStepOrOne inputFineMinLot = 1"
    by (simp add: lotStepOrOne_def inputFineMinLot_def lotInput_def)
  show u: "roundUpToStep 1.0000000004 1 = 1"
    by (simp add: roundUpToStep_def isFinite_def toFixed8_values Let_def)
  show m: "minLotThreshold inputFineMinLot = 1.0000000004"
    using u unfolding minLotThreshold_def s
    by (simp add: inputFineMinLot_def lotInput_def)
  have "rawQuantity inputFineMinLot 1 = 0"
    by (simp add: rawQuantity_def unitCost_def costPerUnit_def inputFineMinLot_def lotInput_def)
  then show r: "roundedQuantity inputFineMinLot 1 = 0"
    unfolding roundedQuantity_def s
    by (simp add: roundDownToStep_def isFinite_def toFixed8_values Let_def)
  show "specQuantity inputFineMinLot 1 = 1.0000000004"
    unfolding specQuantity_def m r by simp
qed

lemma calculateTrade_inputFineMinLot:
  "calculateTrade inputFineMinLot = Inr (lotResponse 1)"
proof -
  note v = fine_values[unfolded inputFineMinLot_def]
  have 1: "toFixed8 (specQuantity (lotInput 1 1.0000000004 0) 1) = 1"
    by (simp only: v(5) toFixed8_values(8))
  have 2: "0 < minLotThreshold (lotInput 1 1.0000000004 0)"
    by (simp only: v(3)) simp
  have 3: "roundedQuantity (lotInput 1 1.0000000004 0) 1 < minLotThreshold (lotInput 1 1.0000000004 0)"
    by (simp only: v(3,4)) simp
  have 4: "(0::real) < 1" by simp
  show ?thesis
    unfolding inputFineMinLot_def by (rule calculateTrade_lotInput[OF 1 2 3 4])
qed

subsection \<open>Rounding to the nearest double\<close>

lemma rne_of_int: "rne (real_of_int n) = n"
  by (simp add: rne_def)

lemma rne_close: "\<bar>real_of_int (rne q) - q\<bar> \<le> 1 / 2"
proof -
  have "real_of_int \<lfloor>q\<rfloor> \<le> q" "q < real_of_int \<lfloor>q\<rfloor> + 1" by linarith+
  then show ?thesis by (auto simp: rne_def Let_def)
qed

lemma rne_mono: "q \<le> r \<Longrightarrow> rne q \<le> rne r"
proof -
  assume qr: "q \<le> r"
  then have f: "\<lfloor>q\<rfloor> \<le> \<lfloor>r\<rfloor>" by (rule floor_mono)
  have a: "rne q \<le> \<lfloor>q\<rfloor> + 1" "\<lfloor>r\<rfloor> \<le> rne r"
    by (auto simp: rne_def Let_def)
  show ?thesis
  proof (cases "\<lfloor>q\<rfloor> < \<lfloor>r\<rfloor>")
    case True
    then show ?thesis using a by linarith
  next
    case False
    then have e: "\<lfloor>r\<rfloor> = \<lfloor>q\<rfloor>" using f by simp
    then show ?thesis using qr by (auto simp: rne_def Let_def)
  qed
qed

lemma rne_nonneg: "0 \<le> q \<Longrightarrow> 0 \<le> rne q"
  using rne_mono[of 0 q] rne_of_int[of 0] by simp

lemma rne_minus: "rne (- q) = - rne q"
proof (cases "q = real_of_int \<lfloor>q\<rfloor>")
  case True
  then have "- q = real_of_int (- \<lfloor>q\<rfloor>)" by simp
  then have "rne (- q) = - \<lfloor>q\<rfloor>" by (simp only: rne_of_int)
  moreover have "rne q = \<lfloor>q\<rfloor>" using True rne_of_int[of "\<lfloor>q\<rfloor>"] by simp
  ultimately show ?thesis by simp
next
  case False
  have b: "real_of_int \<lfloor>q\<rfloor> < q" "q < real_of_int \<lfloor>q\<rfloor> + 1"
    using False by linarith+
  have fl: "\<lfloor>- q\<rfloor> = - \<lfloor>q\<rfloor> - 1"
    by (rule floor_unique) (use b in linarith)+
  show ?thesis
    unfolding rne_def Let_def fl using b by (auto simp: field_simps)
qed

lemma powr_two_int: "2 powr (real_of_int k) = (2::real) powi k"
  by (rule powr_real_of_int') simp_all

lemma expo_eqI:
  assumes "2 powi (k + 52) \<le> \<bar>x\<bar>" and "\<bar>x\<bar> < 2 powi (k + 53)" and "- 1074 \<le> k"
  shows "expo x = k"
proof -
  have "(0::real) < 2 powi (k + 52)" by (simp add: zero_less_power_int)
  then have pos: "0 < \<bar>x\<bar>" using assms(1) by linarith
  have "2 powr (real_of_int (k + 52)) \<le> \<bar>x\<bar>"
    using assms(1) by (simp only: powr_two_int)
  moreover have "\<bar>x\<bar> < 2 powr (real_of_int (k + 52 + 1))"
  proof -
    have "k + 52 + 1 = k + 53" by simp
    then show ?thesis using assms(2) by (simp only: powr_two_int)
  qed
  moreover from pos have "\<lfloor>log 2 \<bar>x\<bar>\<rfloor> = k + 52 \<longleftrightarrow>
      2 powr real_of_int (k + 52) \<le> \<bar>x\<bar> \<and> \<bar>x\<bar> < 2 powr (real_of_int (k + 52 + 1))"
    using floor_log_eq_powr_iff[of "\<bar>x\<bar>" 2 "k + 52"] by simp
  ultimately have "\<lfloor>log 2 \<bar>x\<bar>\<rfloor> = k + 52" by blast
  then show ?thesis using assms(3) by (simp add: expo_def)
qed

lemma rd_cert:
  fixes j :: nat
  assumes "2 ^ 52 \<le> \<bar>x\<bar> * 2 ^ j" and "\<bar>x\<bar> * 2 ^ j < 2 ^ 53" and "j \<le> 1074"
  shows "rd x = Fin (real_of_int (rne (x * 2 ^ j)) / 2 ^ j)"
proof -
  have p: "(2::real) powi (- int j) = 1 / 2 ^ j"
    by (simp add: power_int_minus_divide)
  have q: "(2::real) powi (- int j + n) = 2 powi n / 2 ^ j" for n
  proof -
    have "(2::real) powi (- int j + n) = 2 powi (- int j) * 2 powi n"
      by (rule power_int_add) simp
    then show ?thesis unfolding p by simp
  qed
  have a: "2 powi (- int j + 52) \<le> \<bar>x\<bar>"
    unfolding q using assms(1) by (simp add: field_simps)
  have b: "\<bar>x\<bar> < 2 powi (- int j + 53)"
    unfolding q using assms(2) by (simp add: field_simps)
  have e: "expo x = - int j"
    using a b assms(3) by (intro expo_eqI) simp_all
  have nz: "x \<noteq> 0" using assms(1) by auto
  have "\<bar>x\<bar> < 2 ^ 53"
  proof -
    have "\<bar>x\<bar> * 1 \<le> \<bar>x\<bar> * 2 ^ j" by (intro mult_left_mono) simp_all
    then show ?thesis using assms(2) by simp
  qed
  then have small: "\<not> 2 ^ 1024 - 2 ^ 970 \<le> x" "\<not> x \<le> - (2 ^ 1024 - 2 ^ 970)"
    by simp_all
  show ?thesis
    unfolding rd_def rnd_def e p using nz small by simp
qed

lemma two_powi_pos: "(0::real) < 2 powi k"
  by (simp add: zero_less_power_int)

lemma two_powi_nat: "0 \<le> k \<Longrightarrow> (2::real) powi k = real_of_int (2 ^ nat k)"
  by (simp add: power_int_nonneg_exp)

lemma two_powi_mono: "k \<le> l \<Longrightarrow> (2::real) powi k \<le> 2 powi l"
  by (rule power_int_increasing) simp_all

text \<open>The binade of a non-zero real.\<close>

lemma floor_log2_bounds:
  assumes "0 < z"
  shows "2 powi \<lfloor>log 2 z\<rfloor> \<le> z" and "z < 2 powi (\<lfloor>log 2 z\<rfloor> + 1)"
proof -
  have "2 powr real_of_int \<lfloor>log 2 z\<rfloor> \<le> z \<and> z < 2 powr real_of_int (\<lfloor>log 2 z\<rfloor> + 1)"
    using floor_log_eq_powr_iff[of z 2 "\<lfloor>log 2 z\<rfloor>"] assms by simp
  then show "2 powi \<lfloor>log 2 z\<rfloor> \<le> z" and "z < 2 powi (\<lfloor>log 2 z\<rfloor> + 1)"
    by (simp_all only: powr_two_int)
qed

lemma floor_log2_less:
  assumes "0 < z" and "z < 2 powi k"
  shows "\<lfloor>log 2 z\<rfloor> < k"
proof (rule ccontr)
  assume "\<not> \<lfloor>log 2 z\<rfloor> < k"
  then have "2 powi k \<le> (2::real) powi \<lfloor>log 2 z\<rfloor>" by (intro two_powi_mono) simp
  with floor_log2_bounds(1)[OF assms(1)] assms(2) show False by linarith
qed

lemma floor_log2_ge:
  assumes "0 < z" and "2 powi k \<le> z"
  shows "k \<le> \<lfloor>log 2 z\<rfloor>"
proof (rule ccontr)
  assume "\<not> k \<le> \<lfloor>log 2 z\<rfloor>"
  then have "(2::real) powi (\<lfloor>log 2 z\<rfloor> + 1) \<le> 2 powi k" by (intro two_powi_mono) simp
  with floor_log2_bounds(2)[OF assms(1)] assms(2) show False by linarith
qed

lemma expo_ge: "- 1074 \<le> expo x"
  by (simp add: expo_def)

lemma expo_bound:
  assumes "x \<noteq> 0"
  shows "\<bar>x\<bar> < 2 powi (expo x + 53)"
proof -
  have pos: "0 < \<bar>x\<bar>" using assms by simp
  have "\<lfloor>log 2 \<bar>x\<bar>\<rfloor> + 1 \<le> expo x + 53" by (simp add: expo_def)
  then have "(2::real) powi (\<lfloor>log 2 \<bar>x\<bar>\<rfloor> + 1) \<le> 2 powi (expo x + 53)"
    by (rule two_powi_mono)
  with floor_log2_bounds(2)[OF pos] show ?thesis by linarith
qed

lemma expo_normal:
  assumes "x \<noteq> 0" and "- 1074 < expo x"
  shows "2 powi (expo x + 52) \<le> \<bar>x\<bar>"
proof -
  have pos: "0 < \<bar>x\<bar>" using assms by simp
  have "expo x = \<lfloor>log 2 \<bar>x\<bar>\<rfloor> - 52" using assms(2) by (simp add: expo_def max_def split: if_splits)
  then have "expo x + 52 = \<lfloor>log 2 \<bar>x\<bar>\<rfloor>" by simp
  then show ?thesis using floor_log2_bounds(1)[OF pos] by simp
qed

lemma expo_le:
  assumes "x \<noteq> 0" and "\<bar>x\<bar> < 2 powi (k + 53)" and "- 1074 \<le> k"
  shows "expo x \<le> k"
proof -
  have pos: "0 < \<bar>x\<bar>" using assms by simp
  have "\<lfloor>log 2 \<bar>x\<bar>\<rfloor> < k + 53" using pos assms(2) by (rule floor_log2_less)
  then show ?thesis using assms(3) by (simp add: expo_def)
qed

lemma expo_mono:
  assumes "x \<noteq> 0" and "\<bar>x\<bar> \<le> \<bar>y\<bar>"
  shows "expo x \<le> expo y"
proof -
  have pos: "0 < \<bar>x\<bar>" "0 < \<bar>y\<bar>" using assms by simp_all
  have "log 2 \<bar>x\<bar> \<le> log 2 \<bar>y\<bar>" using pos assms(2) by simp
  then have "\<lfloor>log 2 \<bar>x\<bar>\<rfloor> \<le> \<lfloor>log 2 \<bar>y\<bar>\<rfloor>" by (rule floor_mono)
  then show ?thesis by (simp add: expo_def)
qed

lemma expo_minus: "expo (- x) = expo x"
  by (simp add: expo_def)

lemma rnd_zero: "rnd 0 = 0"
  by (simp add: rnd_def)

lemma rnd_minus: "rnd (- x) = - rnd x"
  by (simp add: rnd_def expo_minus rne_minus)

lemma rnd_nonneg: "0 \<le> x \<Longrightarrow> 0 \<le> rnd x"
proof -
  assume "0 \<le> x"
  then have "0 \<le> x / 2 powi expo x" using two_powi_pos[of "expo x"] by simp
  then have "0 \<le> rne (x / 2 powi expo x)" by (rule rne_nonneg)
  then show ?thesis using two_powi_pos[of "expo x"] by (simp add: rnd_def)
qed

lemma rnd_nonpos: "x \<le> 0 \<Longrightarrow> rnd x \<le> 0"
  using rnd_nonneg[of "- x"] by (simp add: rnd_minus)

text \<open>The values of the grid are fixed by the rounding.\<close>

lemma rnd_grid:
  assumes "- 1074 \<le> e" and "\<bar>n\<bar> \<le> 2 ^ 53"
  shows "rnd (real_of_int n * 2 powi e) = real_of_int n * 2 powi e"
proof (cases "n = 0")
  case True
  then show ?thesis by (simp add: rnd_zero)
next
  case False
  let ?y = "real_of_int n * 2 powi e"
  have nz: "?y \<noteq> 0" using False by simp
  have absy: "\<bar>?y\<bar> = real_of_int \<bar>n\<bar> * 2 powi e"
    using two_powi_pos[of e] by (simp add: abs_mult)
  have int_quot: "?y / 2 powi k = real_of_int (n * 2 ^ nat (e - k))" if "k \<le> e" for k
  proof -
    have "(2::real) powi e = 2 powi (e - k) * 2 powi k"
      using power_int_add[of "2::real" "e - k" k] by simp
    then have "?y / 2 powi k = real_of_int n * 2 powi (e - k)"
      using two_powi_pos[of k] by simp
    also have "\<dots> = real_of_int (n * 2 ^ nat (e - k))"
      using that by (simp add: two_powi_nat)
    finally show ?thesis .
  qed
  have fixed: "rnd ?y = ?y" if "expo ?y \<le> e"
  proof -
    have "real_of_int (rne (?y / 2 powi expo ?y)) = ?y / 2 powi expo ?y"
      unfolding int_quot[OF that] by (simp only: rne_of_int)
    then show ?thesis using nz two_powi_pos[of "expo ?y"] by (simp add: rnd_def)
  qed
  show ?thesis
  proof (cases "\<bar>n\<bar> = 2 ^ 53")
    case True
    then have "\<bar>?y\<bar> = 2 ^ 53 * 2 powi e" unfolding absy by simp
    also have "\<dots> = 2 powi (e + 53)"
      using power_int_add[of "2::real" e 53] by simp
    finally have y: "\<bar>?y\<bar> = 2 powi (e + 53)" .
    have "expo ?y = e + 1"
    proof (rule expo_eqI)
      show "2 powi (e + 1 + 52) \<le> \<bar>?y\<bar>" unfolding y by (simp add: add.assoc)
      have "(2::real) powi (e + 53) < 2 powi (e + 1 + 53)"
        by (rule power_int_strict_increasing) simp_all
      then show "\<bar>?y\<bar> < 2 powi (e + 1 + 53)" unfolding y .
      show "- 1074 \<le> e + 1" using assms(1) by simp
    qed
    moreover have "?y = real_of_int (n div 2) * 2 powi (e + 1)"
    proof -
      have "even n" using True by (metis abs_numeral even_abs_add_iff even_add even_numeral even_power dvd_abs_iff zero_less_numeral)
      then have "real_of_int n = real_of_int (n div 2) * 2" by (simp add: real_of_int_div)
      moreover have "(2::real) powi (e + 1) = 2 powi e * 2"
        using power_int_add[of "2::real" e 1] by simp
      ultimately show ?thesis by simp
    qed
    ultimately have "real_of_int (rne (?y / 2 powi expo ?y)) = ?y / 2 powi expo ?y"
      using two_powi_pos[of "e + 1"] by (simp add: rne_of_int)
    then show ?thesis using nz two_powi_pos[of "expo ?y"] by (simp add: rnd_def)
  next
    case False
    then have "\<bar>n\<bar> < 2 ^ 53" using assms(2) by simp
    then have "real_of_int \<bar>n\<bar> < 2 ^ 53" by (metis of_int_less_iff of_int_numeral of_int_power)
    then have "\<bar>?y\<bar> < 2 ^ 53 * 2 powi e"
      unfolding absy using two_powi_pos[of e] by simp
    also have "\<dots> = 2 powi (e + 53)"
      using power_int_add[of "2::real" e 53] by simp
    finally have "expo ?y \<le> e" using nz assms(1) by (intro expo_le)
    then show ?thesis by (rule fixed)
  qed
qed

lemma rne_bound:
  assumes "\<bar>q\<bar> \<le> real_of_int m"
  shows "\<bar>rne q\<bar> \<le> m"
proof -
  have "rne q \<le> rne (real_of_int m)" using assms by (intro rne_mono) linarith
  moreover have "rne (real_of_int (- m)) \<le> rne q" using assms by (intro rne_mono) simp
  ultimately show ?thesis by (simp add: rne_of_int rne_minus)
qed

lemma rnd_on_grid:
  "\<exists>n e. rnd x = real_of_int n * 2 powi e \<and> - 1074 \<le> e \<and> \<bar>n\<bar> \<le> 2 ^ 53"
proof (cases "x = 0")
  case True
  then show ?thesis by (intro exI[of _ 0] exI[of _ "- 1074"]) (simp add: rnd_zero)
next
  case False
  have "\<bar>x\<bar> < 2 powi (expo x + 53)" using False by (rule expo_bound)
  also have "\<dots> = 2 ^ 53 * 2 powi expo x"
    using power_int_add[of "2::real" "expo x" 53] by simp
  finally have "\<bar>x\<bar> / 2 powi expo x < 2 ^ 53"
    using two_powi_pos[of "expo x"] by (simp add: field_simps)
  then have "\<bar>x / 2 powi expo x\<bar> \<le> real_of_int (2 ^ 53)"
    using two_powi_pos[of "expo x"] by (simp add: abs_divide)
  then have "\<bar>rne (x / 2 powi expo x)\<bar> \<le> 2 ^ 53" by (rule rne_bound)
  then show ?thesis
    using False expo_ge[of x]
    by (intro exI[of _ "rne (x / 2 powi expo x)"] exI[of _ "expo x"]) (simp add: rnd_def)
qed

lemma rnd_idem: "rnd (rnd x) = rnd x"
proof -
  from rnd_on_grid[of x] obtain n e where
    "rnd x = real_of_int n * 2 powi e" "- 1074 \<le> e" "\<bar>n\<bar> \<le> 2 ^ 53" by blast
  then show ?thesis by (simp only: rnd_grid)
qed

lemma rnd_mono_pos:
  assumes "0 < x" and "x \<le> y"
  shows "rnd x \<le> rnd y"
proof -
  have nz: "x \<noteq> 0" "y \<noteq> 0" and ypos: "0 < y" using assms by simp_all
  have le: "expo x \<le> expo y" using nz(1) assms by (intro expo_mono) simp_all
  show ?thesis
  proof (cases "expo x = expo y")
    case True
    have "x / 2 powi expo y \<le> y / 2 powi expo y"
      using assms(2) two_powi_pos[of "expo y"] by (simp add: divide_right_mono)
    then have "rne (x / 2 powi expo y) \<le> rne (y / 2 powi expo y)" by (rule rne_mono)
    then have "real_of_int (rne (x / 2 powi expo y)) * 2 powi expo y
        \<le> real_of_int (rne (y / 2 powi expo y)) * 2 powi expo y"
      using two_powi_pos[of "expo y"] by (simp add: mult_right_mono)
    then show ?thesis using nz True by (simp add: rnd_def)
  next
    case False
    then have lt: "expo x < expo y" using le by simp
    let ?e = "expo x" and ?f = "expo y"
    let ?K = "(2::real) powi (?f + 52)"
    have fn: "- 1074 < ?f" using lt expo_ge[of x] by linarith
    have Ky: "?K \<le> y" using expo_normal[OF nz(2) fn] ypos by simp
    have xK: "x < ?K"
    proof -
      have "x < 2 powi (?e + 53)" using expo_bound[OF nz(1)] assms(1) by simp
      also have "\<dots> \<le> ?K" using lt by (intro two_powi_mono) simp
      finally show ?thesis .
    qed
    have up: "?K \<le> rnd y"
    proof -
      have "?K = 2 ^ 52 * 2 powi ?f"
        using power_int_add[of "2::real" ?f 52] by simp
      then have "real_of_int (2 ^ 52) \<le> y / 2 powi ?f"
        using Ky two_powi_pos[of ?f] by (simp add: field_simps)
      then have "rne (real_of_int (2 ^ 52)) \<le> rne (y / 2 powi ?f)" by (rule rne_mono)
      then have "(2::int) ^ 52 \<le> rne (y / 2 powi ?f)" by (simp only: rne_of_int)
      then have "real_of_int (2 ^ 52) \<le> real_of_int (rne (y / 2 powi ?f))"
        by (simp only: of_int_le_iff)
      then have "real_of_int (2 ^ 52) * 2 powi ?f \<le> real_of_int (rne (y / 2 powi ?f)) * 2 powi ?f"
        using two_powi_pos[of ?f] by (simp add: mult_right_mono)
      then show ?thesis using nz \<open>?K = 2 ^ 52 * 2 powi ?f\<close> by (simp add: rnd_def)
    qed
    have down: "rnd x \<le> ?K"
    proof -
      let ?d = "?f + 52 - ?e"
      have d: "0 \<le> ?d" using lt by simp
      have K: "?K = 2 powi ?d * 2 powi ?e"
        using power_int_add[of "2::real" ?d ?e] by simp
      then have "x / 2 powi ?e \<le> 2 powi ?d"
        using xK two_powi_pos[of ?e] by (simp add: field_simps)
      then have "x / 2 powi ?e \<le> real_of_int (2 ^ nat ?d)"
        using d by (simp only: two_powi_nat)
      then have "rne (x / 2 powi ?e) \<le> rne (real_of_int (2 ^ nat ?d))" by (rule rne_mono)
      then have "rne (x / 2 powi ?e) \<le> 2 ^ nat ?d" by (simp only: rne_of_int)
      then have "real_of_int (rne (x / 2 powi ?e)) \<le> real_of_int (2 ^ nat ?d)"
        by (simp only: of_int_le_iff)
      then have "real_of_int (rne (x / 2 powi ?e)) \<le> 2 powi ?d"
        using d by (simp only: two_powi_nat)
      then have "real_of_int (rne (x / 2 powi ?e)) * 2 powi ?e \<le> 2 powi ?d * 2 powi ?e"
        using two_powi_pos[of ?e] by (simp add: mult_right_mono)
      then show ?thesis using nz K by (simp add: rnd_def)
    qed
    from down up show ?thesis by linarith
  qed
qed

lemma rnd_mono: "x \<le> y \<Longrightarrow> rnd x \<le> rnd y"
proof -
  assume xy: "x \<le> y"
  consider "0 < x" | "x \<le> 0" "0 \<le> y" | "y < 0" by linarith
  then show ?thesis
  proof cases
    case 1
    then show ?thesis using xy by (rule rnd_mono_pos)
  next
    case 2
    then show ?thesis using rnd_nonpos[of x] rnd_nonneg[of y] by linarith
  next
    case 3
    then have "rnd (- y) \<le> rnd (- x)" using xy by (intro rnd_mono_pos) simp_all
    then show ?thesis by (simp add: rnd_minus)
  qed
qed

text \<open>The rounding error: half a unit in the last place.\<close>

lemma rnd_error: "\<bar>rnd x - x\<bar> \<le> \<bar>x\<bar> / 2 ^ 53 + 2 powi (- 1075)"
proof -
  define tiny :: real where "tiny = 2 powi (- 1075)"
  have tiny: "0 < tiny" unfolding tiny_def by (rule two_powi_pos)
  have "\<bar>rnd x - x\<bar> \<le> \<bar>x\<bar> / 2 ^ 53 + tiny"
  proof (cases "x = 0")
    case True
    then show ?thesis using tiny by (simp add: rnd_zero)
  next
    case False
    let ?p = "(2::real) powi expo x"
    have p: "0 < ?p" by (rule two_powi_pos)
    have "rnd x - x = (real_of_int (rne (x / ?p)) - x / ?p) * ?p"
      using False p by (simp add: rnd_def field_simps)
    then have "\<bar>rnd x - x\<bar> = \<bar>real_of_int (rne (x / ?p)) - x / ?p\<bar> * ?p"
      using p by (simp add: abs_mult)
    also have "\<dots> \<le> (1 / 2) * ?p"
      using rne_close[of "x / ?p"] p by (intro mult_right_mono) simp_all
    finally have half: "\<bar>rnd x - x\<bar> \<le> ?p / 2" by simp
    show ?thesis
    proof (cases "- 1074 < expo x")
      case True
      have "2 powi (expo x + 52) = 2 ^ 52 * ?p"
        using power_int_add[of "2::real" "expo x" 52] by simp
      then have "2 ^ 52 * ?p \<le> \<bar>x\<bar>" using expo_normal[OF False True] by simp
      then have "?p / 2 \<le> \<bar>x\<bar> / 2 ^ 53" by simp
      then show ?thesis using half tiny by linarith
    next
      case sub: False
      then have e: "expo x = - 1075 + 1" using expo_ge[of x] by linarith
      have "(2::real) powi (- 1075 + 1) = 2 powi (- 1075) * 2 powi 1"
        by (rule power_int_add) simp
      then have "?p = tiny * 2" unfolding e tiny_def by simp
      then have "?p / 2 = tiny" by simp
      moreover have "0 \<le> \<bar>x\<bar> / 2 ^ 53" by simp
      ultimately show ?thesis using half by linarith
    qed
  qed
  then show ?thesis unfolding tiny_def .
qed

lemma rd_zero: "rd 0 = Fin 0"
  by (simp add: rd_def rnd_def)

subsection \<open>Signs and order of rounded results\<close>

lemma maxD_pos: "0 < maxD"
  by (simp add: maxD_def)

lemma rd_alt:
  "rd x = (if maxD \<le> x then PInf else if x \<le> - maxD then NInf else Fin (rnd x))"
  by (simp add: rd_def maxD_def)

lemma rnd_below_maxD:
  assumes "0 \<le> x" and "x < maxD"
  shows "rnd x < maxD"
proof (cases "x \<le> 2 ^ 1023")
  case True
  have g: "rnd (real_of_int (2 ^ 52) * 2 powi 971) = real_of_int (2 ^ 52) * 2 powi 971"
    by (rule rnd_grid) simp_all
  have e: "real_of_int (2 ^ 52) * 2 powi 971 = (2::real) ^ 1023"
    by simp
  have "rnd x \<le> rnd (2 ^ 1023)" using True by (rule rnd_mono)
  also have "\<dots> = 2 ^ 1023" using g unfolding e .
  also have "\<dots> < maxD" by (simp add: maxD_def)
  finally show ?thesis .
next
  case False
  then have lo: "2 ^ 1023 < x" by simp
  have hi: "x < 2 ^ 1024" using assms(2) by (simp add: maxD_def)
  have ex: "expo x = 971"
  proof (rule expo_eqI)
    show "2 powi (971 + 52) \<le> \<bar>x\<bar>" using lo by simp
    show "\<bar>x\<bar> < 2 powi (971 + 53)" using hi lo by simp
  qed simp
  have p: "(2::real) powi 971 = 2 ^ 971" by simp
  have "x / 2 ^ 971 < 2 ^ 53 - 1 / 2"
    using assms(2) by (simp add: maxD_def field_simps)
  moreover have "real_of_int (rne (x / 2 ^ 971)) \<le> x / 2 ^ 971 + 1 / 2"
    using rne_close[of "x / 2 ^ 971"] by linarith
  ultimately have "real_of_int (rne (x / 2 ^ 971)) < real_of_int (2 ^ 53)" by simp
  then have "rne (x / 2 ^ 971) < 2 ^ 53" by (simp only: of_int_less_iff)
  then have "rne (x / 2 ^ 971) \<le> 2 ^ 53 - 1" by simp
  then have "real_of_int (rne (x / 2 ^ 971)) \<le> real_of_int (2 ^ 53 - 1)"
    by (simp only: of_int_le_iff)
  then have "real_of_int (rne (x / 2 ^ 971)) * 2 ^ 971 \<le> real_of_int (2 ^ 53 - 1) * 2 ^ 971"
    by (simp only: mult_le_cancel_right) simp
  moreover have "rnd x = real_of_int (rne (x / 2 ^ 971)) * 2 ^ 971"
    using lo by (simp add: rnd_def ex)
  moreover have "real_of_int (2 ^ 53 - 1) * 2 ^ 971 < maxD" by (simp add: maxD_def)
  ultimately show ?thesis by linarith
qed

lemma rnd_abs_below_maxD:
  assumes "\<bar>x\<bar> < maxD"
  shows "\<bar>rnd x\<bar> < maxD"
proof (cases "0 \<le> x")
  case True
  then show ?thesis using rnd_below_maxD[of x] rnd_nonneg[of x] assms by simp
next
  case False
  then show ?thesis
    using rnd_below_maxD[of "- x"] rnd_nonneg[of "- x"] assms by (simp add: rnd_minus)
qed

lemma rd_Fin: "rd x = Fin y \<Longrightarrow> y = rnd x \<and> \<bar>x\<bar> < maxD"
  by (auto simp: rd_alt split: if_splits)

lemma rd_not_NaN [simp]: "rd x \<noteq> NaN"
  by (simp add: rd_def)

lemma dbl_rd: "dbl (rd x)"
proof (cases "rd x")
  case (Fin y)
  then have y: "y = rnd x" and b: "\<bar>x\<bar> < maxD" using rd_Fin by blast+
  have "\<bar>y\<bar> < maxD" unfolding y using b by (rule rnd_abs_below_maxD)
  then have "rd y = Fin (rnd y)" by (auto simp: rd_alt)
  then show ?thesis using Fin by (simp add: y rnd_idem)
qed simp_all

lemma rd_minus: "rd (- x) = fneg (rd x)"
  using maxD_pos by (simp add: rd_alt rnd_minus)

lemma rd_mono: "x \<le> y \<Longrightarrow> fle (rd x) (rd y)"
  using maxD_pos rnd_mono[of x y] by (simp add: rd_alt)

lemma notNeg_rd: "0 \<le> x \<Longrightarrow> notNeg (rd x)"
  using maxD_pos rnd_nonneg[of x] by (simp add: rd_alt notNeg_def)

lemma notNeg_fmul: "notNeg a \<Longrightarrow> notNeg b \<Longrightarrow> notNeg (fmul a b)"
proof (cases a; cases b)
  fix x y assume "notNeg a" "notNeg b" "a = Fin x" "b = Fin y"
  then have "0 \<le> x * y" by (simp add: notNeg_def)
  then have "notNeg (rd (x * y))" by (rule notNeg_rd)
  then show "notNeg (fmul a b)" using \<open>a = Fin x\<close> \<open>b = Fin y\<close> by simp
qed (auto simp: notNeg_def)

lemma fmul_fneg: "fmul (fneg a) b = fneg (fmul a b)"
  by (cases a; cases b) (simp_all add: rd_minus[symmetric])

lemma notPos_fneg: "notNeg a \<Longrightarrow> notPos (fneg a)"
  by (cases a) (simp_all add: notNeg_def notPos_def)

lemma notNeg_fsub: "leq b a \<Longrightarrow> notNeg (fsub a b)"
proof (cases a; cases b)
  fix x y assume "leq b a" "a = Fin x" "b = Fin y"
  then show "notNeg (fsub a b)" by (simp add: fsub_def notNeg_rd leq_def)
qed (auto simp: notNeg_def leq_def fsub_def)

lemma fle_rd_self:
  assumes "rd x = Fin x" and "0 \<le> y"
  shows "fle (Fin x) (rd (x + y))"
  using rd_mono[of x "x + y"] assms by simp

lemma leq_fadd:
  assumes "dbl a" and "notNeg m"
  shows "leq a (fadd a m)"
proof (cases a; cases m)
  fix x y assume "a = Fin x" "m = Fin y"
  then show "leq a (fadd a m)"
    using assms fle_rd_self[of x y] by (simp add: leq_def notNeg_def)
qed (insert assms, auto simp: leq_def notNeg_def)

lemma leq_fsub:
  assumes "dbl a" and "notNeg m"
  shows "leq (fsub a m) a"
proof (cases a; cases m)
  fix x y assume "a = Fin x" "m = Fin y"
  then show "leq (fsub a m) a"
    using assms rd_mono[of "x - y" x] by (simp add: leq_def notNeg_def fsub_def)
qed (insert assms, auto simp: leq_def notNeg_def fsub_def)

lemma dbl_fadd: "dbl (fadd a b)"
  by (cases a; cases b) (simp_all add: dbl_rd)

lemma dbl_fsub: "dbl (fsub a b)"
  unfolding fsub_def by (rule dbl_fadd)

lemma leq_fsub_fadd:
  assumes "notNeg s" and "notNeg b"
  shows "leq (fsub l s) (fadd l b)"
proof (cases l; cases s; cases b)
  fix x y z assume "l = Fin x" "s = Fin y" "b = Fin z"
  then show "leq (fsub l s) (fadd l b)"
    using assms rd_mono[of "x - y" "x + z"] by (simp add: leq_def notNeg_def fsub_def)
next
  fix x y assume "l = Fin x" "s = Fin y" "b = PInf"
  then show "leq (fsub l s) (fadd l b)"
    by (cases "rd (x - y)") (simp_all add: leq_def fsub_def)
next
  fix x z assume "l = Fin x" "s = PInf" "b = Fin z"
  then show "leq (fsub l s) (fadd l b)"
    by (cases "rd (x + z)") (simp_all add: leq_def fsub_def)
qed (insert assms, auto simp: leq_def notNeg_def fsub_def)

subsection \<open>Rounding to eight decimals, in doubles\<close>

lemma rd_small: "\<bar>x\<bar> < maxD \<Longrightarrow> rd x = Fin (rnd x)"
  by (auto simp: rd_alt)

lemma maxD_big: "10 ^ 21 + 1 < maxD"
  by (simp add: maxD_def)

lemma rnd_half: "rnd (1 / 2) = 1 / 2"
  using rnd_grid[of "- 1" 1] by simp

lemma rnd_1e7: "rnd 10000000 = 10000000"
  using rnd_grid[of 0 10000000] by simp

lemma D_eps: "\<exists>e. D (1 / 10 ^ 9) = Fin e \<and> 0 \<le> e \<and> e \<le> 1 / 2"
proof -
  have "\<bar>1 / 10 ^ 9 :: real\<bar> < maxD" using maxD_big by simp
  then have "D (1 / 10 ^ 9) = Fin (rnd (1 / 10 ^ 9))" unfolding D_def by (rule rd_small)
  moreover have "0 \<le> rnd (1 / 10 ^ 9)" by (rule rnd_nonneg) simp
  moreover have "rnd (1 / 10 ^ 9) \<le> rnd (1 / 2)" by (rule rnd_mono) simp
  ultimately show ?thesis by (simp add: rnd_half)
qed

text \<open>toFixed8D on a finite non-negative value.\<close>

lemma toFixed8D_small:
  assumes "0 \<le> x" and "x < 10 ^ 21"
  shows "toFixed8D (Fin x) = Fin (rnd (real_of_int \<lfloor>x * 10 ^ 8 + 1 / 2\<rfloor> / 10 ^ 8))"
proof -
  let ?n = "\<lfloor>x * 10 ^ 8 + 1 / 2\<rfloor>"
  have small: "(1::real) / (2 * 10 ^ 8) \<le> 1" by simp
  have "real_of_int ?n \<le> x * 10 ^ 8 + 1 / 2" by (rule of_int_floor_le)
  then have "real_of_int ?n / 10 ^ 8 \<le> x + 1 / (2 * 10 ^ 8)" by (simp add: field_simps)
  then have "real_of_int ?n / 10 ^ 8 < maxD" using assms(2) maxD_big small by linarith
  moreover have "0 \<le> real_of_int ?n / 10 ^ 8" using assms(1) by simp
  ultimately have "\<bar>real_of_int ?n / 10 ^ 8\<bar> < maxD" by (simp only: abs_of_nonneg)
  then have "rd (real_of_int ?n / 10 ^ 8) = Fin (rnd (real_of_int ?n / 10 ^ 8))"
    by (rule rd_small)
  then show ?thesis using assms by simp
qed

lemma toFixed8D_nonneg:
  assumes "0 \<le> x"
  shows "\<exists>t. toFixed8D (Fin x) = Fin t \<and> 0 \<le> t"
proof (cases "x < 10 ^ 21")
  case True
  have "0 \<le> rnd (real_of_int \<lfloor>x * 10 ^ 8 + 1 / 2\<rfloor> / 10 ^ 8)"
    using assms by (intro rnd_nonneg) simp
  then show ?thesis using toFixed8D_small[OF assms True] by simp
next
  case False
  then show ?thesis using assms by simp
qed

lemma toFixed8D_Fin: "\<exists>t. toFixed8D (Fin x) = Fin t"
proof (cases "0 \<le> x")
  case True
  then show ?thesis using toFixed8D_nonneg by blast
next
  case False
  show ?thesis
  proof (cases "10 ^ 21 \<le> \<bar>x\<bar>")
    case True
    then show ?thesis by simp
  next
    case b: False
    let ?n = "\<lfloor>(- x) * 10 ^ 8 + 1 / 2\<rfloor>"
    have small: "(1::real) / (2 * 10 ^ 8) \<le> 1" by simp
    have "real_of_int ?n \<le> (- x) * 10 ^ 8 + 1 / 2" by (rule of_int_floor_le)
    then have "real_of_int ?n / 10 ^ 8 \<le> - x + 1 / (2 * 10 ^ 8)" by (simp add: field_simps)
    moreover have "- x < 10 ^ 21" using b False by simp
    ultimately have "real_of_int ?n / 10 ^ 8 < maxD" using maxD_big small by linarith
    moreover have "0 \<le> real_of_int ?n / 10 ^ 8" using False by simp
    ultimately have "\<bar>real_of_int ?n / 10 ^ 8\<bar> < maxD" by (simp only: abs_of_nonneg)
    then have "\<bar>- (real_of_int ?n / 10 ^ 8)\<bar> < maxD" by (simp only: abs_minus_cancel)
    then have "rd (- (real_of_int ?n / 10 ^ 8)) = Fin (rnd (- (real_of_int ?n / 10 ^ 8)))"
      by (rule rd_small)
    then show ?thesis using False b by simp
  qed
qed

lemma toFixed8D_zero: "toFixed8D (Fin 0) = Fin 0"
  by (simp add: rd_zero)

lemma roundDownToStepD_tail:
  "\<not> fle step (Fin 0) \<Longrightarrow>
   roundDownToStepD qty step = alignTail (ffloor (fadd (fdiv qty step) (D (1 / 10 ^ 9)))) step"
  by (simp add: roundDownToStepD_def alignTail_def Let_def)

lemma roundUpToStepD_tail:
  "\<not> fle step (Fin 0) \<Longrightarrow>
   roundUpToStepD qty step = alignTail (fceil (fsub (fdiv qty step) (D (1 / 10 ^ 9)))) step"
  by (simp add: roundUpToStepD_def alignTail_def Let_def)

lemma alignTail_Fin: "\<exists>t. alignTail f step = Fin t \<and> 0 \<le> t"
proof (cases "fmul f step")
  case (Fin x)
  from toFixed8D_Fin[of x] obtain t where "toFixed8D (Fin x) = Fin t" by blast
  then show ?thesis using Fin by (simp add: alignTail_def)
qed (simp_all add: alignTail_def)

lemma alignTail_degenerate:
  assumes "0 < s" and "f = NaN \<or> f = PInf"
  shows "alignTail f (Fin s) = Fin 0"
  using assms by (auto simp: alignTail_def)

lemma alignTail_nat:
  assumes "0 < s"
  shows "\<exists>k'::nat. alignTail (Fin (real k)) (Fin s) = toFixed8D (Fin (rnd (real k' * s)))"
proof (cases "rd (real k * s)")
  case (Fin h)
  then have h: "h = rnd (real k * s)" using rd_Fin by blast
  have "0 \<le> h" unfolding h using assms by (intro rnd_nonneg) simp
  from toFixed8D_nonneg[OF this] obtain t where t: "toFixed8D (Fin h) = Fin t" "0 \<le> t" by blast
  then have "alignTail (Fin (real k)) (Fin s) = toFixed8D (Fin h)"
    using Fin by (simp add: alignTail_def)
  then show ?thesis unfolding h by blast
next
  case PInf
  then have "alignTail (Fin (real k)) (Fin s) = Fin 0" by (simp add: alignTail_def)
  then have "alignTail (Fin (real k)) (Fin s) = toFixed8D (Fin (rnd (real 0 * s)))"
    by (simp add: rnd_zero rd_zero)
  then show ?thesis by blast
next
  case NInf
  then have "alignTail (Fin (real k)) (Fin s) = Fin 0" by (simp add: alignTail_def)
  then have "alignTail (Fin (real k)) (Fin s) = toFixed8D (Fin (rnd (real 0 * s)))"
    by (simp add: rnd_zero rd_zero)
  then show ?thesis by blast
next
  case NaN
  then show ?thesis by simp
qed

lemma alignTail_stepped:
  assumes "0 < s" and "f = NaN \<or> f = PInf \<or> (\<exists>k::nat. f = Fin (real k))"
  shows "\<exists>k::nat. alignTail f (Fin s) = toFixed8D (Fin (rnd (real k * s)))"
proof -
  consider "f = NaN \<or> f = PInf" | k :: nat where "f = Fin (real k)" using assms(2) by blast
  then show ?thesis
  proof cases
    case 1
    then have "alignTail f (Fin s) = toFixed8D (Fin (rnd (real 0 * s)))"
      using alignTail_degenerate[OF assms(1)] by (simp add: rnd_zero rd_zero)
    then show ?thesis by blast
  next
    case 2
    then show ?thesis using alignTail_nat[OF assms(1)] by simp
  qed
qed

lemma floor_shape:
  assumes "notNeg qty" and "0 < s"
  shows "ffloor (fadd (fdiv qty (Fin s)) (D (1 / 10 ^ 9))) = NaN
    \<or> ffloor (fadd (fdiv qty (Fin s)) (D (1 / 10 ^ 9))) = PInf
    \<or> (\<exists>k::nat. ffloor (fadd (fdiv qty (Fin s)) (D (1 / 10 ^ 9))) = Fin (real k))"
proof -
  from D_eps obtain e where e: "D (1 / 10 ^ 9) = Fin e" "0 \<le> e" "e \<le> 1 / 2" by blast
  show ?thesis
  proof (cases qty)
    case (Fin x)
    then have x: "0 \<le> x" using assms(1) by (simp add: notNeg_def)
    then have q: "0 \<le> x / s" using assms(2) by simp
    show ?thesis
    proof (cases "rd (x / s)")
      case c: (Fin c)
      then have "c = rnd (x / s)" using rd_Fin by blast
      then have c0: "0 \<le> c" using q by (simp add: rnd_nonneg)
      show ?thesis
      proof (cases "rd (c + e)")
        case g: (Fin g)
        then have "g = rnd (c + e)" using rd_Fin by blast
        then have "0 \<le> g" using c0 e(2) by (simp add: rnd_nonneg)
        then have "0 \<le> \<lfloor>g\<rfloor>" by simp
        then have "real_of_int \<lfloor>g\<rfloor> = real (nat \<lfloor>g\<rfloor>)" by simp
        then have "\<exists>k::nat. real_of_int \<lfloor>g\<rfloor> = real k" by blast
        then show ?thesis using Fin c g e(1) assms(2) by simp
      next
        case PInf
        then show ?thesis using Fin c e(1) assms(2) by simp
      next
        case NInf
        moreover have "notNeg (rd (c + e))" using c0 e(2) by (intro notNeg_rd) simp
        ultimately show ?thesis by (simp add: notNeg_def)
      next
        case NaN
        then show ?thesis by simp
      qed
    next
      case PInf
      then show ?thesis using Fin e(1) assms(2) by simp
    next
      case NInf
      moreover have "notNeg (rd (x / s))" using q by (rule notNeg_rd)
      ultimately show ?thesis by (simp add: notNeg_def)
    next
      case NaN
      then show ?thesis by simp
    qed
  next
    case PInf
    then show ?thesis using e(1) assms(2) by simp
  next
    case NInf
    then show ?thesis using assms(1) by (simp add: notNeg_def)
  next
    case NaN
    then show ?thesis by simp
  qed
qed

lemma ceil_shape:
  assumes "notNeg qty" and "0 < s"
  shows "fceil (fsub (fdiv qty (Fin s)) (D (1 / 10 ^ 9))) = NaN
    \<or> fceil (fsub (fdiv qty (Fin s)) (D (1 / 10 ^ 9))) = PInf
    \<or> (\<exists>k::nat. fceil (fsub (fdiv qty (Fin s)) (D (1 / 10 ^ 9))) = Fin (real k))"
proof -
  from D_eps obtain e where e: "D (1 / 10 ^ 9) = Fin e" "0 \<le> e" "e \<le> 1 / 2" by blast
  show ?thesis
  proof (cases qty)
    case (Fin x)
    then have x: "0 \<le> x" using assms(1) by (simp add: notNeg_def)
    then have q: "0 \<le> x / s" using assms(2) by simp
    show ?thesis
    proof (cases "rd (x / s)")
      case c: (Fin c)
      then have "c = rnd (x / s)" using rd_Fin by blast
      then have c0: "0 \<le> c" using q by (simp add: rnd_nonneg)
      show ?thesis
      proof (cases "rd (c - e)")
        case g: (Fin g)
        then have "g = rnd (c - e)" using rd_Fin by blast
        moreover have "rnd (- (1 / 2)) \<le> rnd (c - e)" using c0 e(3) by (intro rnd_mono) simp
        moreover have "rnd (- (1 / 2)) = - (1 / 2)" by (simp only: rnd_minus rnd_half)
        ultimately have "- (1 / 2) \<le> g" by simp
        moreover have "g \<le> real_of_int \<lceil>g\<rceil>" by (rule le_of_int_ceiling)
        ultimately have "0 \<le> \<lceil>g\<rceil>" by linarith
        then have "real_of_int \<lceil>g\<rceil> = real (nat \<lceil>g\<rceil>)" by simp
        then have "\<exists>k::nat. real_of_int \<lceil>g\<rceil> = real k" by blast
        then show ?thesis using Fin c g e(1) assms(2) by (simp add: fsub_def)
      next
        case PInf
        then show ?thesis using Fin c e(1) assms(2) by (simp add: fsub_def)
      next
        case NInf
        then have "c - e \<le> - maxD" by (simp add: rd_alt split: if_splits)
        then show ?thesis using c0 e(3) maxD_big by simp
      next
        case NaN
        then show ?thesis by simp
      qed
    next
      case PInf
      then show ?thesis using Fin e(1) assms(2) by (simp add: fsub_def)
    next
      case NInf
      moreover have "notNeg (rd (x / s))" using q by (rule notNeg_rd)
      ultimately show ?thesis by (simp add: notNeg_def)
    next
      case NaN
      then show ?thesis by simp
    qed
  next
    case PInf
    then show ?thesis using e(1) assms(2) by (simp add: fsub_def)
  next
    case NInf
    then show ?thesis using assms(1) by (simp add: notNeg_def)
  next
    case NaN
    then show ?thesis by (simp add: fsub_def)
  qed
qed

lemma roundDownToStepD_stepped:
  assumes "notNeg qty" and "0 < s"
  shows "\<exists>k::nat. roundDownToStepD qty (Fin s) = toFixed8D (Fin (rnd (real k * s)))"
  using alignTail_stepped[OF assms(2) floor_shape[OF assms]] assms(2)
  by (simp add: roundDownToStepD_tail)

lemma roundUpToStepD_stepped:
  assumes "notNeg qty" and "0 < s"
  shows "\<exists>k::nat. roundUpToStepD qty (Fin s) = toFixed8D (Fin (rnd (real k * s)))"
  using alignTail_stepped[OF assms(2) ceil_shape[OF assms]] assms(2)
  by (simp add: roundUpToStepD_tail)

lemma roundDownToStepD_Fin:
  "\<not> fle step (Fin 0) \<Longrightarrow> \<exists>t. roundDownToStepD qty step = Fin t \<and> 0 \<le> t"
  using alignTail_Fin by (simp add: roundDownToStepD_tail)

lemma roundUpToStepD_Fin:
  "\<not> fle step (Fin 0) \<Longrightarrow> \<exists>t. roundUpToStepD qty step = Fin t \<and> 0 \<le> t"
  using alignTail_Fin by (simp add: roundUpToStepD_tail)

lemma rnd_close_small:
  assumes "0 \<le> v" and "v \<le> 10000001"
  shows "\<bar>rnd v - v\<bar> \<le> 12 / 10000000000"
proof -
  define tiny :: real where "tiny = 2 powi (- 1075)"
  have "tiny \<le> 2 powi (- 53)" unfolding tiny_def by (rule two_powi_mono) simp
  also have "\<dots> = 1 / 9007199254740992" by (simp add: power_int_minus field_simps)
  finally have tiny: "tiny \<le> 1 / 9007199254740992" .
  have "\<bar>rnd v - v\<bar> \<le> \<bar>v\<bar> / 2 ^ 53 + tiny" unfolding tiny_def by (rule rnd_error)
  then have "\<bar>rnd v - v\<bar> \<le> v / 9007199254740992 + tiny" using assms(1) by simp
  then show ?thesis using tiny assms by linarith
qed

lemma toFixed8D_lit:
  assumes "0 \<le> x" and "x < 10000000"
  shows "toFixed8D (Fin x) = Fin (rnd (real_of_int \<lfloor>x * 100000000 + 1 / 2\<rfloor> / 100000000))"
proof -
  have "x < 10 ^ 21" using assms(2) by simp
  from toFixed8D_small[OF assms(1) this] show ?thesis by simp
qed

lemma toFixed8D_big:
  assumes "10000000 \<le> x" and "toFixed8D (Fin x) = Fin t"
  shows "10000000 \<le> t"
proof (cases "x < 10 ^ 21")
  case True
  have x0: "0 \<le> x" using assms(1) by simp
  let ?n = "\<lfloor>x * 10 ^ 8 + 1 / 2\<rfloor>"
  have "real_of_int (10 ^ 15) \<le> x * 10 ^ 8 + 1 / 2" using assms(1) by simp
  then have "10 ^ 15 \<le> ?n" by (simp only: le_floor_iff)
  then have "real_of_int (10 ^ 15) \<le> real_of_int ?n" by (simp only: of_int_le_iff)
  then have "10 ^ 7 \<le> real_of_int ?n / 10 ^ 8" by simp
  then have "rnd (10 ^ 7) \<le> rnd (real_of_int ?n / 10 ^ 8)" by (rule rnd_mono)
  moreover have "t = rnd (real_of_int ?n / 10 ^ 8)"
    using toFixed8D_small[OF x0 True] assms(2) by simp
  ultimately show ?thesis by (simp add: rnd_1e7)
next
  case False
  then show ?thesis using assms by simp
qed

lemma toFixed8D_twice:
  assumes a: "0 \<le> a"
    and t: "toFixed8D (Fin (rnd a)) = Fin t"
    and q: "toFixed8D (Fin t) = Fin q"
    and b: "q < 10000000"
  shows "\<bar>q - a\<bar> \<le> 1 / 10 ^ 8"
proof -
  have t7: "t < 10000000"
  proof (rule ccontr)
    assume "\<not> t < 10000000"
    then have "10000000 \<le> t" by simp
    from toFixed8D_big[OF this q] show False using b by simp
  qed
  have R7: "rnd a < 10000000"
  proof (rule ccontr)
    assume "\<not> rnd a < 10000000"
    then have "10000000 \<le> rnd a" by simp
    from toFixed8D_big[OF this t] show False using t7 by simp
  qed
  have a7: "a < 10000000"
  proof (rule ccontr)
    assume "\<not> a < 10000000"
    then have "10 ^ 7 \<le> a" by simp
    then have "rnd (10 ^ 7) \<le> rnd a" by (rule rnd_mono)
    then show False using R7 by (simp add: rnd_1e7)
  qed
  have R0: "0 \<le> rnd a" using a by (rule rnd_nonneg)
  have e1: "\<bar>rnd a - a\<bar> \<le> 12 / 10000000000"
    using a a7 by (intro rnd_close_small) simp_all
  define n where "n = \<lfloor>rnd a * 100000000 + 1 / 2\<rfloor>"
  define v where "v = real_of_int n / 100000000"
  have tv: "t = rnd v"
    using toFixed8D_lit[OF R0 R7] t unfolding v_def n_def by simp
  have n1: "real_of_int n \<le> rnd a * 100000000 + 1 / 2"
    and n2: "rnd a * 100000000 + 1 / 2 < real_of_int n + 1"
    unfolding n_def by linarith+
  have vn: "v * 100000000 = real_of_int n" unfolding v_def by simp
  have n0: "0 \<le> n" unfolding n_def using R0 by simp
  have v0: "0 \<le> v" unfolding v_def using n0 by simp
  have v7: "v \<le> 10000001" using n1 R7 vn by linarith
  have e2: "\<bar>v - rnd a\<bar> \<le> 1 / 200000000" using n1 n2 vn by linarith
  have e3: "\<bar>t - v\<bar> \<le> 12 / 10000000000"
    unfolding tv using v0 v7 by (rule rnd_close_small)
  have t0: "0 \<le> t" unfolding tv using v0 by (rule rnd_nonneg)
  have "\<lfloor>t * 100000000 + 1 / 2\<rfloor> = n"
  proof (rule floor_unique)
    show "real_of_int n \<le> t * 100000000 + 1 / 2" using e3 vn by linarith
    show "t * 100000000 + 1 / 2 < real_of_int n + 1" using e3 vn by linarith
  qed
  then have "toFixed8D (Fin t) = Fin (rnd v)"
    using toFixed8D_lit[OF t0 t7] unfolding v_def by simp
  then have "q = t" using q tv by simp
  then have "\<bar>q - a\<bar> \<le> 12 / 10000000000 + 1 / 200000000 + 12 / 10000000000"
    using e1 e2 e3 by linarith
  also have "\<dots> \<le> 1 / 10 ^ 8" by simp
  finally show ?thesis .
qed

subsection \<open>The shape of a call, in doubles\<close>

lemma fle_flt: "flt a b \<Longrightarrow> fle a b"
  by (cases a; cases b) simp_all

lemma calcQuantityD_eq:
  "calcQuantityD i s =
     (if \<not> isFiniteD (unitCostD i s) \<or> fle (unitCostD i s) (Fin 0)
      then Inl (Error ''Calculated unit cost must be positive and finite'')
      else Inr \<lparr> QuantityResultD.quantity = finalQuantityD i s,
                 QuantityResultD.usedRiskCash = fmul (finalQuantityD i s) (unitCostD i s),
                 QuantityResultD.notional =
                   fmul (fmul (finalQuantityD i s) (TradeInputD.level i))
                     (InstrumentProfileD.contractMultiplier (TradeInputD.instrument i)),
                 QuantityResultD.estFees =
                   fmul (finalQuantityD i s)
                     (case InstrumentProfileD.feePerUnit (TradeInputD.instrument i) of
                        Some f \<Rightarrow> f | None \<Rightarrow> Fin 0),
                 QuantityResultD.belowMinLot =
                   (flt (Fin 0) (minLotThresholdD i)
                    \<and> flt (roundedQuantityD i s) (minLotThresholdD i)
                    \<and> flt (Fin 0) (finalQuantityD i s)) \<rparr>)"
proof -
  have m: "(if flt (Fin 0) (if flt (Fin 0) m then m else Fin 0)
            then fmax r (if flt (Fin 0) m then m else Fin 0) else Fin 0)
           = (if flt (Fin 0) m then fmax r m else Fin 0)" for m r
    by simp
  show ?thesis
    by (cases "RiskProfileD.mode (TradeInputD.riskProfile i)")
       (simp_all add: calcQuantityD_def unitCostD_def rawQuantityD_def lotStepOrOneD_def
          roundedQuantityD_def minLotThresholdD_def unroundedQuantityD_def finalQuantityD_def
          Let_def m)
qed

lemma calculateTradeD_Inr_pre:
  assumes "calculateTradeD i = Inr r"
  shows "baseValidD i \<and> \<not> fle (computeStopD i) (Fin 0)
    \<and> (\<exists>q. calcQuantityD i (computeStopD i) = Inr q)"
  using assms
  by (simp add: baseValidD_def calculateTradeD_def Let_def split: if_splits sum.splits)

lemma calculateTradeD_Inl_cases:
  assumes "baseValidD i"
  shows "fle (computeStopD i) (Fin 0) \<Longrightarrow>
           calculateTradeD i = Inl (Error ''Computed stop must be greater than zero'')"
    and "\<not> fle (computeStopD i) (Fin 0) \<Longrightarrow>
         \<not> isFiniteD (unitCostD i (computeStopD i)) \<or> fle (unitCostD i (computeStopD i)) (Fin 0) \<Longrightarrow>
           calculateTradeD i = Inl (Error ''Calculated unit cost must be positive and finite'')"
    and "\<not> fle (computeStopD i) (Fin 0) \<Longrightarrow> isFiniteD (unitCostD i (computeStopD i)) \<Longrightarrow>
         \<not> fle (unitCostD i (computeStopD i)) (Fin 0) \<Longrightarrow> \<exists>r. calculateTradeD i = Inr r"
  using assms
  by (simp_all add: baseValidD_def calculateTradeD_def Let_def calcQuantityD_eq)

lemma calculateTradeD_Inr_fields:
  assumes "calculateTradeD i = Inr r"
  shows "TradeResultD.stop (TradeCalcResponseD.result r) = computeStopD i"
    and "TradeResultD.quantity (TradeCalcResponseD.result r) = finalQuantityD i (computeStopD i)"
    and "PositionSummaryD.pnlAtTp (TradeResultD.positionSummary (TradeCalcResponseD.result r)) =
           fmul (fmul
             (if TradeInputD.direction i = Long
              then fsub (computeTpPriceD i
                           (computeTvxD i (fmul (computeStopD i) (TradeInputD.bufferRatio i)))
                           (computeStopD i))
                     (computeTvxD i (fmul (computeStopD i) (TradeInputD.bufferRatio i)))
              else fsub (computeTvxD i (fmul (computeStopD i) (TradeInputD.bufferRatio i)))
                     (computeTpPriceD i
                        (computeTvxD i (fmul (computeStopD i) (TradeInputD.bufferRatio i)))
                        (computeStopD i)))
             (finalQuantityD i (computeStopD i)))
             (InstrumentProfileD.contractMultiplier (TradeInputD.instrument i))"
    and "PositionSummaryD.pnlAtSl (TradeResultD.positionSummary (TradeCalcResponseD.result r)) =
           fmul (fmul
             (fneg
               (if TradeInputD.direction i = Long
                then fsub (computeTvxD i (fmul (computeStopD i) (TradeInputD.bufferRatio i)))
                       (computeSlPriceD i (computeStopD i))
                else fsub (computeSlPriceD i (computeStopD i))
                       (computeTvxD i (fmul (computeStopD i) (TradeInputD.bufferRatio i)))))
             (finalQuantityD i (computeStopD i)))
             (InstrumentProfileD.contractMultiplier (TradeInputD.instrument i))"
    and "isFiniteD (unitCostD i (computeStopD i))"
    and "\<not> fle (unitCostD i (computeStopD i)) (Fin 0)"
proof -
  from calculateTradeD_Inr_pre[OF assms] obtain q where
    v: "baseValidD i" and s: "\<not> fle (computeStopD i) (Fin 0)"
    and q: "calcQuantityD i (computeStopD i) = Inr q"
    by blast
  from q show u: "isFiniteD (unitCostD i (computeStopD i))"
    and u': "\<not> fle (unitCostD i (computeStopD i)) (Fin 0)"
    by (simp_all add: calcQuantityD_eq split: if_splits)
  have q': "calcQuantityD i (computeStopD i) =
      Inr \<lparr> QuantityResultD.quantity = finalQuantityD i (computeStopD i),
                 QuantityResultD.usedRiskCash =
                   fmul (finalQuantityD i (computeStopD i)) (unitCostD i (computeStopD i)),
                 QuantityResultD.notional =
                   fmul (fmul (finalQuantityD i (computeStopD i)) (TradeInputD.level i))
                     (InstrumentProfileD.contractMultiplier (TradeInputD.instrument i)),
                 QuantityResultD.estFees =
                   fmul (finalQuantityD i (computeStopD i))
                     (case InstrumentProfileD.feePerUnit (TradeInputD.instrument i) of
                        Some f \<Rightarrow> f | None \<Rightarrow> Fin 0),
                 QuantityResultD.belowMinLot =
                   (flt (Fin 0) (minLotThresholdD i)
                    \<and> flt (roundedQuantityD i (computeStopD i)) (minLotThresholdD i)
                    \<and> flt (Fin 0) (finalQuantityD i (computeStopD i))) \<rparr>"
    using u u' by (simp add: calcQuantityD_eq)
  have v': "fle (TradeInputD.level i) (Fin 0) = False" "fle (TradeInputD.atr i) (Fin 0) = False"
    "fle (TradeInputD.rrMultiple i) (Fin 0) = False" "flt (TradeInputD.bufferRatio i) (Fin 0) = False"
    "fle (InstrumentProfileD.contractMultiplier (TradeInputD.instrument i)) (Fin 0) = False"
    "fle (computeStopD i) (Fin 0) = False"
    using v s by (simp_all add: baseValidD_def)
  have r0: "Inr r = calculateTradeD i" using assms by simp
  note r = r0[unfolded calculateTradeD_def Let_def, simplified v' q' if_False sum.case sum.inject]
  show "TradeResultD.stop (TradeCalcResponseD.result r) = computeStopD i"
    by (simp only: r) (simp split: option.split)
  show "TradeResultD.quantity (TradeCalcResponseD.result r) = finalQuantityD i (computeStopD i)"
    by (simp only: r) (simp split: option.split)
  show "PositionSummaryD.pnlAtTp (TradeResultD.positionSummary (TradeCalcResponseD.result r)) =
           fmul (fmul
             (if TradeInputD.direction i = Long
              then fsub (computeTpPriceD i
                           (computeTvxD i (fmul (computeStopD i) (TradeInputD.bufferRatio i)))
                           (computeStopD i))
                     (computeTvxD i (fmul (computeStopD i) (TradeInputD.bufferRatio i)))
              else fsub (computeTvxD i (fmul (computeStopD i) (TradeInputD.bufferRatio i)))
                     (computeTpPriceD i
                        (computeTvxD i (fmul (computeStopD i) (TradeInputD.bufferRatio i)))
                        (computeStopD i)))
             (finalQuantityD i (computeStopD i)))
             (InstrumentProfileD.contractMultiplier (TradeInputD.instrument i))"
    by (simp only: r) (simp split: option.split add: computeBufferD_def)
  show "PositionSummaryD.pnlAtSl (TradeResultD.positionSummary (TradeCalcResponseD.result r)) =
           fmul (fmul
             (fneg
               (if TradeInputD.direction i = Long
                then fsub (computeTvxD i (fmul (computeStopD i) (TradeInputD.bufferRatio i)))
                       (computeSlPriceD i (computeStopD i))
                else fsub (computeSlPriceD i (computeStopD i))
                       (computeTvxD i (fmul (computeStopD i) (TradeInputD.bufferRatio i)))))
             (finalQuantityD i (computeStopD i)))
             (InstrumentProfileD.contractMultiplier (TradeInputD.instrument i))"
    by (simp only: r) (simp split: option.split add: computeBufferD_def)
qed

lemma not_fle_notNeg: "\<not> fle a (Fin 0) \<Longrightarrow> notNeg a"
  by (cases a) (simp_all add: notNeg_def)

lemma not_flt_notNeg: "\<not> flt a (Fin 0) \<Longrightarrow> notNeg a"
  by (cases a) (simp_all add: notNeg_def)

lemma flt_notNeg: "flt (Fin 0) a \<Longrightarrow> notNeg a"
  by (cases a) (simp_all add: notNeg_def)

lemma notNeg_fmax0: "notNeg (fmax a (Fin 0))"
  by (cases a) (simp_all add: notNeg_def)

lemma notNeg_rawQuantityD: "notNeg (rawQuantityD i s)"
  unfolding rawQuantityD_def
  by (cases "RiskProfileD.mode (TradeInputD.riskProfile i)")
     (simp_all add: notNeg_fmax0, simp add: notNeg_def)

lemma lotStepOrOneD_pos: "\<not> fle (lotStepOrOneD i) (Fin 0)"
  unfolding lotStepOrOneD_def
  by (cases "InstrumentProfileD.lotStep (TradeInputD.instrument i)") simp_all

lemma fmax_ge0: "fle (Fin 0) a \<Longrightarrow> fle (Fin 0) b \<Longrightarrow> fle (Fin 0) (fmax a b)"
  by (cases a; cases b) simp_all

lemma flt_fle0: "flt (Fin 0) a \<Longrightarrow> fle (Fin 0) a"
  by (rule fle_flt)

lemma minLotThresholdD_ge0: "fle (Fin 0) (minLotThresholdD i)"
proof -
  from roundUpToStepD_Fin[OF lotStepOrOneD_pos]
  obtain t where "roundUpToStepD (InstrumentProfileD.minLot (TradeInputD.instrument i))
      (lotStepOrOneD i) = Fin t" "0 \<le> t" by blast
  then show ?thesis
    unfolding minLotThresholdD_def by (simp add: fmax_ge0 flt_fle0)
qed

lemma unroundedQuantityD_ge0: "fle (Fin 0) (unroundedQuantityD i s)"
proof -
  from roundDownToStepD_Fin[OF lotStepOrOneD_pos]
  obtain t where "roundDownToStepD (rawQuantityD i s) (lotStepOrOneD i) = Fin t" "0 \<le> t"
    by blast
  then show ?thesis
    unfolding unroundedQuantityD_def roundedQuantityD_def
    by (simp add: fmax_ge0 minLotThresholdD_ge0)
qed

lemma finalQuantityD_Fin: "\<exists>q. finalQuantityD i s = Fin q \<and> 0 \<le> q"
proof (cases "unroundedQuantityD i s")
  case (Fin x)
  then have "0 \<le> x" using unroundedQuantityD_ge0[of i s] by simp
  from toFixed8D_nonneg[OF this] show ?thesis using Fin by (simp add: finalQuantityD_def)
qed (simp_all add: finalQuantityD_def)

lemma notNeg_finalQuantityD: "notNeg (finalQuantityD i s)"
  using finalQuantityD_Fin[of i s] by (auto simp: notNeg_def)

lemma dbl_computeTvxD: "dbl (computeTvxD i b)"
  by (simp add: computeTvxD_def dbl_fadd dbl_fsub)

lemma pnl_signs:
  assumes "calculateTradeD i = Inr r"
  shows "notNeg (PositionSummaryD.pnlAtTp
           (TradeResultD.positionSummary (TradeCalcResponseD.result r)))"
    and "notPos (PositionSummaryD.pnlAtSl
           (TradeResultD.positionSummary (TradeCalcResponseD.result r)))"
proof -
  note f = calculateTradeD_Inr_fields[OF assms]
  from calculateTradeD_Inr_pre[OF assms]
  have v: "baseValidD i" and s0: "\<not> fle (computeStopD i) (Fin 0)" by simp_all
  let ?s = "computeStopD i"
  let ?b = "fmul ?s (TradeInputD.bufferRatio i)"
  let ?tvx = "computeTvxD i ?b"
  let ?tp = "computeTpPriceD i ?tvx ?s"
  let ?sl = "computeSlPriceD i ?s"
  let ?q = "finalQuantityD i ?s"
  let ?cm = "InstrumentProfileD.contractMultiplier (TradeInputD.instrument i)"
  let ?m = "fmul (TradeInputD.rrMultiple i) ?s"
  have s: "notNeg ?s" using s0 by (rule not_fle_notNeg)
  have br: "notNeg (TradeInputD.bufferRatio i)"
    using v by (intro not_flt_notNeg) (simp add: baseValidD_def)
  have rr: "notNeg (TradeInputD.rrMultiple i)"
    using v by (intro not_fle_notNeg) (simp add: baseValidD_def)
  have cm: "notNeg ?cm"
    using v by (intro not_fle_notNeg) (simp add: baseValidD_def)
  have b: "notNeg ?b" using s br by (rule notNeg_fmul)
  have m: "notNeg ?m" using rr s by (rule notNeg_fmul)
  have q: "notNeg ?q" by (rule notNeg_finalQuantityD)
  have tvx: "dbl ?tvx" by (rule dbl_computeTvxD)
  let ?td = "if TradeInputD.direction i = Long then fsub ?tp ?tvx else fsub ?tvx ?tp"
  let ?sd = "if TradeInputD.direction i = Long then fsub ?tvx ?sl else fsub ?sl ?tvx"
  have td: "notNeg ?td"
  proof (cases "TradeInputD.direction i = Long")
    case True
    then have "?tp = fadd ?tvx ?m" by (simp add: computeTpPriceD_def)
    then have "leq ?tvx ?tp" using leq_fadd[OF tvx m] by simp
    then show ?thesis using True by (simp add: notNeg_fsub)
  next
    case False
    then have "?tp = fsub ?tvx ?m" by (simp add: computeTpPriceD_def)
    then have "leq ?tp ?tvx" using leq_fsub[OF tvx m] by simp
    then show ?thesis using False by (simp add: notNeg_fsub)
  qed
  have sd: "notNeg ?sd"
  proof (cases "TradeInputD.direction i = Long")
    case True
    then have "?tvx = fadd (TradeInputD.level i) ?b" "?sl = fsub (TradeInputD.level i) ?s"
      by (simp_all add: computeTvxD_def computeSlPriceD_def)
    then have "leq ?sl ?tvx" using leq_fsub_fadd[OF s b] by simp
    then show ?thesis using True by (simp add: notNeg_fsub)
  next
    case False
    then have "?tvx = fsub (TradeInputD.level i) ?b" "?sl = fadd (TradeInputD.level i) ?s"
      by (simp_all add: computeTvxD_def computeSlPriceD_def)
    then have "leq ?tvx ?sl" using leq_fsub_fadd[OF b s] by simp
    then show ?thesis using False by (simp add: notNeg_fsub)
  qed
  have "notNeg (fmul (fmul ?td ?q) ?cm)"
    using td q cm by (intro notNeg_fmul)
  then show "notNeg (PositionSummaryD.pnlAtTp
           (TradeResultD.positionSummary (TradeCalcResponseD.result r)))"
    unfolding f(3) .
  have "notNeg (fmul (fmul ?sd ?q) ?cm)"
    using sd q cm by (intro notNeg_fmul)
  then have "notPos (fneg (fmul (fmul ?sd ?q) ?cm))" by (rule notPos_fneg)
  then have "notPos (fmul (fmul (fneg ?sd) ?q) ?cm)" by (simp only: fmul_fneg)
  then show "notPos (PositionSummaryD.pnlAtSl
           (TradeResultD.positionSummary (TradeCalcResponseD.result r)))"
    unfolding f(4) .
qed

lemma stepped_final:
  assumes "0 < s"
    and "x = toFixed8D (Fin (rnd (real k * s)))"
    and "toFixed8D x = Fin q"
    and "q < 10000000"
  shows "isStepMultiple q s"
proof -
  have a: "0 \<le> real k * s" using assms(1) by simp
  from toFixed8D_Fin obtain t where t: "toFixed8D (Fin (rnd (real k * s))) = Fin t" by blast
  have "toFixed8D (Fin t) = Fin q" using assms(2,3) t by simp
  from toFixed8D_twice[OF a t this assms(4)]
  show ?thesis unfolding isStepMultiple_def by (rule exI)
qed

lemma isStepMultiple_zero: "isStepMultiple 0 s"
  unfolding isStepMultiple_def by (rule exI[of _ 0]) simp

subsection \<open>Evaluation in doubles\<close>

text \<open>
  A double is computed from its certificate: for \<open>2^52 \<le> \<bar>x\<bar> * 2^j < 2^53\<close> the
  rounding of \<open>x\<close> is the nearest integer to \<open>x * 2^j\<close>, over \<open>2^j\<close>.
\<close>

lemmas rd_evals = rd_zero
  rd_cert [where j = 10, simplified]
  rd_cert [where j = 11, simplified]
  rd_cert [where j = 12, simplified]
  rd_cert [where j = 13, simplified]
  rd_cert [where j = 14, simplified]
  rd_cert [where j = 15, simplified]
  rd_cert [where j = 16, simplified]
  rd_cert [where j = 17, simplified]
  rd_cert [where j = 18, simplified]
  rd_cert [where j = 19, simplified]
  rd_cert [where j = 20, simplified]
  rd_cert [where j = 21, simplified]
  rd_cert [where j = 22, simplified]
  rd_cert [where j = 23, simplified]
  rd_cert [where j = 24, simplified]
  rd_cert [where j = 25, simplified]
  rd_cert [where j = 26, simplified]
  rd_cert [where j = 27, simplified]
  rd_cert [where j = 28, simplified]
  rd_cert [where j = 29, simplified]
  rd_cert [where j = 30, simplified]
  rd_cert [where j = 31, simplified]
  rd_cert [where j = 32, simplified]
  rd_cert [where j = 33, simplified]
  rd_cert [where j = 34, simplified]
  rd_cert [where j = 35, simplified]
  rd_cert [where j = 36, simplified]
  rd_cert [where j = 37, simplified]
  rd_cert [where j = 38, simplified]
  rd_cert [where j = 39, simplified]
  rd_cert [where j = 40, simplified]
  rd_cert [where j = 41, simplified]
  rd_cert [where j = 42, simplified]
  rd_cert [where j = 43, simplified]
  rd_cert [where j = 44, simplified]
  rd_cert [where j = 45, simplified]
  rd_cert [where j = 46, simplified]
  rd_cert [where j = 47, simplified]
  rd_cert [where j = 48, simplified]
  rd_cert [where j = 49, simplified]
  rd_cert [where j = 50, simplified]
  rd_cert [where j = 51, simplified]
  rd_cert [where j = 52, simplified]
  rd_cert [where j = 53, simplified]
  rd_cert [where j = 54, simplified]
  rd_cert [where j = 55, simplified]
  rd_cert [where j = 56, simplified]
  rd_cert [where j = 57, simplified]
  rd_cert [where j = 58, simplified]
  rd_cert [where j = 59, simplified]
  rd_cert [where j = 60, simplified]
  rd_cert [where j = 61, simplified]
  rd_cert [where j = 62, simplified]
  rd_cert [where j = 63, simplified]
  rd_cert [where j = 64, simplified]
  rd_cert [where j = 65, simplified]
  rd_cert [where j = 66, simplified]
  rd_cert [where j = 67, simplified]
  rd_cert [where j = 68, simplified]
  rd_cert [where j = 69, simplified]
  rd_cert [where j = 70, simplified]
  rd_cert [where j = 71, simplified]
  rd_cert [where j = 72, simplified]
  rd_cert [where j = 73, simplified]
  rd_cert [where j = 74, simplified]
  rd_cert [where j = 75, simplified]
  rd_cert [where j = 76, simplified]
  rd_cert [where j = 77, simplified]
  rd_cert [where j = 78, simplified]
  rd_cert [where j = 79, simplified]
  rd_cert [where j = 80, simplified]
  rd_cert [where j = 81, simplified]
  rd_cert [where j = 82, simplified]
  rd_cert [where j = 83, simplified]
  rd_cert [where j = 84, simplified]
  rd_cert [where j = 85, simplified]
  rd_cert [where j = 86, simplified]
  rd_cert [where j = 87, simplified]
  rd_cert [where j = 88, simplified]
  rd_cert [where j = 89, simplified]
  rd_cert [where j = 90, simplified]

lemmas evalD =
  calculateTradeD_def calcQuantityD_def computeStopD_def computeBufferD_def computeTvxD_def
  computeSlPriceD_def computeTpPriceD_def costPerUnitD_def roundDownToStepD_def
  roundUpToStepD_def collectWarnings_def D_def fsub_def rne_def Let_def

lemma calculateTradeD_scenarioAD: "calculateTradeD scenarioAD = Inr responseAD"
  unfolding scenarioAD_def responseAD_def
  by (simp add: evalD rd_evals)

lemma calculateTradeD_unalignedMinLotD:
  "calculateTradeD unalignedMinLotD = Inr unalignedMinLotResponseD"
  unfolding unalignedMinLotD_def unalignedMinLotResponseD_def
  by (simp add: evalD rd_evals)

lemma calculateTradeD_largeQuantityD:
  "calculateTradeD largeQuantityD = Inr largeQuantityResponseD"
  unfolding largeQuantityD_def largeQuantityResponseD_def
  by (simp add: evalD rd_evals)

lemma rd_overflow: "2 ^ 1024 - 2 ^ 970 \<le> x \<Longrightarrow> rd x = PInf"
  by (simp add: rd_def)

lemma overflowInputD_facts:
  "baseValidD overflowInputD"
  "computeStopD overflowInputD = Fin (2 ^ 1023)"
  "unitCostD overflowInputD (Fin (2 ^ 1023)) = PInf"
proof -
  show "baseValidD overflowInputD"
    by (simp add: baseValidD_def overflowInputD_def D_def rd_evals rne_def)
  show "computeStopD overflowInputD = Fin (2 ^ 1023)"
    by (simp add: computeStopD_def overflowInputD_def)
  have "fmul (Fin (2 ^ 1023)) (Fin 100) = PInf"
    by (simp add: rd_overflow)
  then show "unitCostD overflowInputD (Fin (2 ^ 1023)) = PInf"
    unfolding unitCostD_def costPerUnitD_def overflowInputD_def
    by (simp add: D_def rd_evals rne_def)
qed

lemma baseValidD_scenarioAD: "baseValidD scenarioAD"
  using calculateTradeD_Inr_pre[OF calculateTradeD_scenarioAD] by simp

lemma noStopInputD_facts:
  "baseValidD noStopInputD"
  "computeStopD noStopInputD = Fin 0"
  using baseValidD_scenarioAD
  by (simp_all add: baseValidD_def noStopInputD_def computeStopD_def)

lemma not_isStepMultiple_unalignedD:
  "\<not> isStepMultiple (7036874421284837 / 70368744177664) 100"
proof
  assume "isStepMultiple (7036874421284837 / 70368744177664) 100"
  then obtain k :: nat where
    k: "\<bar>7036874421284837 / 70368744177664 - real k * 100\<bar> \<le> 1 / 10 ^ 8"
    unfolding isStepMultiple_def by blast
  consider "k = 0" | "k = 1" | "2 \<le> k" by linarith
  then show False
  proof cases
    case 1
    with k show False by simp
  next
    case 2
    with k show False by simp
  next
    case 3
    then have "2 \<le> real k" by simp
    then have "200 \<le> real k * 100" by simp
    with k show False by simp
  qed
qed

lemma not_isStepMultiple_largeD:
  "\<not> isStepMultiple (8388607999161139 / 8388608) (5404319552844595 / 18014398509481984)"
proof
  assume "isStepMultiple (8388607999161139 / 8388608) (5404319552844595 / 18014398509481984)"
  then obtain k :: nat where
    k: "\<bar>8388607999161139 / 8388608 - real k * (5404319552844595 / 18014398509481984)\<bar>
          \<le> 1 / 10 ^ 8"
    unfolding isStepMultiple_def by blast
  consider "k \<le> 3333333333" | "3333333334 \<le> k" by linarith
  then show False
  proof cases
    case 1
    then have "real k \<le> 3333333333" by simp
    then have "real k * (5404319552844595 / 18014398509481984)
        \<le> 3333333333 * (5404319552844595 / 18014398509481984)"
      by (simp only: mult_le_cancel_right) simp
    with k show False by simp
  next
    case 2
    then have "3333333334 \<le> real k" by simp
    then have "3333333334 * (5404319552844595 / 18014398509481984)
        \<le> real k * (5404319552844595 / 18014398509481984)"
      by (simp only: mult_le_cancel_right) simp
    with k show False by simp
  qed
qed

section \<open>The claims\<close>

text \<open>
  Claim C1 says that on the input of Scenario A the call returns exactly stop 0.3,
  buffer 0.06, tvx 100.06, slPrice 99.7, tpPrice 100.96, atrOverStop 20/3, quantity 200,
  notional 20000, riskCash 100, estFees 40, pnlAtTp 180, pnlAtSl -72, stopAtrPercent 15
  and currentPriceToTvx -0.56. In doubles four of these fail: the sum \<open>tvx + 3 * stop\<close>
  and the differences \<open>tpPrice - tvx\<close>, \<open>tvx - slPrice\<close> and \<open>currentPrice - tvx\<close>
  are rounded, and the call returns tpPrice \<open>100.96000000000001\<close>, pnlAtTp
  \<open>180.00000000000114\<close>, pnlAtSl \<open>-71.99999999999989\<close> and currentPriceToTvx
  \<open>-0.5600000000000023\<close>, none of them the double of the claim.
\<close>

theorem C1_counterexample:
  "calculateTradeD scenarioAD = Inr responseAD
   \<and> TradeResultD.tpPrice (TradeCalcResponseD.result responseAD) \<noteq> D 100.96
   \<and> PositionSummaryD.pnlAtTp
        (TradeResultD.positionSummary (TradeCalcResponseD.result responseAD)) \<noteq> Fin 180
   \<and> PositionSummaryD.pnlAtSl
        (TradeResultD.positionSummary (TradeCalcResponseD.result responseAD)) \<noteq> Fin (- 72)
   \<and> TradeResultD.currentPriceToTvx (TradeCalcResponseD.result responseAD)
        \<noteq> Some (D (- 0.56))"
  using calculateTradeD_scenarioAD
  by (simp add: responseAD_def D_def rd_evals rne_def)

text \<open>
  Claim C1, amended. On the input of Scenario A (long breakout, fixed_percent stop of 0.3
  percent, level 100, atr 2, rrMultiple 3, bufferRatio 0.2, risk_cash 100, fee 0.2,
  multiplier 1, lotStep 1, minLot 1, currentPrice 99.5, ATR filter enabled, no range) the
  call succeeds and returns exactly the doubles nearest to 0.3, 0.06, 100.06, 99.7 and 20/3
  as stop, buffer, tvx, slPrice and atrOverStop, rangeOverStop unknown, hasFourStops and
  stopWithinAtrFilter true, no warnings, and exactly quantity 200, notional 20000,
  riskCash 100, estFees 40 and stopAtrPercent 15; tpPrice, pnlAtTp, pnlAtSl and
  currentPriceToTvx are within \<open>1e-11\<close> of 100.96, 180, -72 and -0.56.
\<close>

theorem C1_scenarioA_doubles:
  "calculateTradeD scenarioAD = Inr responseAD
   \<and> TradeResultD.stop (TradeCalcResponseD.result responseAD) = D 0.3
   \<and> TradeResultD.buffer (TradeCalcResponseD.result responseAD) = D 0.06
   \<and> TradeResultD.tvx (TradeCalcResponseD.result responseAD) = D 100.06
   \<and> TradeResultD.slPrice (TradeCalcResponseD.result responseAD) = D 99.7
   \<and> near (TradeResultD.tpPrice (TradeCalcResponseD.result responseAD)) 100.96
   \<and> TradeResultD.atrOverStop (TradeCalcResponseD.result responseAD) = D (20 / 3)
   \<and> TradeResultD.rangeOverStop (TradeCalcResponseD.result responseAD) = RANGE_UNKNOWN_D
   \<and> TradeResultD.hasFourStops (TradeCalcResponseD.result responseAD)
   \<and> TradeResultD.stopWithinAtrFilter (TradeCalcResponseD.result responseAD)
   \<and> TradeResultD.warnings (TradeCalcResponseD.result responseAD) = []
   \<and> TradeResultD.quantity (TradeCalcResponseD.result responseAD) = Fin 200
   \<and> TradeResultD.notional (TradeCalcResponseD.result responseAD) = Fin 20000
   \<and> PositionSummaryD.riskCash
        (TradeResultD.positionSummary (TradeCalcResponseD.result responseAD)) = Fin 100
   \<and> PositionSummaryD.estFees
        (TradeResultD.positionSummary (TradeCalcResponseD.result responseAD)) = Fin 40
   \<and> near (PositionSummaryD.pnlAtTp
              (TradeResultD.positionSummary (TradeCalcResponseD.result responseAD))) 180
   \<and> near (PositionSummaryD.pnlAtSl
              (TradeResultD.positionSummary (TradeCalcResponseD.result responseAD))) (- 72)
   \<and> TradeResultD.stopAtrPercent (TradeCalcResponseD.result responseAD) = Fin 15
   \<and> (\<exists>c. TradeResultD.currentPriceToTvx (TradeCalcResponseD.result responseAD) = Some c
           \<and> near c (- 0.56))"
  using calculateTradeD_scenarioAD
  by (simp add: responseAD_def D_def rd_evals rne_def)

text \<open>The returned record, read back field by field.\<close>

theorem C1_scenarioA_doubles_witness:
  "(case calculateTradeD scenarioAD of
      Inr r \<Rightarrow> TradeResultD.quantity (TradeCalcResponseD.result r) = Fin 200
                \<and> TradeResultD.warnings (TradeCalcResponseD.result r) = []
                \<and> near (PositionSummaryD.pnlAtSl
                          (TradeResultD.positionSummary (TradeCalcResponseD.result r))) (- 72)
    | Inl e \<Rightarrow> False)"
  using C1_scenarioA_doubles by simp

text \<open>
  Claim C2 says that an absent \<^verbatim>\<open>enableAtrFilter\<close> counts as true, so that
  \<^verbatim>\<open>stopWithinAtrFilter\<close> holds exactly when \<open>stop \<le> 0.2 * atr\<close>. The code
  negates the field as it is, and \<^verbatim>\<open>undefined\<close> is falsy: with the field absent the
  check is off and \<^verbatim>\<open>stopWithinAtrFilter\<close> is true whatever the stop is.
\<close>

theorem C2_absent_filter_disables_check:
  assumes "calculateTrade i = Inr r" and "enableAtrFilter i = None"
  shows "stopWithinAtrFilter (result r)"
  using calculateTrade_Inr_fields(6)[OF assms(1)] assms(2) by simp

text \<open>
  Scenario B without the field: the stop of 0.5 exceeds \<open>0.2 * atr = 0.2\<close>, and
  \<^verbatim>\<open>stopWithinAtrFilter\<close> is true all the same.
\<close>

theorem C2_absent_filter_failing_input:
  "enableAtrFilter scenarioB_noFilter = None
   \<and> calculateTrade scenarioB_noFilter = Inr responseB_noFilter
   \<and> stopWithinAtrFilter (result responseB_noFilter)
   \<and> \<not> TradeResult.stop (result responseB_noFilter) \<le> 0.2 * atr scenarioB_noFilter"
  using C2_absent_filter_disables_check[OF calculateTrade_scenarioB_noFilter]
  by (simp add: calculateTrade_scenarioB_noFilter)
     (simp add: scenarioB_noFilter_def scenarioB_def responseB_noFilter_def responseB_def)

text \<open>
  Claim C3. For a validated input the stop distance, which a successful call returns as
  \<^verbatim>\<open>stop\<close>, is \<open>(percent / 100) * level\<close> for fixed_percent (percent 0.3 when
  absent), \<open>atrMultiple * atr\<close> for atr_multiple (atrMultiple 0.5 when absent) and
  \<open>points\<close> for fixed_points (points 0 when absent).
\<close>

theorem C3_stop_distance:
  assumes "baseValid i"
  shows "(\<forall>r. calculateTrade i = Inr r \<longrightarrow> TradeResult.stop (result r) = computeStop i)
    \<and> (type (TradeInput.stop i) = FixedPercent \<longrightarrow>
         computeStop i =
           ((case percent (TradeInput.stop i) of Some p \<Rightarrow> p | None \<Rightarrow> 0.3) / 100)
             * TradeInput.level i)
    \<and> (type (TradeInput.stop i) = AtrMultiple \<longrightarrow>
         computeStop i =
           (case atrMultiple (TradeInput.stop i) of Some m \<Rightarrow> m | None \<Rightarrow> 0.5) * atr i)
    \<and> (type (TradeInput.stop i) = FixedPoints \<longrightarrow>
         computeStop i = (case points (TradeInput.stop i) of Some p \<Rightarrow> p | None \<Rightarrow> 0))"
proof -
  have "TradeResult.stop (result r) = computeStop i" if "calculateTrade i = Inr r" for r
    using that by (rule calculateTrade_Inr_fields(1))
  then show ?thesis by (simp add: computeStop_def)
qed

text \<open>Scenario A: a fixed_percent stop of 0.3 percent of the level 100.\<close>

theorem C3_stop_distance_witness:
  "baseValid scenarioA \<and> calculateTrade scenarioA = Inr responseA
   \<and> type (TradeInput.stop scenarioA) = FixedPercent
   \<and> percent (TradeInput.stop scenarioA) = Some 0.3
   \<and> TradeResult.stop (result responseA) = (0.3 / 100) * TradeInput.level scenarioA"
proof -
  have t: "type (TradeInput.stop scenarioA) = FixedPercent"
    and p: "percent (TradeInput.stop scenarioA) = Some 0.3"
    by (simp_all add: scenarioA_def)
  from C3_stop_distance[OF baseValid_scenarioA] calculateTrade_scenarioA t p
  have "TradeResult.stop (result responseA) = (0.3 / 100) * TradeInput.level scenarioA"
    by simp
  then show ?thesis
    using baseValid_scenarioA calculateTrade_scenarioA t p by simp
qed

text \<open>
  Claim C4. An input with \<open>level \<le> 0\<close>, \<open>atr \<le> 0\<close>, \<open>rrMultiple \<le> 0\<close>,
  \<open>bufferRatio < 0\<close> or \<open>contractMultiplier \<le> 0\<close> makes the call fail with one of
  the five base validation errors, hence with no result and before the stop or the unit
  cost is looked at; with \<open>level \<le> 0\<close>, and so with \<open>level = 0\<close>, the error is
  ``Level must be greater than zero''.
\<close>

theorem C4_base_validation:
  assumes "TradeInput.level i \<le> 0 \<or> atr i \<le> 0 \<or> TradeInput.rrMultiple i \<le> 0
           \<or> bufferRatio i < 0 \<or> contractMultiplier (instrument i) \<le> 0"
  shows "calculateTrade i \<in> Inl ` set validationErrors
    \<and> (TradeInput.level i \<le> 0 \<longrightarrow>
         calculateTrade i = Inl (Error ''Level must be greater than zero''))"
proof -
  have "\<not> baseValid i" using assms by (auto simp: baseValid_def)
  then show ?thesis using calculateTrade_Inl_base[of i] by blast
qed

text \<open>The test suite's invalid input, of level 0.\<close>

theorem C4_base_validation_witness:
  "TradeInput.level invalidInput = 0
   \<and> calculateTrade invalidInput = Inl (Error ''Level must be greater than zero'')"
proof -
  have l: "TradeInput.level invalidInput = 0" by (simp add: invalidInput_def)
  then show ?thesis using C4_base_validation[of invalidInput] by simp
qed

text \<open>
  Claim C5. For an input that passes the base validation the call fails if and only if
  the computed stop is \<open>\<le> 0\<close> or the unit cost
  \<open>stop * contractMultiplier + feePerUnit\<close> is not finite or \<open>\<le> 0\<close>, each with its
  own message; a successful call returns a finite, positive stop and was computed with a
  finite, positive unit cost. The statement is about doubles, where the unit cost can be
  \<^verbatim>\<open>NaN\<close> or overflow to an infinity.
\<close>

theorem C5_derived_state:
  assumes "baseValidD i"
  shows "((\<exists>e. calculateTradeD i = Inl e) \<longleftrightarrow>
            (fle (computeStopD i) (Fin 0) \<or> \<not> isFiniteD (unitCostD i (computeStopD i))
             \<or> fle (unitCostD i (computeStopD i)) (Fin 0)))
    \<and> (fle (computeStopD i) (Fin 0) \<longrightarrow>
         calculateTradeD i = Inl (Error ''Computed stop must be greater than zero''))
    \<and> (\<not> fle (computeStopD i) (Fin 0)
         \<and> (\<not> isFiniteD (unitCostD i (computeStopD i))
            \<or> fle (unitCostD i (computeStopD i)) (Fin 0)) \<longrightarrow>
         calculateTradeD i = Inl (Error ''Calculated unit cost must be positive and finite''))
    \<and> (\<forall>r. calculateTradeD i = Inr r \<longrightarrow>
           flt (Fin 0) (TradeResultD.stop (TradeCalcResponseD.result r))
           \<and> isFiniteD (TradeResultD.stop (TradeCalcResponseD.result r))
           \<and> isFiniteD (unitCostD i (TradeResultD.stop (TradeCalcResponseD.result r)))
           \<and> flt (Fin 0) (unitCostD i (TradeResultD.stop (TradeCalcResponseD.result r))))"
proof -
  note c = calculateTradeD_Inl_cases[OF assms]
  let ?s = "computeStopD i"
  have fin_pos: "flt (Fin 0) a" if "isFiniteD a" "\<not> fle a (Fin 0)" for a
    using that by (cases a) simp_all
  have stop_fin: "isFiniteD ?s" if "isFiniteD (unitCostD i ?s)"
  proof -
    let ?c = "InstrumentProfileD.contractMultiplier (TradeInputD.instrument i)"
    have "isFiniteD (fmul ?s ?c)"
      using that unfolding unitCostD_def costPerUnitD_def
      by (cases "fmul ?s ?c";
          cases "case InstrumentProfileD.feePerUnit (TradeInputD.instrument i) of
                   Some f \<Rightarrow> f | None \<Rightarrow> Fin 0") simp_all
    moreover have "\<not> fle ?c (Fin 0)" using assms by (simp add: baseValidD_def)
    ultimately show ?thesis by (cases ?s; cases ?c) (simp_all split: if_splits)
  qed
  have ok: "flt (Fin 0) (TradeResultD.stop (TradeCalcResponseD.result r))
      \<and> isFiniteD (TradeResultD.stop (TradeCalcResponseD.result r))
      \<and> isFiniteD (unitCostD i (TradeResultD.stop (TradeCalcResponseD.result r)))
      \<and> flt (Fin 0) (unitCostD i (TradeResultD.stop (TradeCalcResponseD.result r)))"
    if r: "calculateTradeD i = Inr r" for r
  proof -
    note f = calculateTradeD_Inr_fields[OF r]
    from calculateTradeD_Inr_pre[OF r] have s: "\<not> fle ?s (Fin 0)" by simp
    show ?thesis
      unfolding f(1) using f(5) f(6) s stop_fin fin_pos by blast
  qed
  have fails: "(\<exists>e. calculateTradeD i = Inl e) \<longleftrightarrow>
      (fle ?s (Fin 0) \<or> \<not> isFiniteD (unitCostD i ?s) \<or> fle (unitCostD i ?s) (Fin 0))"
  proof
    assume "\<exists>e. calculateTradeD i = Inl e"
    then show "fle ?s (Fin 0) \<or> \<not> isFiniteD (unitCostD i ?s) \<or> fle (unitCostD i ?s) (Fin 0)"
      using c(3) by (metis Inl_Inr_False)
  next
    assume "fle ?s (Fin 0) \<or> \<not> isFiniteD (unitCostD i ?s) \<or> fle (unitCostD i ?s) (Fin 0)"
    then show "\<exists>e. calculateTradeD i = Inl e"
      using c(1) c(2) by metis
  qed
  show ?thesis
    using fails c(1) c(2) ok by blast
qed

text \<open>
  The three cases: Scenario A passes the validation and succeeds with a positive stop and
  unit cost; a stop of \<open>2^1023\<close> points on a multiplier of 100 is positive, its unit
  cost overflows to \<^verbatim>\<open>Infinity\<close>, and the call fails with the unit-cost message;
  Scenario A with a stop in points and no points given has the stop 0 and fails with the
  stop message.
\<close>

theorem C5_derived_state_witness:
  "baseValidD scenarioAD \<and> calculateTradeD scenarioAD = Inr responseAD
   \<and> flt (Fin 0) (TradeResultD.stop (TradeCalcResponseD.result responseAD))
   \<and> flt (Fin 0) (unitCostD scenarioAD (TradeResultD.stop (TradeCalcResponseD.result responseAD)))
   \<and> baseValidD overflowInputD
   \<and> flt (Fin 0) (computeStopD overflowInputD)
   \<and> unitCostD overflowInputD (computeStopD overflowInputD) = PInf
   \<and> calculateTradeD overflowInputD =
        Inl (Error ''Calculated unit cost must be positive and finite'')
   \<and> baseValidD noStopInputD
   \<and> computeStopD noStopInputD = Fin 0
   \<and> calculateTradeD noStopInputD = Inl (Error ''Computed stop must be greater than zero'')"
  using C5_derived_state[OF baseValidD_scenarioAD] C5_derived_state[OF overflowInputD_facts(1)]
    C5_derived_state[OF noStopInputD_facts(1)]
    calculateTradeD_scenarioAD baseValidD_scenarioAD overflowInputD_facts noStopInputD_facts
  by simp

text \<open>
  Claim C6. The warnings of a successful call are the list of the four messages
  ``ATR/Stop < 4'', ``Range/Stop < 4'', ``Stop exceeds 20% ATR limit'' and
  ``Qty is below minimum lot'', in this order, keeping the first iff
  \<open>atrOverStop < 4\<close>, the second iff the range was provided and \<open>rangeOverStop < 4\<close>,
  the third iff \<^verbatim>\<open>stopWithinAtrFilter\<close> is false and the fourth iff
  \<^verbatim>\<open>belowMinLot\<close> is true.
\<close>

theorem C6_warnings:
  assumes "calculateTrade i = Inr r"
  shows "warnings (result r) = specWarnings i (result r)"
proof -
  note f = calculateTrade_Inr_fields[OF assms]
  show ?thesis
    unfolding specWarnings_def f(7) collectWarnings_eq
    by (simp only: f(3,4,6,9)) (simp split: option.split)
qed

text \<open>Scenario B raises all four warnings, in the fixed order.\<close>

theorem C6_warnings_witness:
  "calculateTrade scenarioB = Inr responseB
   \<and> specWarnings scenarioB (result responseB) =
       [''ATR/Stop < 4'', ''Range/Stop < 4'', ''Stop exceeds 20% ATR limit'',
        ''Qty is below minimum lot'']
   \<and> warnings (result responseB) =
       [''ATR/Stop < 4'', ''Range/Stop < 4'', ''Stop exceeds 20% ATR limit'',
        ''Qty is below minimum lot'']"
  using C6_warnings[OF calculateTrade_scenarioB]
  by (simp add: calculateTrade_scenarioB) (simp add: responseB_def)

text \<open>
  Claim C7 says that with \<open>lotStep > 0\<close> the returned quantity is within \<open>1e-8\<close> of
  a non-negative integer multiple of the lot step. It fails in two ways. With lots of 0.3,
  no minimum lot and a budget of \<open>10^9\<close> at a unit cost of 1 the quantity is the double
  \<open>999999999.89999997615814\<close>: the product \<open>3333333333 * 0.3\<close> is rounded to a grid
  of \<open>1.2e-7\<close>, and the nearest multiple of the double 0.3 is \<open>1.3e-8\<close> away. With
  lots of 100, a minimum lot of \<open>100.00000005\<close> and a budget that buys 10 units the
  round-up of the minimum lot absorbs the excess (\<open>5e-10\<close> lots is below its epsilon of
  \<open>1e-9\<close>) and gives 100, the threshold \<open>max(100, minLot)\<close> is the minimum lot
  itself, and the quantity \<open>100.00000005\<close> is \<open>5e-8\<close> away from the nearest
  multiple.
\<close>

theorem C7_counterexample:
  "calculateTradeD largeQuantityD = Inr largeQuantityResponseD
   \<and> InstrumentProfileD.lotStep (TradeInputD.instrument largeQuantityD) = D 0.3
   \<and> InstrumentProfileD.minLot (TradeInputD.instrument largeQuantityD) = Fin 0
   \<and> \<not> isStepMultipleD (TradeResultD.quantity (TradeCalcResponseD.result largeQuantityResponseD))
         (InstrumentProfileD.lotStep (TradeInputD.instrument largeQuantityD))
   \<and> calculateTradeD unalignedMinLotD = Inr unalignedMinLotResponseD
   \<and> InstrumentProfileD.lotStep (TradeInputD.instrument unalignedMinLotD) = Fin 100
   \<and> \<not> isStepMultipleD
         (TradeResultD.quantity (TradeCalcResponseD.result unalignedMinLotResponseD))
         (InstrumentProfileD.lotStep (TradeInputD.instrument unalignedMinLotD))"
proof -
  have l: "InstrumentProfileD.lotStep (TradeInputD.instrument largeQuantityD)
      = Fin (5404319552844595 / 18014398509481984)"
    by (simp add: largeQuantityD_def D_def rd_evals rne_def)
  have d: "D 0.3 = Fin (5404319552844595 / 18014398509481984)"
    by (simp add: D_def rd_evals rne_def)
  have q: "TradeResultD.quantity (TradeCalcResponseD.result largeQuantityResponseD)
      = Fin (8388607999161139 / 8388608)"
    by (simp add: largeQuantityResponseD_def)
  have l': "InstrumentProfileD.lotStep (TradeInputD.instrument unalignedMinLotD) = Fin 100"
    by (simp add: unalignedMinLotD_def)
  have q': "TradeResultD.quantity (TradeCalcResponseD.result unalignedMinLotResponseD)
      = Fin (7036874421284837 / 70368744177664)"
    by (simp add: unalignedMinLotResponseD_def)
  have m: "InstrumentProfileD.minLot (TradeInputD.instrument largeQuantityD) = Fin 0"
    by (simp add: largeQuantityD_def)
  show ?thesis
    unfolding l q l' q' m d isStepMultipleD.simps
    using calculateTradeD_largeQuantityD calculateTradeD_unalignedMinLotD
      not_isStepMultiple_largeD not_isStepMultiple_unalignedD
    by (intro conjI) simp_all
qed

text \<open>
  Claim C7, amended. For a successful call with a finite \<open>lotStep > 0\<close> and a returned
  quantity below \<open>10^7\<close>, the quantity is within \<open>1e-8\<close> of a non-negative integer
  multiple of the lot step, unless the minimum lot is positive and exceeds its own
  round-up to the step, and the quantity is the minimum lot rounded to eight decimals.
\<close>

theorem C7_step_multiple_below_1e7:
  assumes "calculateTradeD i = Inr r"
    and "flt (Fin 0) (InstrumentProfileD.lotStep (TradeInputD.instrument i))"
    and "isFiniteD (InstrumentProfileD.lotStep (TradeInputD.instrument i))"
    and "flt (TradeResultD.quantity (TradeCalcResponseD.result r)) (Fin (10 ^ 7))"
  shows "isStepMultipleD (TradeResultD.quantity (TradeCalcResponseD.result r))
           (InstrumentProfileD.lotStep (TradeInputD.instrument i))
       \<or> (flt (Fin 0) (InstrumentProfileD.minLot (TradeInputD.instrument i))
          \<and> flt (roundUpToStepD (InstrumentProfileD.minLot (TradeInputD.instrument i))
                   (InstrumentProfileD.lotStep (TradeInputD.instrument i)))
               (InstrumentProfileD.minLot (TradeInputD.instrument i))
          \<and> TradeResultD.quantity (TradeCalcResponseD.result r) =
              toFixed8D (InstrumentProfileD.minLot (TradeInputD.instrument i)))"
proof -
  let ?ls = "InstrumentProfileD.lotStep (TradeInputD.instrument i)"
  let ?ml = "InstrumentProfileD.minLot (TradeInputD.instrument i)"
  let ?cs = "computeStopD i"
  let ?Q = "TradeResultD.quantity (TradeCalcResponseD.result r)"
  from assms(2,3) obtain s where ls: "?ls = Fin s" and s: "0 < s"
    by (cases ?ls) simp_all
  have st: "lotStepOrOneD i = Fin s" using ls s by (simp add: lotStepOrOneD_def)
  have Q: "?Q = finalQuantityD i ?cs" by (rule calculateTradeD_Inr_fields(2)[OF assms(1)])
  from finalQuantityD_Fin obtain q where q: "finalQuantityD i ?cs = Fin q" "0 \<le> q" by blast
  have q7: "q < 10000000" using assms(4) Q q by simp
  from roundDownToStepD_stepped[OF notNeg_rawQuantityD s]
  obtain k :: nat where k: "roundedQuantityD i ?cs = toFixed8D (Fin (rnd (real k * s)))"
    unfolding roundedQuantityD_def st by blast
  from toFixed8D_Fin obtain t where t: "roundedQuantityD i ?cs = Fin t" unfolding k by blast
  have viaRounded: "isStepMultiple q s" if "unroundedQuantityD i ?cs = roundedQuantityD i ?cs"
  proof -
    have "toFixed8D (roundedQuantityD i ?cs) = Fin q"
      using q(1) that t by (simp add: finalQuantityD_def)
    from stepped_final[OF s k this q7] show ?thesis .
  qed
  have goal1: ?thesis if "isStepMultiple q s"
    using that Q q(1) ls by simp
  show ?thesis
  proof (cases "flt (Fin 0) ?ml")
    case False
    then have "unroundedQuantityD i ?cs = roundedQuantityD i ?cs"
      by (simp add: unroundedQuantityD_def minLotThresholdD_def)
    then show ?thesis by (intro goal1 viaRounded)
  next
    case True
    from roundUpToStepD_stepped[OF flt_notNeg[OF True] s]
    obtain k' :: nat where k': "roundUpToStepD ?ml (Fin s) = toFixed8D (Fin (rnd (real k' * s)))"
      by blast
    from toFixed8D_nonneg[of "rnd (real k' * s)"] s
    obtain t' where t': "roundUpToStepD ?ml (Fin s) = Fin t'" "0 \<le> t'"
      unfolding k' by (auto simp: rnd_nonneg)
    have thr: "minLotThresholdD i = fmax (Fin t') ?ml"
      using True t' by (simp add: minLotThresholdD_def st)
    show ?thesis
    proof (cases ?ml)
      case PInf
      then have "unroundedQuantityD i ?cs = PInf"
        using thr t by (simp add: unroundedQuantityD_def)
      then have "q = 0" using q(1) by (simp add: finalQuantityD_def)
      then show ?thesis using isStepMultiple_zero by (intro goal1) simp
    next
      case (Fin m)
      then have m: "0 < m" using True by simp
      show ?thesis
      proof (cases "t' < m")
        case lt: True
        then have thr': "minLotThresholdD i = Fin m" using thr Fin by simp
        show ?thesis
        proof (cases "t \<le> m")
          case True
          then have "unroundedQuantityD i ?cs = Fin m"
            using thr' t m by (simp add: unroundedQuantityD_def)
          then have "finalQuantityD i ?cs = toFixed8D ?ml"
            using Fin by (simp add: finalQuantityD_def)
          moreover have "flt (roundUpToStepD ?ml ?ls) ?ml" using t' lt Fin ls by simp
          ultimately show ?thesis using \<open>flt (Fin 0) ?ml\<close> Q by simp
        next
          case False
          then have "unroundedQuantityD i ?cs = roundedQuantityD i ?cs"
            using thr' t m by (simp add: unroundedQuantityD_def)
          then show ?thesis by (intro goal1 viaRounded)
        qed
      next
        case ge: False
        then have thr': "minLotThresholdD i = Fin t'" using thr Fin by auto
        have tp: "0 < t'" using ge m by simp
        show ?thesis
        proof (cases "t \<le> t'")
          case True
          then have "unroundedQuantityD i ?cs = Fin t'"
            using thr' t tp by (simp add: unroundedQuantityD_def)
          then have "toFixed8D (roundUpToStepD ?ml (Fin s)) = Fin q"
            using q(1) t' by (simp add: finalQuantityD_def)
          from stepped_final[OF s k' this q7] show ?thesis by (rule goal1)
        next
          case False
          then have "unroundedQuantityD i ?cs = roundedQuantityD i ?cs"
            using thr' t tp by (simp add: unroundedQuantityD_def)
          then show ?thesis by (intro goal1 viaRounded)
        qed
      qed
    next
      case NInf
      then show ?thesis using True by simp
    next
      case NaN
      then show ?thesis using True by simp
    qed
  qed
qed

text \<open>
  Scenario A returns 200 lots of 1. The input with lots of 100 and the minimum lot
  \<open>100.00000005\<close> falls under the exception: the round-up of the minimum lot is 100,
  and the quantity is the minimum lot.
\<close>

theorem C7_step_multiple_below_1e7_witness:
  "calculateTradeD scenarioAD = Inr responseAD
   \<and> flt (Fin 0) (InstrumentProfileD.lotStep (TradeInputD.instrument scenarioAD))
   \<and> flt (TradeResultD.quantity (TradeCalcResponseD.result responseAD)) (Fin (10 ^ 7))
   \<and> isStepMultipleD (TradeResultD.quantity (TradeCalcResponseD.result responseAD))
        (InstrumentProfileD.lotStep (TradeInputD.instrument scenarioAD))
   \<and> calculateTradeD unalignedMinLotD = Inr unalignedMinLotResponseD
   \<and> flt (Fin 0) (InstrumentProfileD.lotStep (TradeInputD.instrument unalignedMinLotD))
   \<and> flt (TradeResultD.quantity (TradeCalcResponseD.result unalignedMinLotResponseD))
        (Fin (10 ^ 7))
   \<and> flt (roundUpToStepD (InstrumentProfileD.minLot (TradeInputD.instrument unalignedMinLotD))
             (InstrumentProfileD.lotStep (TradeInputD.instrument unalignedMinLotD)))
        (InstrumentProfileD.minLot (TradeInputD.instrument unalignedMinLotD))
   \<and> TradeResultD.quantity (TradeCalcResponseD.result unalignedMinLotResponseD) =
       toFixed8D (InstrumentProfileD.minLot (TradeInputD.instrument unalignedMinLotD))"
proof -
  have a: "flt (Fin 0) (InstrumentProfileD.lotStep (TradeInputD.instrument scenarioAD))"
    "isFiniteD (InstrumentProfileD.lotStep (TradeInputD.instrument scenarioAD))"
    "flt (TradeResultD.quantity (TradeCalcResponseD.result responseAD)) (Fin (10 ^ 7))"
    by (simp_all add: scenarioAD_def responseAD_def)
  have na: "TradeResultD.quantity (TradeCalcResponseD.result responseAD) \<noteq>
      toFixed8D (InstrumentProfileD.minLot (TradeInputD.instrument scenarioAD))"
    by (simp add: scenarioAD_def responseAD_def rd_evals rne_def)
  have u: "flt (Fin 0) (InstrumentProfileD.lotStep (TradeInputD.instrument unalignedMinLotD))"
    "isFiniteD (InstrumentProfileD.lotStep (TradeInputD.instrument unalignedMinLotD))"
    "flt (TradeResultD.quantity (TradeCalcResponseD.result unalignedMinLotResponseD))
       (Fin (10 ^ 7))"
    by (simp_all add: unalignedMinLotD_def unalignedMinLotResponseD_def)
  have nu: "\<not> isStepMultipleD
      (TradeResultD.quantity (TradeCalcResponseD.result unalignedMinLotResponseD))
      (InstrumentProfileD.lotStep (TradeInputD.instrument unalignedMinLotD))"
    using not_isStepMultiple_unalignedD
    by (simp add: unalignedMinLotD_def unalignedMinLotResponseD_def)
  show ?thesis
    using C7_step_multiple_below_1e7[OF calculateTradeD_scenarioAD a]
      C7_step_multiple_below_1e7[OF calculateTradeD_unalignedMinLotD u]
      na nu a u calculateTradeD_scenarioAD calculateTradeD_unalignedMinLotD
    by blast
qed

text \<open>
  Claim C8 says that the final quantity is \<open>max(roundedQty, minLotThreshold)\<close> when the
  threshold is positive. It fails for lots of 1 with a minimum lot of \<open>1.0000000004\<close>
  and a budget of 0: the rounded quantity is 0, the threshold is the minimum lot, and the
  returned quantity is 1, since the code rounds the maximum to eight decimals once more.
\<close>

theorem C8_counterexample:
  "calculateTrade inputFineMinLot = Inr (lotResponse 1)
   \<and> TradeResult.quantity (result (lotResponse 1)) = 1
   \<and> minLotThreshold inputFineMinLot = 1.0000000004
   \<and> roundedQuantity inputFineMinLot (computeStop inputFineMinLot) = 0
   \<and> specQuantity inputFineMinLot (computeStop inputFineMinLot) = 1.0000000004
   \<and> TradeResult.quantity (result (lotResponse 1))
       \<noteq> specQuantity inputFineMinLot (computeStop inputFineMinLot)"
proof -
  have st: "computeStop inputFineMinLot = 1"
    by (simp add: computeStop_def inputFineMinLot_def lotInput_def)
  have q: "TradeResult.quantity (result (lotResponse 1)) = 1"
    by (simp add: lotResponse_def)
  have ne: "(1::real) \<noteq> 1.0000000004" by simp
  show ?thesis
    unfolding st q fine_values(3,4,5)
    using calculateTrade_inputFineMinLot ne by (intro conjI) simp_all
qed

text \<open>
  Claim C8, amended. With \<open>step\<close>, \<open>roundedQty\<close> and \<open>minLotThreshold\<close> as in the
  claim, the final quantity is \<open>max(roundedQty, minLotThreshold)\<close> rounded to eight
  decimals when the threshold is positive, and \<open>roundedQty\<close> otherwise;
  \<^verbatim>\<open>belowMinLot\<close> is true iff the threshold is positive, \<open>roundedQty\<close> is strictly
  below it and the final quantity is positive.
\<close>

theorem C8_final_quantity:
  assumes "calculateTrade i = Inr r"
  shows "TradeResult.quantity (result r) =
           (if 0 < minLotThreshold i
            then toFixed8 (max (roundedQuantity i (TradeResult.stop (result r))) (minLotThreshold i))
            else roundedQuantity i (TradeResult.stop (result r)))
    \<and> (TradeResult.belowMinLot (result r) \<longleftrightarrow>
          0 < minLotThreshold i
          \<and> roundedQuantity i (TradeResult.stop (result r)) < minLotThreshold i
          \<and> 0 < TradeResult.quantity (result r))"
proof -
  note f = calculateTrade_Inr_fields[OF assms]
  have "TradeResult.quantity (result r) =
           (if 0 < minLotThreshold i
            then toFixed8 (max (roundedQuantity i (computeStop i)) (minLotThreshold i))
            else roundedQuantity i (computeStop i))"
    unfolding f(8) by (simp add: specQuantity_def roundedQuantity_fixed)
  moreover have "TradeResult.belowMinLot (result r) \<longleftrightarrow>
          0 < minLotThreshold i \<and> roundedQuantity i (computeStop i) < minLotThreshold i
          \<and> 0 < TradeResult.quantity (result r)"
    unfolding f(8) f(9) by simp
  ultimately show ?thesis unfolding f(1) by simp
qed

text \<open>Scenario B: a rounded quantity of 20 raised to the minimum lot of 25.\<close>

theorem C8_final_quantity_witness:
  "calculateTrade scenarioB = Inr responseB
   \<and> minLotThreshold scenarioB = 25
   \<and> roundedQuantity scenarioB (TradeResult.stop (result responseB)) = 20
   \<and> TradeResult.quantity (result responseB) = toFixed8 (max 20 25)
   \<and> TradeResult.belowMinLot (result responseB)"
proof -
  have s: "lotStepOrOne scenarioB = 1"
    by (simp add: lotStepOrOne_def scenarioB_def)
  have m: "minLotThreshold scenarioB = 25"
    unfolding minLotThreshold_def s
    by (simp add: scenarioB_def roundUpToStep_def isFinite_def toFixed8_values Let_def)
  have st: "TradeResult.stop (result responseB) = 1 / 2"
    by (simp add: responseB_def)
  have "rawQuantity scenarioB (1 / 2) = 20"
    by (simp add: rawQuantity_def unitCost_def costPerUnit_def scenarioB_def)
  then have rq: "roundedQuantity scenarioB (1 / 2) = 20"
    unfolding roundedQuantity_def s
    by (simp add: roundDownToStep_def isFinite_def toFixed8_values Let_def)
  have q: "0 < TradeResult.quantity (result responseB)"
    by (simp add: responseB_def)
  from C8_final_quantity[OF calculateTrade_scenarioB] q
  have "TradeResult.quantity (result responseB) = toFixed8 (max 20 25)
    \<and> TradeResult.belowMinLot (result responseB)"
    unfolding st m rq by simp
  then show ?thesis unfolding st using calculateTrade_scenarioB m rq by simp
qed

text \<open>
  Claim C9. For a successful call \<^verbatim>\<open>hasFourStops\<close> is true iff \<open>atrOverStop \<ge> 4\<close>
  and the range is absent or \<open>rangeOverStop \<ge> 4\<close>; each of the two ratio warnings is
  raised only for a ratio strictly below 4, so a ratio of exactly 4 passes.
\<close>

theorem C9_four_stops:
  assumes "calculateTrade i = Inr r"
  shows "(hasFourStops (result r) \<longleftrightarrow>
            4 \<le> atrOverStop (result r)
            \<and> (rangePassed i = None \<or> (\<exists>x. rangeOverStop (result r) = Ratio x \<and> 4 \<le> x)))
    \<and> (''ATR/Stop < 4'' \<in> set (warnings (result r)) \<longleftrightarrow> atrOverStop (result r) < 4)
    \<and> (''Range/Stop < 4'' \<in> set (warnings (result r)) \<longleftrightarrow>
          rangePassed i \<noteq> None \<and> (\<exists>x. rangeOverStop (result r) = Ratio x \<and> x < 4))"
proof -
  note f = calculateTrade_Inr_fields[OF assms]
  have a: "hasFourStops (result r) \<longleftrightarrow>
            4 \<le> atrOverStop (result r)
            \<and> (rangePassed i = None \<or> (\<exists>x. rangeOverStop (result r) = Ratio x \<and> 4 \<le> x))"
    unfolding f(3,4,5) by (auto split: option.split simp: not_less)
  have b: "''ATR/Stop < 4'' \<in> set (warnings (result r)) \<longleftrightarrow> atrOverStop (result r) < 4"
    unfolding f(3,7) collectWarnings_eq by simp
  have c: "''Range/Stop < 4'' \<in> set (warnings (result r)) \<longleftrightarrow>
          rangePassed i \<noteq> None \<and> (\<exists>x. rangeOverStop (result r) = Ratio x \<and> x < 4)"
    unfolding f(4,7) collectWarnings_eq by (auto split: option.split)
  show ?thesis using a b c by blast
qed

text \<open>Both ratios exactly 4: the flag is set and neither ratio warning is raised.\<close>

theorem C9_four_stops_witness:
  "calculateTrade inputExactlyFour = Inr responseExactlyFour
   \<and> atrOverStop (result responseExactlyFour) = 4
   \<and> rangeOverStop (result responseExactlyFour) = Ratio 4
   \<and> hasFourStops (result responseExactlyFour)
   \<and> ''ATR/Stop < 4'' \<notin> set (warnings (result responseExactlyFour))
   \<and> ''Range/Stop < 4'' \<notin> set (warnings (result responseExactlyFour))"
proof -
  have v: "atrOverStop (result responseExactlyFour) = 4"
    "rangeOverStop (result responseExactlyFour) = Ratio 4"
    by (simp_all add: responseExactlyFour_def)
  have "rangePassed inputExactlyFour \<noteq> None" by (simp add: inputExactlyFour_def)
  with C9_four_stops[OF calculateTrade_inputExactlyFour] v
  have "hasFourStops (result responseExactlyFour)
    \<and> ''ATR/Stop < 4'' \<notin> set (warnings (result responseExactlyFour))
    \<and> ''Range/Stop < 4'' \<notin> set (warnings (result responseExactlyFour))"
    by simp
  then show ?thesis using v calculateTrade_inputExactlyFour by simp
qed

text \<open>
  Claim C10 says that \<open>pnlAtTp = rrMultiple * stop * quantity * contractMultiplier\<close>
  and \<open>pnlAtSl = - (stop + buffer) * quantity * contractMultiplier\<close>. The code computes
  \<open>(tpPrice - tvx) * quantity * contractMultiplier\<close> with \<open>tpPrice = tvx + rrMultiple * stop\<close>
  and \<open>- (tvx - slPrice) * quantity * contractMultiplier\<close>, and in doubles the sum and
  the differences are rounded: Scenario A gives pnlAtTp \<open>180.00000000000114\<close> against
  the product \<open>179.99999999999997\<close>, and pnlAtSl \<open>-71.99999999999989\<close> against
  \<open>-72\<close>.
\<close>

theorem C10_counterexample:
  "calculateTradeD scenarioAD = Inr responseAD
   \<and> PositionSummaryD.pnlAtTp
        (TradeResultD.positionSummary (TradeCalcResponseD.result responseAD))
      = Fin (791648371998725 / 4398046511104)
   \<and> fmul (fmul (fmul (TradeInputD.rrMultiple scenarioAD)
                   (TradeResultD.stop (TradeCalcResponseD.result responseAD)))
             (TradeResultD.quantity (TradeCalcResponseD.result responseAD)))
        (InstrumentProfileD.contractMultiplier (TradeInputD.instrument scenarioAD))
      = Fin (6333186975989759 / 35184372088832)
   \<and> PositionSummaryD.pnlAtTp
        (TradeResultD.positionSummary (TradeCalcResponseD.result responseAD))
      \<noteq> fmul (fmul (fmul (TradeInputD.rrMultiple scenarioAD)
                     (TradeResultD.stop (TradeCalcResponseD.result responseAD)))
               (TradeResultD.quantity (TradeCalcResponseD.result responseAD)))
          (InstrumentProfileD.contractMultiplier (TradeInputD.instrument scenarioAD))
   \<and> PositionSummaryD.pnlAtSl
        (TradeResultD.positionSummary (TradeCalcResponseD.result responseAD))
      = Fin (- (633318697598975 / 8796093022208))
   \<and> fmul (fmul (fneg (fadd (TradeResultD.stop (TradeCalcResponseD.result responseAD))
                         (TradeResultD.buffer (TradeCalcResponseD.result responseAD))))
             (TradeResultD.quantity (TradeCalcResponseD.result responseAD)))
        (InstrumentProfileD.contractMultiplier (TradeInputD.instrument scenarioAD))
      = Fin (- 72)
   \<and> PositionSummaryD.pnlAtSl
        (TradeResultD.positionSummary (TradeCalcResponseD.result responseAD))
      \<noteq> fmul (fmul (fneg (fadd (TradeResultD.stop (TradeCalcResponseD.result responseAD))
                           (TradeResultD.buffer (TradeCalcResponseD.result responseAD))))
               (TradeResultD.quantity (TradeCalcResponseD.result responseAD)))
          (InstrumentProfileD.contractMultiplier (TradeInputD.instrument scenarioAD))"
  using calculateTradeD_scenarioAD
  by (simp add: responseAD_def scenarioAD_def rd_evals rne_def)

text \<open>
  Claim C10, amended. For a successful call in either direction \<^verbatim>\<open>pnlAtTp\<close> is never
  negative and \<^verbatim>\<open>pnlAtSl\<close> is never positive: each of them is \<^verbatim>\<open>NaN\<close> or has the
  stated sign. The two closed forms hold in exact arithmetic only.
\<close>

theorem C10_pnl_signs:
  assumes "calculateTradeD i = Inr r"
  shows "(PositionSummaryD.pnlAtTp (TradeResultD.positionSummary (TradeCalcResponseD.result r)) = NaN
          \<or> fle (Fin 0)
               (PositionSummaryD.pnlAtTp
                  (TradeResultD.positionSummary (TradeCalcResponseD.result r))))
       \<and> (PositionSummaryD.pnlAtSl (TradeResultD.positionSummary (TradeCalcResponseD.result r)) = NaN
          \<or> fle (PositionSummaryD.pnlAtSl
                   (TradeResultD.positionSummary (TradeCalcResponseD.result r)))
               (Fin 0))"
  using pnl_signs[OF assms] unfolding notNeg_def notPos_def by (rule conjI)

text \<open>Scenario A: \<open>180.00000000000114\<close> at the target and \<open>-71.99999999999989\<close> at the stop.\<close>

theorem C10_pnl_signs_witness:
  "calculateTradeD scenarioAD = Inr responseAD
   \<and> fle (Fin 0) (PositionSummaryD.pnlAtTp
                    (TradeResultD.positionSummary (TradeCalcResponseD.result responseAD)))
   \<and> fle (PositionSummaryD.pnlAtSl
             (TradeResultD.positionSummary (TradeCalcResponseD.result responseAD))) (Fin 0)"
  using C10_pnl_signs[OF calculateTradeD_scenarioAD] calculateTradeD_scenarioAD
  by (simp add: responseAD_def)

end
